(* ===== verification/Prelude.thy ===== *)
theory Prelude
  imports Main "HOL-Library.Sublist" "HOL-Library.Stream" "HOL-Library.Char_ord"
    "HOL-Library.List_Lexorder" "HOL-Library.Multiset"
begin

text \<open>
  Shared vocabulary of the development: the types that name the values of the
  service (identifiers, timestamps), the Python built-ins the handlers use on
  strings (\<open>str.lower\<close>, \<open>str(int)\<close>, \<open>str.split(" ")\<close>, truthiness of an
  optional string, equality of Python values), the collections of rules the
  component theories share, and generic lemmas on lists that are strictly
  sorted by a key (the shape of every table of the store).
\<close>

section \<open>Rule collections\<close>

named_theorems eval_simps
  "rules that evaluate the model on concrete inputs (characters, numerals)"

named_theorems wf_intros
  "rules that establish the well-formedness of a store after an update"

lemmas char_eval [eval_simps] = char_of_def bit_0

section \<open>Types of the model\<close>

text \<open>
  Primary keys are SQLite \<open>INTEGER PRIMARY KEY\<close> columns. The service only ever
  stores positive keys; a request for a negative key finds no row, exactly as a
  request for an absent positive key does, so keys are natural numbers.
  A Python \<open>datetime\<close> is a naive timestamp, counted in microseconds (the
  resolution of \<open>datetime\<close>) from a fixed origin.
\<close>

type_synonym ident = nat
type_synonym timestamp = int

definition usec_per_day :: int where
  "usec_per_day = 86400000000"

section \<open>Python built-ins on strings\<close>

text \<open>
  \<open>str.lower\<close> and SQLite's \<open>lower()\<close> on the ASCII range: upper-case letters
  become lower-case, every other character is kept. Characters of HOL are bytes,
  so non-ASCII names are outside this model.
\<close>

definition ascii_lower :: "char \<Rightarrow> char" where
  "ascii_lower c =
     (if CHR ''A'' \<le> c \<and> c \<le> CHR ''Z'' then char_of (of_char c + (32::nat)) else c)"

definition py_lower :: "string \<Rightarrow> string" where
  "py_lower s = map ascii_lower s"

text \<open>\<open>str(n)\<close> for a non-negative Python int: its decimal digits.\<close>

fun py_str_nat :: "nat \<Rightarrow> string" where
  "py_str_nat n =
     (if n < 10 then [char_of (48 + n)]
      else py_str_nat (n div 10) @ [char_of (48 + n mod 10)])"

declare py_str_nat.simps [simp del]

text \<open>
  \<open>int(s)\<close> on a string of decimal digits, the inverse of \<open>str\<close>; the service
  never parses, the decoding serves to show that distinct draws give distinct
  suffixes.
\<close>

definition py_digits_val :: "string \<Rightarrow> nat" where
  "py_digits_val s = foldl (\<lambda>acc c. 10 * acc + (of_char c - 48)) 0 s"

text \<open>
  \<open>s.split(" ")\<close>: the pieces between single spaces, empty pieces included
  (two adjacent spaces give an empty piece); never an empty list.
\<close>

fun py_split_space :: "string \<Rightarrow> string list" where
  "py_split_space [] = [[]]"
| "py_split_space (c # cs) =
     (let r = py_split_space cs
      in if c = CHR '' '' then [] # r else (c # hd r) # tl r)"

text \<open>\<open>" ".join(ws)\<close>, the inverse of the split.\<close>

fun py_join_space :: "string list \<Rightarrow> string" where
  "py_join_space [] = []"
| "py_join_space [w] = w"
| "py_join_space (w # ws) = w @ CHR '' '' # py_join_space ws"

text \<open>
  Truthiness of an \<open>Optional[str]\<close> query parameter: \<open>None\<close> and \<open>""\<close> are
  false. The rendering of an \<open>Optional[str]\<close> inside an f-string: \<open>None\<close> is
  printed as \<open>None\<close>.
\<close>

definition py_truthy :: "string option \<Rightarrow> bool" where
  "py_truthy s = (case s of None \<Rightarrow> False | Some x \<Rightarrow> x \<noteq> [])"

definition py_fstr_opt :: "string option \<Rightarrow> string" where
  "py_fstr_opt s = (case s of None \<Rightarrow> ''None'' | Some x \<Rightarrow> x)"

text \<open>
  \<open>s.startswith(p)\<close>, and \<open>s.replace(old, new, 1)\<close>: the leftmost
  occurrence of \<open>old\<close> replaced by \<open>new\<close>, the string unchanged when there
  is none (an empty \<open>old\<close> occurs at the front).
\<close>

definition py_startswith :: "string \<Rightarrow> string \<Rightarrow> bool" where
  "py_startswith s p \<longleftrightarrow> take (length p) s = p"

fun py_replace1 :: "string \<Rightarrow> string \<Rightarrow> string \<Rightarrow> string" where
  "py_replace1 old new [] = (if old = [] then new else [])"
| "py_replace1 old new (c # cs) =
     (if py_startswith (c # cs) old then new @ drop (length old) (c # cs)
      else c # py_replace1 old new cs)"

declare py_replace1.simps [simp del]

text \<open>
  Python values as far as the service compares them: a string, an int, and a
  tuple (a SQLAlchemy \<open>Row\<close> compares as the tuple of its columns). Python's
  \<open>==\<close> on these is structural and never equates values of different types, which
  is HOL equality on this datatype; \<open>x in xs\<close> is membership under it.
\<close>

datatype pyval = PyStr string | PyInt int | PyTuple "pyval list"

definition py_in :: "pyval \<Rightarrow> pyval list \<Rightarrow> bool" where
  "py_in x xs = list_ex (\<lambda>y. y = x) xs"

section \<open>Tables as lists strictly sorted by their key\<close>

text \<open>
  Every table of the store is kept in the order SQLite scans it, ascending by
  primary key; a key is unique, so the keys are strictly increasing.
\<close>

definition keys_ordered :: "('a \<Rightarrow> nat) \<Rightarrow> 'a list \<Rightarrow> bool" where
  "keys_ordered k xs \<longleftrightarrow> sorted_wrt (<) (map k xs)"

section \<open>Lemmas on the string built-ins\<close>

lemma py_lower_length [simp]: "length (py_lower s) = length s"
  by (simp add: py_lower_def)

lemma py_lower_append [simp]: "py_lower (xs @ ys) = py_lower xs @ py_lower ys"
  by (simp add: py_lower_def)

lemma py_lower_Nil [simp]: "py_lower [] = []"
  by (simp add: py_lower_def)

lemma py_lower_Cons [simp]: "py_lower (c # cs) = ascii_lower c # py_lower cs"
  by (simp add: py_lower_def)

lemma ascii_lower_idem [simp]: "ascii_lower (ascii_lower c) = ascii_lower c"
proof -
  have "of_char c + (32::nat) < 256" if "c \<le> CHR ''Z''" for c :: char
    using that by (simp add: less_eq_char_def)
  then show ?thesis
    by (auto simp: ascii_lower_def less_eq_char_def)
qed

lemma of_char_ascii_lower:
  "of_char (ascii_lower c) =
     (if CHR ''A'' \<le> c \<and> c \<le> CHR ''Z'' then of_char c + (32::nat) else of_char c)"
  by (auto simp: ascii_lower_def less_eq_char_def)


lemma ascii_lower_other:
  "\<not> (CHR ''A'' \<le> c \<and> c \<le> CHR ''Z'') \<Longrightarrow> ascii_lower c = c"
  unfolding ascii_lower_def by (rule if_not_P)


lemma py_lower_idem [simp]: "py_lower (py_lower s) = py_lower s"
  by (simp add: py_lower_def)

lemma py_str_nat_length_3:
  assumes "100 \<le> n" and "n \<le> 999"
  shows "length (py_str_nat n) = 3"
proof -
  have "n div 10 div 10 < 10" and "\<not> n div 10 < 10" and "\<not> n < 10"
    using assms by auto
  then show ?thesis
    by (simp add: py_str_nat.simps [of n] py_str_nat.simps [of "n div 10"]
                  py_str_nat.simps [of "n div 10 div 10"])
qed

lemma py_digits_val_str_nat [simp]: "py_digits_val (py_str_nat n) = n"
proof (induction n rule: py_str_nat.induct)
  case (1 n)
  show ?case
  proof (cases "n < 10")
    case True
    then show ?thesis
      by (simp add: py_str_nat.simps [of n] py_digits_val_def)
  next
    case False
    then have "py_digits_val (py_str_nat n) = 10 * py_digits_val (py_str_nat (n div 10)) + n mod 10"
      by (simp add: py_str_nat.simps [of n] py_digits_val_def)
    with "1" False show ?thesis
      by simp
  qed
qed

lemma py_str_nat_inj: "inj py_str_nat"
  by (rule inj_on_inverseI [where g = py_digits_val]) simp

lemma py_split_space_not_Nil [simp]: "py_split_space s \<noteq> []"
  by (induction s) (auto simp: Let_def)

lemma py_split_space_length:
  "length (py_split_space s) = Suc (count_list s CHR '' '')"
  by (induction s) (auto simp: Let_def)

lemma py_split_space_two:
  "CHR '' '' \<in> set s \<Longrightarrow> 2 \<le> length (py_split_space s)"
proof -
  assume "CHR '' '' \<in> set s"
  then have "count_list s CHR '' '' \<noteq> 0"
    by (simp add: count_list_0_iff)
  then show ?thesis
    by (simp add: py_split_space_length)
qed

lemma py_split_space_pieces: "w \<in> set (py_split_space s) \<Longrightarrow> CHR '' '' \<notin> set w"
proof (induction s arbitrary: w)
  case Nil
  then show ?case by simp
next
  case (Cons c cs)
  obtain x xs where r: "py_split_space cs = x # xs"
    by (cases "py_split_space cs") auto
  show ?case
    using Cons.prems Cons.IH r by (auto simp: Let_def split: if_splits)
qed

lemma py_join_space_Cons_hd:
  "ws \<noteq> [] \<Longrightarrow> py_join_space ((c # hd ws) # tl ws) = c # py_join_space ws"
  by (cases ws rule: py_join_space.cases) auto

lemma py_join_space_Nil_Cons:
  "ws \<noteq> [] \<Longrightarrow> py_join_space ([] # ws) = CHR '' '' # py_join_space ws"
  by (cases ws) auto

lemma py_join_split_space: "py_join_space (py_split_space s) = s"
  by (induction s)
     (simp_all add: Let_def py_join_space_Cons_hd py_join_space_Nil_Cons)

lemma py_startswith_iff: "py_startswith s p \<longleftrightarrow> (\<exists>r. s = p @ r)"
  unfolding py_startswith_def by (metis append_take_drop_id append_eq_conv_conj)

lemma py_startswith_append [simp]: "py_startswith (p @ r) p"
  by (simp add: py_startswith_iff)

lemma py_startswith_Cons_not_Nil: "py_startswith s (c # cs) \<Longrightarrow> s \<noteq> []"
  by (auto simp: py_startswith_iff)

lemma py_replace1_prefix [simp]: "py_replace1 old new (old @ r) = new @ r"
proof (cases "old @ r")
  case Nil
  then show ?thesis by (simp add: py_replace1.simps)
next
  case (Cons c cs)
  then have "py_startswith (c # cs) old" by (metis py_startswith_append)
  with Cons show ?thesis by (metis py_replace1.simps(2) append_eq_conv_conj)
qed

section \<open>Lemmas on sorted tables\<close>

lemma keys_ordered_Nil [simp, wf_intros]: "keys_ordered k []"
  by (simp add: keys_ordered_def)

lemma keys_ordered_distinct: "keys_ordered k xs \<Longrightarrow> distinct (map k xs)"
  by (simp add: keys_ordered_def strict_sorted_iff)

lemma keys_ordered_filter [wf_intros]:
  "keys_ordered k xs \<Longrightarrow> keys_ordered k (filter P xs)"
  by (simp add: keys_ordered_def sorted_wrt_map sorted_wrt_filter)

lemma keys_ordered_snoc [wf_intros]:
  "keys_ordered k xs \<Longrightarrow> (\<forall>y \<in> set xs. k y < k x) \<Longrightarrow> keys_ordered k (xs @ [x])"
  by (auto simp: keys_ordered_def sorted_wrt_append)

lemma keys_ordered_map_same [wf_intros]:
  "keys_ordered k xs \<Longrightarrow> (\<forall>x \<in> set xs. k (f x) = k x) \<Longrightarrow> keys_ordered k (map f xs)"
  by (induction xs) (auto simp: keys_ordered_def)

lemma keys_ordered_find_unique:
  "keys_ordered k xs \<Longrightarrow> x \<in> set xs \<Longrightarrow> find (\<lambda>y. k y = k x) xs = Some x"
  by (induction xs) (auto simp: keys_ordered_def)

text \<open>\<open>find\<close> is \<open>.filter(key == i).first()\<close>: the first row in scan order.\<close>

lemma find_Some_in: "find P xs = Some x \<Longrightarrow> x \<in> set xs \<and> P x"
  by (auto simp: find_Some_iff)

lemma find_None_iff_all: "find P xs = None \<longleftrightarrow> (\<forall>x \<in> set xs. \<not> P x)"
  by (induction xs) auto

lemma distinct_map_eqD:
  "distinct (map f xs) \<Longrightarrow> x \<in> set xs \<Longrightarrow> y \<in> set xs \<Longrightarrow> f x = f y \<Longrightarrow> x = y"
  by (auto simp: distinct_map dest: inj_onD)

lemma find_unique:
  assumes "x \<in> set xs" and "P x" and "\<forall>y \<in> set xs. P y \<longrightarrow> y = x"
  shows "find P xs = Some x"
proof -
  have "find P xs \<noteq> None"
    using assms(1,2) by (auto simp: find_None_iff_all)
  then obtain y where y: "find P xs = Some y" by blast
  then have "y \<in> set xs \<and> P y" by (rule find_Some_in)
  with assms(3) y show ?thesis by simp
qed

lemma subseq_set_subset: "subseq xs ys \<Longrightarrow> set xs \<subseteq> set ys"
  by (auto elim: list_emb_set)

lemma comprehension_map_right:
  "[(s, a). s \<leftarrow> S, a \<leftarrow> map g q, P s a] = map (\<lambda>r. (fst r, g (snd r))) [(s, p). s \<leftarrow> S, p \<leftarrow> q, P s (g p)]"
proof (induction S)
  case Nil
  then show ?case by simp
next
  case (Cons s S)
  have "[(s, a). a \<leftarrow> map g q, P s a] = map (\<lambda>r. (fst r, g (snd r))) [(s, p). p \<leftarrow> q, P s (g p)]"
    by (induction q) auto
  with Cons.IH show ?case by simp
qed

section \<open>Results\<close>

lemma map_sum_eq_Inr_iff [simp]: "map_sum f g x = Inr y \<longleftrightarrow> (\<exists>z. x = Inr z \<and> y = g z)"
  by (cases x) auto

lemma map_sum_eq_Inl_iff [simp]: "map_sum f g x = Inl y \<longleftrightarrow> (\<exists>z. x = Inl z \<and> y = f z)"
  by (cases x) auto

end
