(* ===== verification/Store.thy ===== *)
theory Store
  imports Prelude
begin

text \<open>
  The entity store: the three tables of \<open>src/api/models.py\<close> (\<open>persons\<close>,
  \<open>shifts\<close>, \<open>overtimes\<close>) as lists of records in SQLite's scan order, the
  request schemas of \<open>src/api/schemas.py\<close>, the errors a request can end in, and
  the behaviour of the SQLite engine the service is configured with
  (\<open>src/api/database.py\<close>): new row ids, the \<open>UNIQUE\<close> and \<open>PRIMARY KEY\<close>
  constraints it enforces at commit, and the \<open>FOREIGN KEY\<close> clauses it does not
  enforce (SQLite checks foreign keys only after \<open>PRAGMA foreign_keys=ON\<close>, which
  the service never issues). The well-formedness invariant of a store and the
  lemmas that every write keeps it close the theory.
\<close>

section \<open>Rows (models.py)\<close>

text \<open>
  The \<open>field_A\<close> .. \<open>field_E\<close> placeholder columns are kept; no request ever
  writes them, so they stay \<open>NULL\<close> (\<open>None\<close>) in every row the service creates.
\<close>

record person =
  pid :: ident
  first_name :: string
  last_name :: string
  job_role :: "string option"
  birthday :: "timestamp option"
  p_created_at :: timestamp
  p_updated_at :: timestamp
  display_tag :: string
  p_field_A :: "string option"
  p_field_B :: "string option"
  p_field_C :: "string option"
  p_field_D :: "string option"
  p_field_E :: "string option"

record shift =
  sid :: ident
  start_time :: timestamp
  end_time :: timestamp
  comment :: "string option"
  person_id :: ident
  s_created_at :: timestamp
  s_updated_at :: timestamp
  s_field_A :: "string option"
  s_field_B :: "string option"
  s_field_C :: "string option"
  s_field_D :: "string option"
  s_field_E :: "string option"

record overtime =
  shift_id :: ident
  ot_type :: "string option"
  hours :: "int option"
  o_created_at :: timestamp
  o_updated_at :: timestamp
  o_field_A :: "string option"
  o_field_B :: "string option"
  o_field_C :: "string option"
  o_field_D :: "string option"
  o_field_E :: "string option"

text \<open>\<open>Shift.time_worked\<close>: the deferred column expression \<open>end_time - start_time\<close>.\<close>

definition time_worked :: "shift \<Rightarrow> int" where
  "time_worked s = end_time s - start_time s"

text \<open>The database: one list per table, each in ascending primary-key order.\<close>

record db =
  persons :: "person list"
  shifts :: "shift list"
  overtimes :: "overtime list"

definition empty_db :: db where
  "empty_db = \<lparr>persons = [], shifts = [], overtimes = []\<rparr>"

section \<open>Request bodies (schemas.py)\<close>

record person_in =
  in_first_name :: string
  in_last_name :: string
  in_job_role :: "string option"
  in_birthday :: "timestamp option"

record shift_in =
  in_start_time :: timestamp
  in_end_time :: timestamp
  in_person_id :: ident
  in_comment :: "string option"

record overtime_in =
  in_type :: string
  in_hours :: int
  in_shift_id :: ident

section \<open>Errors\<close>

text \<open>
  A request ends in a raised \<open>HTTPException\<close> (status and detail), or in an
  exception of the engine or of Python, which the framework answers with a 500:
  \<open>IntegrityError\<close> when a constraint fails at commit, \<open>ValueError\<close> for a
  failed tuple unpacking. No exception is caught by the service.
\<close>

datatype error =
    HTTPException nat string
  | IntegrityError string
  | ValueError string

definition person_not_found :: error where
  "person_not_found = HTTPException 404 ''Person not found''"

definition shift_not_found :: error where
  "shift_not_found = HTTPException 404 ''Shift not found''"

section \<open>The SQLite engine\<close>

text \<open>
  A row inserted without a key into a table whose key is an
  \<open>INTEGER PRIMARY KEY\<close> declared without \<open>AUTOINCREMENT\<close> (SQLAlchemy emits the
  keyword on SQLite only with \<open>sqlite_autoincrement=True\<close>) gets one more than
  the largest key present, and 1 in an empty table: keys of deleted rows at the
  top of the table are handed out again.
\<close>

definition sqlite_next_rowid :: "ident list \<Rightarrow> ident" where
  "sqlite_next_rowid ks = Suc (foldr max ks 0)"

text \<open>\<open>db.query(Model).filter(Model.id == i).first()\<close>.\<close>

definition find_person :: "db \<Rightarrow> ident \<Rightarrow> person option" where
  "find_person d i = find (\<lambda>p. pid p = i) (persons d)"

definition find_shift :: "db \<Rightarrow> ident \<Rightarrow> shift option" where
  "find_shift d i = find (\<lambda>s. sid s = i) (shifts d)"

text \<open>
  Committing an inserted person: the \<open>UNIQUE\<close> constraint on
  \<open>persons.display_tag\<close> is checked; a violation raises and nothing is written.
\<close>

definition insert_person :: "person \<Rightarrow> db \<Rightarrow> error + db" where
  "insert_person p d =
     (if display_tag p \<in> set (map display_tag (persons d))
      then Inl (IntegrityError ''UNIQUE constraint failed: persons.display_tag'')
      else Inr (d\<lparr>persons := persons d @ [p]\<rparr>))"

text \<open>
  Committing an inserted shift: \<open>person_id\<close> is \<open>NOT NULL\<close> and always given;
  its \<open>FOREIGN KEY\<close> is not enforced, so the row is written whatever it names.
\<close>

definition insert_shift :: "shift \<Rightarrow> db \<Rightarrow> db" where
  "insert_shift s d = d\<lparr>shifts := shifts d @ [s]\<rparr>"

text \<open>
  Committing an inserted overtime: \<open>shift_id\<close> is the table's
  \<open>INTEGER PRIMARY KEY\<close>, so it is the row id; a second row with the same
  \<open>shift_id\<close> violates the key. The foreign key to \<open>shifts\<close> is not enforced.
\<close>

definition insert_overtime :: "overtime \<Rightarrow> db \<Rightarrow> error + db" where
  "insert_overtime ot d =
     (if shift_id ot \<in> set (map shift_id (overtimes d))
      then Inl (IntegrityError ''UNIQUE constraint failed: overtimes.shift_id'')
      else Inr (d\<lparr>overtimes := insort_key shift_id ot (overtimes d)\<rparr>))"

section \<open>Well-formedness of a store\<close>

text \<open>
  What the engine and the service together keep true: each table is in strictly
  ascending key order (keys are unique), display tags are unique (the
  \<open>UNIQUE\<close> constraint), and every shift ends no earlier than it starts (the
  check of \<open>create_shift\<close> and \<open>update_shift\<close>). It says nothing about
  foreign keys: a shift may name an absent person, an overtime an absent shift.
\<close>

definition wf_db :: "db \<Rightarrow> bool" where
  "wf_db d \<longleftrightarrow>
     keys_ordered pid (persons d) \<and>
     keys_ordered sid (shifts d) \<and>
     keys_ordered shift_id (overtimes d) \<and>
     distinct (map display_tag (persons d)) \<and>
     (\<forall>s \<in> set (shifts d). start_time s \<le> end_time s)"

lemma wf_empty_db: "wf_db empty_db"
  by (simp add: wf_db_def empty_db_def)

lemma sqlite_next_rowid_gt: "k \<in> set ks \<Longrightarrow> k < sqlite_next_rowid ks"
proof -
  have "\<forall>k \<in> set ks. k \<le> foldr max ks 0"
    by (induction ks) auto
  then show "k \<in> set ks \<Longrightarrow> k < sqlite_next_rowid ks"
    by (auto simp: sqlite_next_rowid_def less_Suc_eq_le)
qed

lemma sqlite_next_rowid_fresh: "sqlite_next_rowid ks \<notin> set ks"
  using sqlite_next_rowid_gt by blast

lemma sqlite_next_rowid_Nil [simp]: "sqlite_next_rowid [] = 1"
  by (simp add: sqlite_next_rowid_def)

lemma keys_ordered_snoc_rowid [wf_intros]:
  "keys_ordered k xs \<Longrightarrow> k x = sqlite_next_rowid (map k xs) \<Longrightarrow> keys_ordered k (xs @ [x])"
  by (rule keys_ordered_snoc) (auto intro: sqlite_next_rowid_gt)

lemma keys_ordered_insort_key [wf_intros]:
  "keys_ordered k xs \<Longrightarrow> k x \<notin> k ` set xs \<Longrightarrow> keys_ordered k (insort_key k x xs)"
  by (induction xs) (auto simp: keys_ordered_def set_insort_key)

lemma find_person_Some: "find_person d i = Some p \<Longrightarrow> p \<in> set (persons d) \<and> pid p = i"
  by (auto simp: find_person_def dest: find_Some_in)

lemma find_shift_Some: "find_shift d i = Some s \<Longrightarrow> s \<in> set (shifts d) \<and> sid s = i"
  by (auto simp: find_shift_def dest: find_Some_in)

lemma find_person_wf: "wf_db d \<Longrightarrow> p \<in> set (persons d) \<Longrightarrow> find_person d (pid p) = Some p"
  by (simp add: find_person_def wf_db_def keys_ordered_find_unique)

lemma find_shift_wf: "wf_db d \<Longrightarrow> s \<in> set (shifts d) \<Longrightarrow> find_shift d (sid s) = Some s"
  by (simp add: find_shift_def wf_db_def keys_ordered_find_unique)

lemma find_person_None: "find_person d i = None \<longleftrightarrow> i \<notin> pid ` set (persons d)"
  by (auto simp: find_person_def find_None_iff_all)

lemma find_shift_None: "find_shift d i = None \<longleftrightarrow> i \<notin> sid ` set (shifts d)"
  by (auto simp: find_shift_def find_None_iff_all)

lemma insert_person_wf:
  assumes "wf_db d" and "pid p = sqlite_next_rowid (map pid (persons d))"
    and "insert_person p d = Inr d'"
  shows "wf_db d'"
  using assms by (auto simp: wf_db_def insert_person_def split: if_splits intro: wf_intros)

lemma insert_shift_wf:
  assumes "wf_db d" and "sid s = sqlite_next_rowid (map sid (shifts d))"
    and "start_time s \<le> end_time s"
  shows "wf_db (insert_shift s d)"
  using assms by (auto simp: wf_db_def insert_shift_def intro: wf_intros)

lemma insert_overtime_wf:
  assumes "wf_db d" and "insert_overtime ot d = Inr d'"
  shows "wf_db d'"
  using assms by (auto simp: wf_db_def insert_overtime_def split: if_splits intro: wf_intros)

lemma wf_db_distinct_ids:
  "wf_db d \<Longrightarrow> distinct (map sid (shifts d)) \<and> distinct (map pid (persons d))"
  by (simp add: wf_db_def keys_ordered_distinct)

end
