(* ===== verification/Query.thy ===== *)
theory Query
  imports Store
begin

text \<open>
  The query composer of \<open>src/api/helpers.py\<close>: the name search
  (\<open>person_search\<close>), the inner join of shifts with their persons
  (\<open>shift_join_with_shift_id\<close>, \<open>shift_join_with_person_id\<close>), ordering
  (\<open>sort_query_by\<close>) and the date range (\<open>apply_date_filters\<close>), and the
  pagination of \<open>fastapi_pagination\<close> the routers wrap every listing in.
  A SQLAlchemy \<open>Query\<close> is modelled by the list of rows it denotes: a filter
  is \<open>filter\<close>, an \<open>ORDER BY\<close> is a stable sort by the column. SQL evaluates
  \<open>WHERE\<close> before \<open>ORDER BY\<close> whatever order the calls were made in; the lemma
  \<open>filter_sort\<close> of the library (and its \<open>rev\<close> companion below) shows the
  eager list model agrees. Ties of an \<open>ORDER BY\<close> are ordered arbitrarily by
  SQL; the model keeps scan order for them, one of the orders SQL allows.
\<close>

section \<open>SQL LIKE\<close>

text \<open>
  \<open>value LIKE pattern\<close> without an \<open>ESCAPE\<close> clause: \<open>%\<close> matches any run of
  characters, \<open>_\<close> any one character, every other character itself. Both sides
  are lower-cased by the service before the match, so SQLite's ASCII case folding
  inside \<open>LIKE\<close> changes nothing and is left out.
\<close>

fun sql_like :: "string \<Rightarrow> string \<Rightarrow> bool" where
  "sql_like v [] = (v = [])"
| "sql_like v (c # p) =
     (if c = CHR ''%''
      then sql_like v p \<or> (case v of [] \<Rightarrow> False | _ # v' \<Rightarrow> sql_like v' (c # p))
      else (case v of [] \<Rightarrow> False | d # v' \<Rightarrow> (c = CHR ''_'' \<or> c = d) \<and> sql_like v' p))"

definition no_wildcards :: "string \<Rightarrow> bool" where
  "no_wildcards w \<longleftrightarrow> CHR ''%'' \<notin> set w \<and> CHR ''_'' \<notin> set w"

section \<open>Name search (person_search)\<close>

text \<open>
  \<open>person_search\<close>, lines 26--49: with a space, the first two pieces of
  \<open>split(" ")\<close> are unpacked into first and last name (a list of fewer than two
  pieces would raise \<open>ValueError\<close>) and both must match; without one, either
  name must match the whole string.
\<close>

definition person_search :: "string \<Rightarrow> db \<Rightarrow> error + person list" where
  "person_search search_string d =
     (let pattern = ''%'' @ search_string @ ''%''
      in if CHR '' '' \<in> set search_string then
           (case take 2 (py_split_space search_string) of
              [fname, lname] \<Rightarrow>
                Inr (filter (\<lambda>p.
                       sql_like (py_lower (first_name p)) (py_lower (''%'' @ fname @ ''%'')) \<and>
                       sql_like (py_lower (last_name p)) (py_lower (''%'' @ lname @ ''%'')))
                     (persons d))
            | _ \<Rightarrow> Inl (ValueError ''not enough values to unpack (expected 2)''))
         else
           Inr (filter (\<lambda>p.
                  sql_like (py_lower (first_name p)) (py_lower pattern) \<or>
                  sql_like (py_lower (last_name p)) (py_lower pattern))
                (persons d)))"

text \<open>
  The scope of a listing, as \<open>get_all_persons\<close> (person.py, lines 64--67) and
  \<open>get_all_shifts\<close> (shift.py, lines 55--58) both compute it: the search when
  a non-empty search string is given, every person otherwise.
\<close>

definition search_query :: "string option \<Rightarrow> db \<Rightarrow> error + person list" where
  "search_query search_string d =
     (case search_string of
        Some s \<Rightarrow> if py_truthy (Some s) then person_search s d else Inr (persons d)
      | None \<Rightarrow> Inr (persons d))"

section \<open>Ordering (sort_query_by)\<close>

text \<open>
  \<open>sort_query_by\<close>, lines 135--147. Every caller passes a mapped column, which is
  truthy; \<open>None\<close> stands for a missing attribute.
\<close>

definition sort_query_by ::
  "('r \<Rightarrow> 'k::linorder) option \<Rightarrow> string option \<Rightarrow> 'r list \<Rightarrow> error + 'r list" where
  "sort_query_by attribute order_type q =
     (case attribute of
        None \<Rightarrow> Inr q
      | Some a \<Rightarrow>
          (if order_type = Some ''asc'' then Inr (sort_key a q)
           else if order_type = Some ''desc'' then Inr (rev (sort_key a q))
           else Inl (HTTPException 400
                  (''Order type is either asc or desc, you entered '' @ py_fstr_opt order_type))))"

section \<open>Date range (apply_date_filters)\<close>

text \<open>
  \<open>datetime.combine(d, time.min)\<close> and \<open>datetime.combine(d, time.max)\<close>: the
  first and the last microsecond of the day of \<open>d\<close>.
\<close>

definition day_start :: "timestamp \<Rightarrow> timestamp" where
  "day_start d = d - d mod usec_per_day"

definition day_end :: "timestamp \<Rightarrow> timestamp" where
  "day_end d = day_start d + usec_per_day - 1"

text \<open>
  \<open>apply_date_filters\<close>, lines 150--160, over rows from which the shift is
  projected by \<open>sh\<close>. A \<open>datetime\<close> is always truthy, so \<open>if start_date:\<close> is
  \<open>start_date is not None\<close>.
\<close>

definition apply_date_filters ::
  "('r \<Rightarrow> shift) \<Rightarrow> 'r list \<Rightarrow> timestamp option \<Rightarrow> timestamp option \<Rightarrow> 'r list" where
  "apply_date_filters sh q start_date end_date =
     (let q1 = (case start_date of
                  None \<Rightarrow> q
                | Some sd \<Rightarrow> filter (\<lambda>r. day_start sd \<le> start_time (sh r)) q)
      in case end_date of
           None \<Rightarrow> q1
         | Some ed \<Rightarrow> filter (\<lambda>r. start_time (sh r) \<le> day_end ed) q1)"

section \<open>Shifts joined with their persons\<close>

text \<open>
  \<open>db.query(Shift, Person).join(Person, Shift.person_id == Person.id)\<close>: an
  inner join, shifts in scan order, each with every person it names.
\<close>

definition join_shift_person :: "db \<Rightarrow> (shift \<times> person) list" where
  "join_shift_person d = [(s, p). s \<leftarrow> shifts d, p \<leftarrow> persons d, person_id s = pid p]"

text \<open>The dictionary built from a joined row (lines 65--80 and 114--129).\<close>

record shift_out =
  out_shift :: shift
  out_first_name :: string
  out_last_name :: string

definition joined_shift_dict :: "shift \<times> person \<Rightarrow> shift_out" where
  "joined_shift_dict r =
     \<lparr>out_shift = fst r, out_first_name = first_name (snd r), out_last_name = last_name (snd r)\<rparr>"

text \<open>\<open>shift_join_with_shift_id\<close>, lines 52--82: the first joined row of the shift.\<close>

definition shift_join_with_shift_id :: "ident \<Rightarrow> db \<Rightarrow> shift_out option" where
  "shift_join_with_shift_id shift_id' d =
     map_option joined_shift_dict (find (\<lambda>r. sid (fst r) = shift_id') (join_shift_person d))"

text \<open>
  \<open>shift_join_with_person_id\<close>, lines 85--132: the joined rows of one person,
  date-filtered, sorted by start time when asked.
\<close>

definition shift_join_with_person_id ::
  "ident \<Rightarrow> db \<Rightarrow> timestamp option \<Rightarrow> timestamp option \<Rightarrow> string option \<Rightarrow> string option
   \<Rightarrow> error + shift_out list" where
  "shift_join_with_person_id person_id' d start_date end_date sort_by order_type =
     (let shift_query = filter (\<lambda>r. person_id (fst r) = person_id') (join_shift_person d);
          shift_query = apply_date_filters fst shift_query start_date end_date;
          sorted_query =
            (if sort_by = Some ''start_time''
             then sort_query_by (Some (\<lambda>r. start_time (fst r))) order_type shift_query
             else Inr shift_query)
      in case sorted_query of
           Inl e \<Rightarrow> Inl e
         | Inr rows \<Rightarrow> Inr (map joined_shift_dict rows))"

section \<open>Pagination (fastapi_pagination)\<close>

text \<open>
  \<open>paginate\<close> of \<open>fastapi_pagination\<close>, for a sequence and for a SQLAlchemy
  query alike, with the \<open>Page\<close> of \<open>fastapi_pagination.links\<close> that the
  routers declare: the page's slice of the whole result, the total count, the
  number of pages \<open>ceil(total / size)\<close>, and the links to the first, last,
  current, next and previous pages (each link is the request URL with its
  \<open>page\<close> parameter replaced, so a link is modelled by that page number). The
  query parameters \<open>page\<close> (at least 1, default 1) and \<open>size\<close> (1 to 100,
  default 50) are validated by the framework before the handler runs.
\<close>

record page_params =
  pg_page :: nat
  pg_size :: nat

record page_links =
  lk_first :: nat
  lk_last :: nat
  lk_self :: nat
  lk_next :: "nat option"
  lk_prev :: "nat option"

record 'a page =
  items :: "'a list"
  total :: nat
  page_no :: nat
  page_size :: nat
  pages :: nat
  links :: page_links

definition default_params :: page_params where
  "default_params = \<lparr>pg_page = 1, pg_size = 50\<rparr>"

definition valid_params :: "page_params \<Rightarrow> bool" where
  "valid_params pp \<longleftrightarrow> 1 \<le> pg_page pp \<and> 1 \<le> pg_size pp \<and> pg_size pp \<le> 100"

text \<open>\<open>math.ceil(a / b)\<close> for a positive \<open>b\<close>.\<close>

definition ceil_div :: "nat \<Rightarrow> nat \<Rightarrow> nat" where
  "ceil_div a b = (a + b - 1) div b"

text \<open>
  The links of a page: the last page is the page count (page 1 for an empty
  result), there is a next page while the pages so far hold fewer rows than
  the total, and a previous page from page 2 on.
\<close>

definition page_links_of :: "nat \<Rightarrow> nat \<Rightarrow> nat \<Rightarrow> page_links" where
  "page_links_of pg sz tot =
     \<lparr>lk_first = 1,
      lk_last = (if 0 < tot \<and> 0 < sz then ceil_div tot sz else 1),
      lk_self = pg,
      lk_next = (if pg * sz < tot then Some (pg + 1) else None),
      lk_prev = (if 1 \<le> pg - 1 then Some (pg - 1) else None)\<rparr>"

definition paginate :: "page_params \<Rightarrow> 'a list \<Rightarrow> 'a page" where
  "paginate pp xs =
     \<lparr>items = take (pg_size pp) (drop ((pg_page pp - 1) * pg_size pp) xs),
      total = length xs, page_no = pg_page pp, page_size = pg_size pp,
      pages = ceil_div (length xs) (pg_size pp),
      links = page_links_of (pg_page pp) (pg_size pp) (length xs)\<rparr>"

text \<open>The same page with its items converted, as the response model does.\<close>

definition map_page :: "('a \<Rightarrow> 'b) \<Rightarrow> 'a page \<Rightarrow> 'b page" where
  "map_page f pg =
     \<lparr>items = map f (items pg), total = total pg, page_no = page_no pg,
      page_size = page_size pg, pages = pages pg, links = links pg\<rparr>"


section \<open>The spec's predicates\<close>

text \<open>
  Case-insensitive substring containment of a search word in a name, and the
  inclusive day range of a listing (start of the first day to the last
  microsecond of the last day), as the spec states them.
\<close>

definition name_contains :: "string \<Rightarrow> string \<Rightarrow> bool" where
  "name_contains w name \<longleftrightarrow> sublist (py_lower w) (py_lower name)"


definition in_date_range :: "timestamp option \<Rightarrow> timestamp option \<Rightarrow> timestamp \<Rightarrow> bool" where
  "in_date_range start_date end_date t \<longleftrightarrow>
     (case start_date of None \<Rightarrow> True | Some sd \<Rightarrow> day_start sd \<le> t) \<and>
     (case end_date of None \<Rightarrow> True | Some ed \<Rightarrow> t \<le> day_end ed)"


section \<open>Lemmas: LIKE is substring containment\<close>

lemma sql_like_percent_Cons:
  "sql_like v (CHR ''%'' # p) \<longleftrightarrow> (\<exists>ys zs. v = ys @ zs \<and> sql_like zs p)"
proof (induction v)
  case Nil
  then show ?case by simp
next
  case (Cons d v)
  have "sql_like (d # v) (CHR ''%'' # p) \<longleftrightarrow> sql_like (d # v) p \<or> sql_like v (CHR ''%'' # p)"
    by simp
  also have "\<dots> \<longleftrightarrow> (\<exists>ys zs. d # v = ys @ zs \<and> sql_like zs p)"
    using Cons.IH by (auto simp: Cons_eq_append_conv)
  finally show ?case .
qed

lemma sql_like_literal_prefix:
  "no_wildcards w \<Longrightarrow> sql_like v (w @ p) \<longleftrightarrow> (\<exists>zs. v = w @ zs \<and> sql_like zs p)"
proof (induction w arbitrary: v)
  case Nil
  then show ?case by simp
next
  case (Cons c w)
  then have "no_wildcards w" and "c \<noteq> CHR ''%''" and "c \<noteq> CHR ''_''"
    by (auto simp: no_wildcards_def)
  with Cons.IH show ?case
    by (cases v) auto
qed

lemma sql_like_percent [simp]: "sql_like v ''%''"
  by (simp only: sql_like_percent_Cons) auto

lemma sql_like_contains:
  assumes "no_wildcards w"
  shows "sql_like v (''%'' @ w @ ''%'') \<longleftrightarrow> sublist w v"
proof -
  have "sql_like v (''%'' @ w @ ''%'') \<longleftrightarrow> (\<exists>ys zs. v = ys @ zs \<and> sql_like zs (w @ ''%''))"
    unfolding append_Cons append_Nil by (rule sql_like_percent_Cons)
  also have "\<dots> \<longleftrightarrow> (\<exists>ys zs. v = ys @ w @ zs)"
  proof -
    have "\<And>zs. sql_like zs (w @ ''%'') \<longleftrightarrow> prefix w zs"
      using sql_like_literal_prefix [OF assms] by (simp del: sql_like.simps add: prefix_def)
    then show ?thesis
      by (auto simp: prefix_def)
  qed
  finally show ?thesis
    by (simp add: sublist_def)
qed

lemma ascii_lower_upper_not_wildcard:
  assumes "CHR ''A'' \<le> c \<and> c \<le> CHR ''Z''"
  shows "ascii_lower c \<noteq> CHR ''%'' \<and> ascii_lower c \<noteq> CHR ''_'' \<and> c \<noteq> CHR ''%'' \<and> c \<noteq> CHR ''_''"
proof -
  have "(97::nat) \<le> of_char (ascii_lower c)"
    using assms by (simp add: of_char_ascii_lower less_eq_char_def)
  then have "ascii_lower c \<noteq> CHR ''%'' \<and> ascii_lower c \<noteq> CHR ''_''"
    by auto
  moreover have "c \<noteq> CHR ''%'' \<and> c \<noteq> CHR ''_''"
    using assms by (auto simp: less_eq_char_def)
  ultimately show ?thesis by blast
qed

lemma ascii_lower_wildcard:
  "ascii_lower c = CHR ''%'' \<longleftrightarrow> c = CHR ''%''" "ascii_lower c = CHR ''_'' \<longleftrightarrow> c = CHR ''_''"
proof -
  show "ascii_lower c = CHR ''%'' \<longleftrightarrow> c = CHR ''%''"
  proof (cases "CHR ''A'' \<le> c \<and> c \<le> CHR ''Z''")
    case True
    then show ?thesis using ascii_lower_upper_not_wildcard by blast
  next
    case False
    then show ?thesis by (simp only: ascii_lower_other [OF False])
  qed
  show "ascii_lower c = CHR ''_'' \<longleftrightarrow> c = CHR ''_''"
  proof (cases "CHR ''A'' \<le> c \<and> c \<le> CHR ''Z''")
    case True
    then show ?thesis using ascii_lower_upper_not_wildcard by blast
  next
    case False
    then show ?thesis by (simp only: ascii_lower_other [OF False])
  qed
qed

lemma no_wildcards_py_lower [simp]: "no_wildcards (py_lower w) \<longleftrightarrow> no_wildcards w"
proof -
  have "CHR ''%'' \<in> ascii_lower ` set w \<longleftrightarrow> CHR ''%'' \<in> set w"
    using ascii_lower_wildcard(1) by (metis image_iff)
  moreover have "CHR ''_'' \<in> ascii_lower ` set w \<longleftrightarrow> CHR ''_'' \<in> set w"
    using ascii_lower_wildcard(2) by (metis image_iff)
  ultimately show ?thesis
    by (simp add: no_wildcards_def py_lower_def)
qed

lemma sql_like_lower_contains:
  "no_wildcards w \<Longrightarrow>
   sql_like (py_lower v) (py_lower (CHR ''%'' # w @ ''%'')) \<longleftrightarrow> sublist (py_lower w) (py_lower v)"
proof -
  assume "no_wildcards w"
  then have "no_wildcards (py_lower w)" by simp
  moreover have "py_lower (CHR ''%'' # w @ ''%'') = ''%'' @ py_lower w @ ''%''"
    by (simp add: eval_simps ascii_lower_def)
  ultimately show ?thesis
    by (simp only: sql_like_contains)
qed

section \<open>Lemmas: the name search\<close>

text \<open>
  C11: a search string without a space and wildcards selects the persons
  whose first or last name contains it, case-insensitively.
\<close>

lemma person_search_one_word:
  assumes "CHR '' '' \<notin> set s" and "no_wildcards s"
  shows "person_search s d =
           Inr (filter (\<lambda>p. name_contains s (first_name p) \<or> name_contains s (last_name p))
                  (persons d))"
  using assms
  by (simp add: person_search_def Let_def sql_like_lower_contains name_contains_def
           del: py_lower_append py_lower_Cons)

lemma split_two_has_space:
  "py_split_space s = fname # lname # rest \<Longrightarrow> CHR '' '' \<in> set s"
proof -
  assume "py_split_space s = fname # lname # rest"
  then have "count_list s CHR '' '' \<noteq> 0"
    using py_split_space_length [of s] by simp
  then show ?thesis
    by (simp add: count_list_0_iff)
qed

text \<open>
  C10: a search string with a space and wildcard-free words selects the
  persons whose first name contains the first word and whose last name
  contains the second, case-insensitively.
\<close>

lemma person_search_two_words:
  assumes "py_split_space s = fname # lname # rest"
    and "no_wildcards fname" and "no_wildcards lname"
  shows "person_search s d =
           Inr (filter (\<lambda>p. name_contains fname (first_name p) \<and> name_contains lname (last_name p))
                  (persons d))"
  using assms split_two_has_space [OF assms(1)]
  by (simp add: person_search_def Let_def sql_like_lower_contains name_contains_def
           del: py_lower_append py_lower_Cons)

lemma person_search_no_error:
  "\<exists>ps. person_search s d = Inr ps \<and> subseq ps (persons d)"
proof (cases "CHR '' '' \<in> set s")
  case True
  then obtain fname lname rest where "py_split_space s = fname # lname # rest"
    using py_split_space_two [OF True]
    by (cases "py_split_space s" rule: remdups_adj.cases) auto
  with True show ?thesis
    by (simp add: person_search_def Let_def)
next
  case False
  then show ?thesis
    by (simp add: person_search_def Let_def)
qed

lemma search_query_no_error:
  "\<exists>q. search_query search_string d = Inr q \<and> subseq q (persons d)"
  using person_search_no_error
  by (auto simp: search_query_def py_truthy_def split: option.split)

section \<open>Lemmas: ordering, date range, pagination\<close>

lemma sort_query_by_result:
  assumes "sort_query_by (Some a) order_type q = Inr q'"
  shows "mset q' = mset q \<and>
         (order_type = Some ''asc'' \<longrightarrow> sorted (map a q')) \<and>
         (order_type = Some ''desc'' \<longrightarrow> sorted_wrt (\<ge>) (map a q'))"
  using assms
  by (auto simp: sort_query_by_def sorted_wrt_rev rev_map [symmetric] split: if_splits)

text \<open>
  C23: ordering by a known attribute fails exactly when order_type is
  neither asc nor desc (a missing order_type included).
\<close>

lemma sort_query_by_error:
  "(\<exists>e. sort_query_by (Some a) order_type q = Inl e) \<longleftrightarrow>
   order_type \<noteq> Some ''asc'' \<and> order_type \<noteq> Some ''desc''"
  by (simp add: sort_query_by_def)

lemma apply_date_filters_eq:
  "apply_date_filters sh q start_date end_date =
     filter (\<lambda>r. in_date_range start_date end_date (start_time (sh r))) q"
  by (simp add: apply_date_filters_def in_date_range_def split: option.splits)

lemma day_start_eq: "day_start d = d div usec_per_day * usec_per_day"
  by (simp add: day_start_def minus_mod_eq_div_mult)

text \<open>
  A time lies between the start and the end of the day of a date (time.min
  and time.max) exactly when it falls on that day.
\<close>

lemma same_day_iff:
  "day_start d \<le> t \<and> t \<le> day_end d \<longleftrightarrow> t div usec_per_day = d div usec_per_day"
proof -
  have u: "0 < usec_per_day" by (simp add: usec_per_day_def)
  let ?k = "d div usec_per_day"
  have "?k * usec_per_day \<le> t \<and> t \<le> ?k * usec_per_day + usec_per_day - 1 \<longleftrightarrow> t div usec_per_day = ?k"
  proof
    assume h: "?k * usec_per_day \<le> t \<and> t \<le> ?k * usec_per_day + usec_per_day - 1"
    then have "t - ?k * usec_per_day < usec_per_day" and "0 \<le> t - ?k * usec_per_day" by auto
    then have "(t - ?k * usec_per_day) div usec_per_day = 0" by (simp add: zdiv_eq_0_iff)
    moreover have "t div usec_per_day = ?k + (t - ?k * usec_per_day) div usec_per_day"
      using u div_mult_self1 [of usec_per_day "t - ?k * usec_per_day" ?k] by simp
    ultimately show "t div usec_per_day = ?k"
      by simp
  next
    assume "t div usec_per_day = ?k"
    moreover have "t div usec_per_day * usec_per_day + t mod usec_per_day = t"
      by (rule div_mult_mod_eq)
    moreover have "0 \<le> t mod usec_per_day" and "t mod usec_per_day < usec_per_day"
      using u by simp_all
    ultimately show "?k * usec_per_day \<le> t \<and> t \<le> ?k * usec_per_day + usec_per_day - 1"
      by auto
  qed
  then show ?thesis
    by (simp add: day_end_def day_start_eq)
qed

lemma insort_key_map:
  "insort_key f (g x) (map g ys) = map g (insort_key (\<lambda>y. f (g y)) x ys)"
  by (induction ys) auto

lemma sort_key_map: "sort_key f (map g xs) = map g (sort_key (\<lambda>y. f (g y)) xs)"
  by (induction xs) (simp_all add: insort_key_map)

lemma sort_query_by_map:
  "sort_query_by (Some a) order_type (map g q) =
     map_sum id (map g) (sort_query_by (Some (\<lambda>y. a (g y))) order_type q)"
  by (simp add: sort_query_by_def sort_key_map rev_map)

lemma sort_query_by_filter:
  "sort_query_by (Some a) order_type (filter P q) =
     map_sum id (filter P) (sort_query_by (Some a) order_type q)"
  by (simp add: sort_query_by_def filter_sort [symmetric] rev_filter)

lemma sort_query_by_set:
  "sort_query_by (Some a) order_type q = Inr q' \<Longrightarrow> set q' = set q"
  by (auto simp: sort_query_by_def split: if_splits)

lemma apply_date_filters_map_same:
  "(\<And>r. sh (g r) = sh' r) \<Longrightarrow>
   apply_date_filters sh (map g q) start_date end_date = map g (apply_date_filters sh' q start_date end_date)"
  by (simp add: apply_date_filters_eq filter_map comp_def)

text \<open>
  The date filter commutes with ordering: filtering the sorted rows
  equals sorting the filtered rows.
\<close>

lemma apply_date_filters_sort_key:
  "apply_date_filters sh (sort_key f q) start_date end_date =
   sort_key f (apply_date_filters sh q start_date end_date)"
  by (simp add: apply_date_filters_eq filter_sort)

lemma apply_date_filters_rev:
  "apply_date_filters sh (rev q) start_date end_date = rev (apply_date_filters sh q start_date end_date)"
  by (simp add: apply_date_filters_eq rev_filter)

lemma paginate_concat_take:
  "concat (map (\<lambda>i. items (paginate \<lparr>pg_page = Suc i, pg_size = n\<rparr> xs)) [0..<m]) = take (m * n) xs"
proof (induction m)
  case 0
  then show ?case by simp
next
  case (Suc m)
  have "take (Suc m * n) xs = take (m * n) xs @ take n (drop (m * n) xs)"
    by (metis add.commute mult_Suc take_add)
  with Suc.IH show ?case
    by (simp add: paginate_def)
qed

lemma paginate_pages_cover:
  "length xs \<le> m * n \<Longrightarrow>
   concat (map (\<lambda>i. items (paginate \<lparr>pg_page = Suc i, pg_size = n\<rparr> xs)) [0..<m]) = xs"
  by (simp add: paginate_concat_take)

lemma ceil_div_bounds:
  assumes "0 < b"
  shows "a \<le> ceil_div a b * b \<and> ceil_div a b * b < a + b"
proof -
  have e: "ceil_div a b * b + (a + b - 1) mod b = a + b - 1"
    unfolding ceil_div_def by (rule div_mult_mod_eq)
  have "(a + b - 1) mod b < b" using assms by simp
  with e assms show ?thesis by linarith
qed

lemma paginate_next_iff:
  "lk_next (links (paginate pp xs)) = Some m \<longleftrightarrow>
   pg_page pp * pg_size pp < length xs \<and> m = Suc (pg_page pp)"
  by (auto simp: paginate_def page_links_of_def)

lemma paginate_items_eq_drop:
  "pg_page pp * pg_size pp \<ge> length xs \<Longrightarrow>
   items (paginate pp xs) = drop ((pg_page pp - 1) * pg_size pp) xs"
  unfolding paginate_def by (cases "pg_page pp") (auto intro!: take_all simp: algebra_simps)

lemma paginate_items_length: "length (items (paginate pp xs)) \<le> pg_size pp"
  by (simp add: paginate_def)

lemma paginate_items_sublist: "sublist (items (paginate pp xs)) xs"
  unfolding paginate_def
  by (metis sublist_drop sublist_order.dual_order.trans sublist_take page.select_convs(1))

lemma paginate_sorted_wrt:
  "sorted_wrt R (map f xs) \<Longrightarrow> sorted_wrt R (map f (items (paginate pp xs)))"
  by (simp add: paginate_def sorted_wrt_take sorted_wrt_drop drop_map [symmetric] take_map [symmetric])

lemma paginate_set: "set (items (paginate pp xs)) \<subseteq> set xs"
  by (simp add: paginate_def) (meson in_set_dropD in_set_takeD subsetI)

section \<open>Lemmas: the join of shifts and persons\<close>

lemma join_shift_person_set:
  "r \<in> set (join_shift_person d) \<longleftrightarrow>
   fst r \<in> set (shifts d) \<and> snd r \<in> set (persons d) \<and> person_id (fst r) = pid (snd r)"
  by (cases r) (auto simp: join_shift_person_def)

lemma shift_join_with_shift_id_found:
  assumes "wf_db d" and "s \<in> set (shifts d)" and "p \<in> set (persons d)" and "person_id s = pid p"
  shows "shift_join_with_shift_id (sid s) d = Some (joined_shift_dict (s, p))"
proof -
  have ds: "distinct (map sid (shifts d))" and dp: "distinct (map pid (persons d))"
    using wf_db_distinct_ids [OF assms(1)] by simp_all
  have "find (\<lambda>r. sid (fst r) = sid s) (join_shift_person d) = Some (s, p)"
  proof (rule find_unique)
    show "(s, p) \<in> set (join_shift_person d)"
      using assms(2-4) by (simp add: join_shift_person_set)
    show "\<forall>y \<in> set (join_shift_person d). sid (fst y) = sid s \<longrightarrow> y = (s, p)"
    proof (intro ballI impI)
      fix y assume y: "y \<in> set (join_shift_person d)" and eq: "sid (fst y) = sid s"
      from y have y1: "fst y \<in> set (shifts d)" and y2: "snd y \<in> set (persons d)"
        and y3: "person_id (fst y) = pid (snd y)"
        by (simp_all add: join_shift_person_set)
      from distinct_map_eqD [OF ds y1 assms(2) eq] have "fst y = s" .
      with y3 assms(4) have "pid (snd y) = pid p" by simp
      from distinct_map_eqD [OF dp y2 assms(3) this] have "snd y = p" .
      with \<open>fst y = s\<close> show "y = (s, p)" by (cases y) simp
    qed
  qed simp
  then show ?thesis
    by (simp add: shift_join_with_shift_id_def)
qed

lemma shift_join_with_shift_id_dangling:
  assumes "wf_db d" and "s \<in> set (shifts d)" and "person_id s \<notin> pid ` set (persons d)"
  shows "shift_join_with_shift_id (sid s) d = None"
proof -
  have ds: "distinct (map sid (shifts d))"
    using wf_db_distinct_ids [OF assms(1)] by simp
  have "\<forall>r \<in> set (join_shift_person d). sid (fst r) \<noteq> sid s"
  proof
    fix r assume r: "r \<in> set (join_shift_person d)"
    show "sid (fst r) \<noteq> sid s"
    proof
      assume eq: "sid (fst r) = sid s"
      from r have "fst r \<in> set (shifts d)" and "snd r \<in> set (persons d)"
        and "person_id (fst r) = pid (snd r)"
        by (simp_all add: join_shift_person_set)
      with distinct_map_eqD [OF ds _ assms(2) eq] assms(3) show False by force
    qed
  qed
  then show ?thesis
    by (simp add: shift_join_with_shift_id_def find_None_iff_all [THEN iffD2])
qed

lemma map_filter_refetch:
  assumes "wf_db d"
    and "\<forall>r \<in> set rows. fst r \<in> set (shifts d) \<and> snd r \<in> set (persons d) \<and> person_id (fst r) = pid (snd r)"
  shows "List.map_filter (\<lambda>s. shift_join_with_shift_id (sid s) d) (map fst rows) = map joined_shift_dict rows"
  using assms(2)
proof (induction rows)
  case Nil
  then show ?case by (simp add: map_filter_simps)
next
  case (Cons r rows)
  obtain s p where r: "r = (s, p)" by (cases r)
  with Cons.prems have "shift_join_with_shift_id (sid s) d = Some (joined_shift_dict (s, p))"
    by (intro shift_join_with_shift_id_found [OF assms(1)]) auto
  with Cons r show ?case by (simp add: map_filter_simps)
qed

section \<open>Witnesses\<close>

lemma person_search_two_words_witness:
  "py_split_space ''Peter Postman'' = ''Peter'' # ''Postman'' # [] \<and>
   no_wildcards ''Peter'' \<and> no_wildcards ''Postman'' \<and>
   person_search ''Peter Postman'' (empty_db\<lparr>persons := [\<lparr>pid = 1, first_name = ''Peter'', last_name = ''Postman'', job_role = None, birthday = None,
       p_created_at = 0, p_updated_at = 0, display_tag = ''andpo512'', p_field_A = None,
       p_field_B = None, p_field_C = None, p_field_D = None, p_field_E = None\<rparr>,
     \<lparr>pid = 2, first_name = ''Alice'', last_name = ''Test'', job_role = None, birthday = None,
       p_created_at = 0, p_updated_at = 0, display_tag = ''alite733'', p_field_A = None,
       p_field_B = None, p_field_C = None, p_field_D = None, p_field_E = None\<rparr>]\<rparr>) =
     Inr (filter (\<lambda>p. name_contains ''Peter'' (first_name p) \<and> name_contains ''Postman'' (last_name p))
            (persons (empty_db\<lparr>persons := [\<lparr>pid = 1, first_name = ''Peter'', last_name = ''Postman'', job_role = None, birthday = None,
       p_created_at = 0, p_updated_at = 0, display_tag = ''andpo512'', p_field_A = None,
       p_field_B = None, p_field_C = None, p_field_D = None, p_field_E = None\<rparr>,
     \<lparr>pid = 2, first_name = ''Alice'', last_name = ''Test'', job_role = None, birthday = None,
       p_created_at = 0, p_updated_at = 0, display_tag = ''alite733'', p_field_A = None,
       p_field_B = None, p_field_C = None, p_field_D = None, p_field_E = None\<rparr>]\<rparr>)))"
  using person_search_two_words [where s = "''Peter Postman''" and fname = "''Peter''"
          and lname = "''Postman''" and rest = "[]" and d = "(empty_db\<lparr>persons := [\<lparr>pid = 1, first_name = ''Peter'', last_name = ''Postman'', job_role = None, birthday = None,
       p_created_at = 0, p_updated_at = 0, display_tag = ''andpo512'', p_field_A = None,
       p_field_B = None, p_field_C = None, p_field_D = None, p_field_E = None\<rparr>,
     \<lparr>pid = 2, first_name = ''Alice'', last_name = ''Test'', job_role = None, birthday = None,
       p_created_at = 0, p_updated_at = 0, display_tag = ''alite733'', p_field_A = None,
       p_field_B = None, p_field_C = None, p_field_D = None, p_field_E = None\<rparr>]\<rparr>)"]
  by (simp add: no_wildcards_def)

lemma person_search_one_word_witness:
  "CHR '' '' \<notin> set ''post'' \<and> no_wildcards ''post'' \<and>
   person_search ''post'' (empty_db\<lparr>persons := [\<lparr>pid = 1, first_name = ''Peter'', last_name = ''Postman'', job_role = None, birthday = None,
       p_created_at = 0, p_updated_at = 0, display_tag = ''andpo512'', p_field_A = None,
       p_field_B = None, p_field_C = None, p_field_D = None, p_field_E = None\<rparr>,
     \<lparr>pid = 2, first_name = ''Alice'', last_name = ''Test'', job_role = None, birthday = None,
       p_created_at = 0, p_updated_at = 0, display_tag = ''alite733'', p_field_A = None,
       p_field_B = None, p_field_C = None, p_field_D = None, p_field_E = None\<rparr>]\<rparr>) =
     Inr (filter (\<lambda>p. name_contains ''post'' (first_name p) \<or> name_contains ''post'' (last_name p))
            (persons (empty_db\<lparr>persons := [\<lparr>pid = 1, first_name = ''Peter'', last_name = ''Postman'', job_role = None, birthday = None,
       p_created_at = 0, p_updated_at = 0, display_tag = ''andpo512'', p_field_A = None,
       p_field_B = None, p_field_C = None, p_field_D = None, p_field_E = None\<rparr>,
     \<lparr>pid = 2, first_name = ''Alice'', last_name = ''Test'', job_role = None, birthday = None,
       p_created_at = 0, p_updated_at = 0, display_tag = ''alite733'', p_field_A = None,
       p_field_B = None, p_field_C = None, p_field_D = None, p_field_E = None\<rparr>]\<rparr>)))"
  using person_search_one_word [where s = "''post''" and d = "(empty_db\<lparr>persons := [\<lparr>pid = 1, first_name = ''Peter'', last_name = ''Postman'', job_role = None, birthday = None,
       p_created_at = 0, p_updated_at = 0, display_tag = ''andpo512'', p_field_A = None,
       p_field_B = None, p_field_C = None, p_field_D = None, p_field_E = None\<rparr>,
     \<lparr>pid = 2, first_name = ''Alice'', last_name = ''Test'', job_role = None, birthday = None,
       p_created_at = 0, p_updated_at = 0, display_tag = ''alite733'', p_field_A = None,
       p_field_B = None, p_field_C = None, p_field_D = None, p_field_E = None\<rparr>]\<rparr>)"]
  by (simp add: no_wildcards_def)

lemma paginate_pages_cover_witness:
  "length [1, 2, 3 :: nat] \<le> 2 * 2 \<and>
   concat (map (\<lambda>i. items (paginate \<lparr>pg_page = Suc i, pg_size = 2\<rparr> [1, 2, 3 :: nat])) [0..<2]) =
     [1, 2, 3]"
  using paginate_pages_cover [where xs = "[1, 2, 3 :: nat]" and m = 2 and n = 2]
  by simp

end
