(* ===== verification/Display_Tag.thy ===== *)
theory Display_Tag
  imports Store
begin

text \<open>
  \<open>generate_display_tag\<close> of \<open>src/api/helpers.py\<close> (lines 12--23): a tag from
  the first three letters of the first name, the first two of the last name and
  a random suffix from \<open>random.randint(100, 999)\<close>, regenerated while it is
  \<open>in\<close> the list of existing tags. The random draws are an explicit stream
  (one element per call of \<open>randint\<close>); the loop is a
  \<open>partial_function (option)\<close>, \<open>None\<close> being "does not return".

  The list the loop searches is \<open>db.query(models.Person.display_tag).all()\<close>:
  SQLAlchemy \<open>Row\<close>s of one column, which compare as one-element tuples. A
  \<open>str\<close> is never equal to a tuple, so the membership test is false for every
  store and the loop body never runs: the first candidate is returned whether
  or not it is taken. The theory proves this and states, as a separate abstract
  specification, the loop the code means (comparing strings), with its partial
  correctness and its termination.
\<close>

section \<open>The generator as written\<close>

text \<open>\<open>db.query(models.Person.display_tag).all()\<close>.\<close>

definition display_tag_rows :: "db \<Rightarrow> pyval list" where
  "display_tag_rows d = map (\<lambda>p. PyTuple [PyStr (display_tag p)]) (persons d)"

text \<open>\<open>person.first_name[0:3] + person.last_name[0:2]\<close>.\<close>

definition tag_prefix :: "person_in \<Rightarrow> string" where
  "tag_prefix p = take 3 (in_first_name p) @ take 2 (in_last_name p)"

text \<open>
  The \<open>while\<close> loop of lines 18--21. Its body recomputes the prefix, draws a
  suffix and, unlike the first candidate, does not lower-case the prefix.
\<close>

partial_function (option) display_tag_loop ::
  "person_in \<Rightarrow> db \<Rightarrow> nat stream \<Rightarrow> string \<Rightarrow> (string \<times> nat stream) option" where
  "display_tag_loop p d rs tag =
     (if py_in (PyStr tag) (display_tag_rows d)
      then (let prefix' = tag_prefix p; suffix = shd rs; tag' = prefix' @ py_str_nat suffix
            in display_tag_loop p d (stl rs) tag')
      else Some (tag, rs))"

text \<open>The whole function: the first candidate, then the loop.\<close>

definition generate_display_tag ::
  "person_in \<Rightarrow> db \<Rightarrow> nat stream \<Rightarrow> (string \<times> nat stream) option" where
  "generate_display_tag p d rs =
     (let prefix' = tag_prefix p; suffix = shd rs; tag = py_lower prefix' @ py_str_nat suffix
      in display_tag_loop p d (stl rs) tag)"

section \<open>The generator as meant\<close>

text \<open>
  The loop the docstring ("Generate a unique display_tag") and the spec
  describe: retry with a fresh suffix while the candidate string is one of the
  existing tags.
\<close>

partial_function (option) unique_tag_loop ::
  "string \<Rightarrow> string list \<Rightarrow> nat stream \<Rightarrow> string \<Rightarrow> (string \<times> nat stream) option" where
  "unique_tag_loop pre tags rs tag =
     (if tag \<in> set tags
      then unique_tag_loop pre tags (stl rs) (pre @ py_str_nat (shd rs))
      else Some (tag, rs))"

section \<open>Lemmas\<close>

lemma display_tag_rows_no_str: "\<not> py_in (PyStr t) (display_tag_rows d)"
  by (auto simp: py_in_def display_tag_rows_def list_ex_iff)

lemma display_tag_loop_returns: "display_tag_loop p d rs tag = Some (tag, rs)"
  by (subst display_tag_loop.simps) (simp add: display_tag_rows_no_str)

text \<open>
  C1: the generator returns its first candidate (the lower-cased prefix and
  the first draw) on every store: the retry loop never runs, because the
  string is compared with one-column rows.
\<close>

lemma generate_display_tag_first_candidate:
  "generate_display_tag p d rs = Some (py_lower (tag_prefix p) @ py_str_nat (shd rs), stl rs)"
  by (simp add: generate_display_tag_def display_tag_loop_returns)

text \<open>
  C25: a draw in the range of randint(100, 999) gives a tag of at most 8
  characters, the length of the display_tag column.
\<close>

lemma generate_display_tag_length:
  assumes "100 \<le> shd rs" and "shd rs \<le> 999"
    and "generate_display_tag p d rs = Some (t, rs')"
  shows "length t \<le> 8"
proof -
  have "length (tag_prefix p) \<le> 5"
    by (simp add: tag_prefix_def)
  moreover have "length (py_str_nat (shd rs)) = 3"
    using assms(1,2) by (rule py_str_nat_length_3)
  ultimately show ?thesis
    using assms(3) by (auto simp: generate_display_tag_def display_tag_loop_returns)
qed

lemma unique_tag_loop_fresh:
  assumes "unique_tag_loop pre tags rs tag = Some (t, rs')"
  shows "t \<notin> set tags"
proof (rule unique_tag_loop.raw_induct
         [where P = "\<lambda>pre tags rs tag r. fst r \<notin> set tags", OF _ assms, simplified])
  fix f :: "string \<Rightarrow> string list \<Rightarrow> nat stream \<Rightarrow> string \<Rightarrow> (string \<times> nat stream) option"
  fix pre tags rs tag r
  assume IH: "\<And>pre tags rs tag r. f pre tags rs tag = Some r \<Longrightarrow> fst r \<notin> set tags"
    and eq: "(if tag \<in> set tags then f pre tags (stl rs) (pre @ py_str_nat (shd rs))
             else Some (tag, rs)) = Some r"
  show "fst r \<notin> set tags"
  proof (cases "tag \<in> set tags")
    case True
    with eq IH show ?thesis by simp
  next
    case False
    with eq show ?thesis by auto
  qed
qed

lemma unique_tag_loop_terminates:
  "pre @ py_str_nat (rs !! n) \<notin> set tags \<Longrightarrow>
   \<exists>t rs'. unique_tag_loop pre tags rs tag = Some (t, rs')"
proof (induction n arbitrary: rs tag)
  case 0
  show ?case
  proof (cases "tag \<in> set tags")
    case True
    then have "unique_tag_loop pre tags rs tag =
                 unique_tag_loop pre tags (stl rs) (pre @ py_str_nat (shd rs))"
      by (subst unique_tag_loop.simps) simp
    moreover have "unique_tag_loop pre tags (stl rs) (pre @ py_str_nat (shd rs)) =
                     Some (pre @ py_str_nat (shd rs), stl rs)"
      using "0.prems" by (subst unique_tag_loop.simps) simp
    ultimately show ?thesis by simp
  next
    case False
    then show ?thesis by (subst unique_tag_loop.simps) simp
  qed
next
  case (Suc n)
  show ?case
  proof (cases "tag \<in> set tags")
    case True
    have "pre @ py_str_nat (stl rs !! n) \<notin> set tags"
      using Suc.prems by simp
    then obtain t rs' where
      "unique_tag_loop pre tags (stl rs) (pre @ py_str_nat (shd rs)) = Some (t, rs')"
      using Suc.IH by blast
    with True show ?thesis
      by (subst unique_tag_loop.simps) simp
  next
    case False
    then show ?thesis by (subst unique_tag_loop.simps) simp
  qed
qed

text \<open>
  The generator returns a tag that is not yet taken exactly when its
  first candidate is not taken.
\<close>

lemma generate_display_tag_meets_spec_iff:
  "(\<exists>t rs'. generate_display_tag p d rs = Some (t, rs') \<and> t \<notin> display_tag ` set (persons d)) \<longleftrightarrow>
   py_lower (tag_prefix p) @ py_str_nat (shd rs) \<notin> display_tag ` set (persons d)"
  by (simp add: generate_display_tag_def display_tag_loop_returns)

text \<open>
  Capacity of a prefix: \<open>randint(100, 999)\<close> has 900 values, and distinct draws
  give distinct tags, so a set of fewer than 900 tags leaves some draw free.
\<close>

lemma free_suffix_exists:
  assumes "finite T" and "card T < 900"
  shows "\<exists>n. 100 \<le> n \<and> n \<le> 999 \<and> pre @ py_str_nat n \<notin> T"
proof (rule ccontr)
  let ?f = "\<lambda>n. pre @ py_str_nat n"
  assume "\<not> ?thesis"
  then have sub: "?f ` {100..999} \<subseteq> T"
    by auto
  have "inj_on ?f {100..999}"
    using py_str_nat_inj by (auto simp: inj_on_def inj_eq)
  then have "card (?f ` {100..999}) = 900"
    by (simp add: card_image)
  with card_mono [OF assms(1) sub] assms(2) show False
    by simp
qed

section \<open>Witnesses\<close>

lemma generate_display_tag_length_witness:
  "100 \<le> shd (sconst (512::nat)) \<and> shd (sconst (512::nat)) \<le> 999 \<and>
   generate_display_tag \<lparr>in_first_name = ''Anders'', in_last_name = ''Postman'',
                          in_job_role = None, in_birthday = None\<rparr> empty_db (sconst 512) =
     Some (''andpo512'', sconst 512) \<and>
   length ''andpo512'' \<le> 8"
  using generate_display_tag_length
          [where rs = "sconst 512" and d = empty_db and t = "''andpo512''" and rs' = "sconst 512"
             and p = "\<lparr>in_first_name = ''Anders'', in_last_name = ''Postman'',
                       in_job_role = None, in_birthday = None\<rparr>"]
  by (simp add: generate_display_tag_def display_tag_loop_returns tag_prefix_def ascii_lower_def
                py_str_nat.simps eval_simps)

lemma unique_tag_loop_fresh_witness:
  "unique_tag_loop ''ab'' [''ab1''] (2 ## sconst 3) ''ab1'' = Some (''ab2'', sconst 3) \<and>
   ''ab2'' \<notin> set [''ab1'']"
  using unique_tag_loop_fresh
          [where pre = "''ab''" and tags = "[''ab1'']" and rs = "2 ## sconst 3" and tag = "''ab1''"
             and t = "''ab2''" and rs' = "sconst 3"]
  by (simp add: unique_tag_loop.simps [of _ _ _ "''ab1''"] unique_tag_loop.simps [of _ _ _ "''ab2''"]
                py_str_nat.simps eval_simps)

lemma unique_tag_loop_terminates_witness:
  "''ab'' @ py_str_nat (sconst 2 !! 0) \<notin> set [''ab1''] \<and>
   (\<exists>t rs'. unique_tag_loop ''ab'' [''ab1''] (sconst 2) ''ab1'' = Some (t, rs'))"
  using unique_tag_loop_terminates
          [where pre = "''ab''" and rs = "sconst 2" and n = 0 and tags = "[''ab1'']" and tag = "''ab1''"]
  by (simp add: py_str_nat.simps eval_simps)

end
