(* ===== verification/Person_Router.thy ===== *)
theory Person_Router
  imports Query Display_Tag
begin

text \<open>
  The handlers of \<open>src/api/routers/person.py\<close>. Each takes the store and
  returns its result (an \<open>error\<close> or the response body) with the store after
  the request: a request that raises commits nothing. \<open>datetime.now\<close> (the
  \<open>default\<close> and \<open>onupdate\<close> of the timestamp columns) is the argument
  \<open>now\<close>; the draws of \<open>random.randint\<close> are the stream \<open>rs\<close>.
  \<open>create_person\<close> runs the tag generator, whose loop may in principle not
  return, so its result is an option; \<open>create_person_returns\<close> shows it always
  returns.
\<close>

section \<open>Handlers\<close>

text \<open>The row built by \<open>models.Person(...)\<close> in \<open>create_person\<close>, lines 31--37.\<close>

definition new_person_row :: "person_in \<Rightarrow> timestamp \<Rightarrow> string \<Rightarrow> db \<Rightarrow> person" where
  "new_person_row person now tag d =
     \<lparr>pid = sqlite_next_rowid (map pid (persons d)),
      first_name = in_first_name person, last_name = in_last_name person,
      job_role = in_job_role person, birthday = in_birthday person,
      p_created_at = now, p_updated_at = now, display_tag = tag,
      p_field_A = None, p_field_B = None, p_field_C = None, p_field_D = None,
      p_field_E = None\<rparr>"

text \<open>\<open>create_person\<close>, lines 21--42.\<close>

definition create_person ::
  "person_in \<Rightarrow> timestamp \<Rightarrow> nat stream \<Rightarrow> db \<Rightarrow> ((error + person_in) \<times> db) option" where
  "create_person person now rs d =
     (case generate_display_tag person d rs of
        None \<Rightarrow> None
      | Some (tag, _) \<Rightarrow>
          (let db_person = new_person_row person now tag d
           in case insert_person db_person d of
                Inl e \<Rightarrow> Some (Inl e, d)
              | Inr d' \<Rightarrow> Some (Inr person, d')))"

text \<open>\<open>get_person_by_id\<close>, lines 45--52.\<close>

definition get_person_by_id :: "ident \<Rightarrow> db \<Rightarrow> error + person" where
  "get_person_by_id person_id' d =
     (case find_person d person_id' of
        Some p \<Rightarrow> Inr p
      | None \<Rightarrow> Inl person_not_found)"

text \<open>The dictionary \<open>sort_by_map\<close> and its \<open>get\<close>, lines 69--74.\<close>

definition sort_by_map :: "string option \<Rightarrow> (person \<Rightarrow> string) option" where
  "sort_by_map sort_by =
     (if sort_by = Some ''last_name'' then Some last_name
      else if sort_by = Some ''first_name'' then Some first_name
      else None)"

text \<open>\<open>get_all_persons\<close>, lines 55--87, with its own copy of the ordering code.\<close>

definition get_all_persons ::
  "string option \<Rightarrow> string option \<Rightarrow> string option \<Rightarrow> page_params \<Rightarrow> db \<Rightarrow> error + person page" where
  "get_all_persons search_string order_type sort_by pp d =
     (let query = search_query search_string d
      in case query of
           Inl e \<Rightarrow> Inl e
         | Inr q \<Rightarrow>
             (case sort_by_map sort_by of
                None \<Rightarrow> Inr (paginate pp q)
              | Some attribute \<Rightarrow>
                  (if order_type = Some ''asc'' then Inr (paginate pp (sort_key attribute q))
                   else if order_type = Some ''desc''
                   then Inr (paginate pp (rev (sort_key attribute q)))
                   else Inl (HTTPException 400
                          (''Order type is either asc or desc, you entered '' @
                           py_fstr_opt order_type)))))"

text \<open>
  \<open>update_person\<close>, lines 90--108: a bulk \<open>UPDATE\<close> of the four fields;
  \<open>updated_at\<close> gets its \<open>onupdate\<close> value, nothing else changes.
\<close>

definition update_person :: "person_in \<Rightarrow> ident \<Rightarrow> timestamp \<Rightarrow> db \<Rightarrow> (error + person_in) \<times> db" where
  "update_person person person_id' now d =
     (case find_person d person_id' of
        Some _ \<Rightarrow>
          (Inr person,
           d\<lparr>persons := map (\<lambda>p. if pid p = person_id'
                                 then p\<lparr>first_name := in_first_name person,
                                        last_name := in_last_name person,
                                        job_role := in_job_role person,
                                        birthday := in_birthday person,
                                        p_updated_at := now\<rparr>
                                 else p) (persons d)\<rparr>)
      | None \<Rightarrow> (Inl person_not_found, d))"

text \<open>\<open>get_shifts\<close>, lines 111--128.\<close>

definition get_shifts ::
  "ident \<Rightarrow> timestamp option \<Rightarrow> timestamp option \<Rightarrow> string option \<Rightarrow> string option \<Rightarrow>
   page_params \<Rightarrow> db \<Rightarrow> error + shift_out page" where
  "get_shifts person_id' start_date end_date sort_by order_type pp d =
     (case find_person d person_id' of
        Some _ \<Rightarrow>
          (case shift_join_with_person_id person_id' d start_date end_date sort_by order_type of
             Inl e \<Rightarrow> Inl e
           | Inr shifts' \<Rightarrow> Inr (paginate pp shifts'))
      | None \<Rightarrow> Inl person_not_found)"

text \<open>
  \<open>delete_person\<close>, lines 131--143: the person's shifts, then the person, in
  one commit. The overtimes of the deleted shifts are not touched.
\<close>

definition delete_person :: "ident \<Rightarrow> db \<Rightarrow> (error + string) \<times> db" where
  "delete_person person_id' d =
     (case find_person d person_id' of
        Some _ \<Rightarrow>
          (Inr ''Person deleted successfully'',
           d\<lparr>shifts := filter (\<lambda>s. person_id s \<noteq> person_id') (shifts d),
             persons := filter (\<lambda>p. pid p \<noteq> person_id') (persons d)\<rparr>)
      | None \<Rightarrow> (Inl person_not_found, d))"

section \<open>Lemmas\<close>

text \<open>The tag \<open>generate_display_tag\<close> returns (its first candidate).\<close>

abbreviation first_tag :: "person_in \<Rightarrow> nat stream \<Rightarrow> string" where
  "first_tag p rs \<equiv> py_lower (tag_prefix p) @ py_str_nat (shd rs)"

lemma create_person_eq:
  "create_person p now rs d =
     (case insert_person (new_person_row p now (first_tag p rs) d) d of
        Inl e \<Rightarrow> Some (Inl e, d)
      | Inr d' \<Rightarrow> Some (Inr p, d'))"
  by (simp add: create_person_def generate_display_tag_def display_tag_loop_returns new_person_row_def)

lemma create_person_returns: "\<exists>r d'. create_person p now rs d = Some (r, d')"
  by (simp add: create_person_eq split: sum.split)

text \<open>
  C2: when the first candidate tag is already taken, POST /person fails with
  the UNIQUE violation of persons.display_tag and leaves the store
  unchanged.
\<close>

lemma create_person_duplicate_tag:
  assumes "first_tag p rs \<in> display_tag ` set (persons d)"
  shows "create_person p now rs d =
           Some (Inl (IntegrityError ''UNIQUE constraint failed: persons.display_tag''), d)"
proof -
  have "display_tag (new_person_row p now (first_tag p rs) d) = first_tag p rs"
    by (simp add: new_person_row_def)
  with assms have "insert_person (new_person_row p now (first_tag p rs) d) d =
                     Inl (IntegrityError ''UNIQUE constraint failed: persons.display_tag'')"
    by (simp add: insert_person_def)
  then show ?thesis
    by (simp add: create_person_eq)
qed

lemma create_person_fresh_tag:
  assumes "first_tag p rs \<notin> display_tag ` set (persons d)"
  shows "create_person p now rs d =
           Some (Inr p, d\<lparr>persons := persons d @ [new_person_row p now (first_tag p rs) d]\<rparr>)"
proof -
  have "display_tag (new_person_row p now (first_tag p rs) d) = first_tag p rs"
    by (simp add: new_person_row_def)
  with assms have "insert_person (new_person_row p now (first_tag p rs) d) d =
                     Inr (d\<lparr>persons := persons d @ [new_person_row p now (first_tag p rs) d]\<rparr>)"
    by (simp add: insert_person_def)
  then show ?thesis
    by (simp add: create_person_eq)
qed

lemma create_person_wf:
  assumes "create_person p now rs d = Some (r, d')" and "wf_db d"
  shows "wf_db d'"
proof (cases "insert_person (new_person_row p now (first_tag p rs) d) d")
  case (Inl e)
  with assms show ?thesis by (simp add: create_person_eq)
next
  case (Inr d'')
  with assms(1) have "d' = d''" by (simp add: create_person_eq)
  moreover have "pid (new_person_row p now (first_tag p rs) d) = sqlite_next_rowid (map pid (persons d))"
    by (simp add: new_person_row_def)
  ultimately show ?thesis
    using insert_person_wf [OF assms(2)] Inr by blast
qed

lemma get_person_by_id_found:
  "wf_db d \<Longrightarrow> get_person_by_id i d = Inr p \<longleftrightarrow> p \<in> set (persons d) \<and> pid p = i"
  by (auto simp: get_person_by_id_def wf_db_def find_person_def keys_ordered_find_unique
           dest: find_Some_in split: option.splits)

lemma update_person_keeps_keys_and_tags:
  assumes "update_person person i now d = (r, d')"
  shows "map pid (persons d') = map pid (persons d) \<and>
         map display_tag (persons d') = map display_tag (persons d) \<and>
         shifts d' = shifts d \<and> overtimes d' = overtimes d"
  using assms by (auto simp: update_person_def split: option.splits)

text \<open>
  C22: after a successful PUT /person/{id}, the person with that id has the
  four fields of the body and the update time.
\<close>

lemma update_person_fields:
  assumes "update_person person i now d = (Inr r, d')" and "p' \<in> set (persons d')" and "pid p' = i"
  shows "first_name p' = in_first_name person \<and> last_name p' = in_last_name person \<and>
         job_role p' = in_job_role person \<and> birthday p' = in_birthday person \<and>
         p_updated_at p' = now"
proof -
  let ?upd = "\<lambda>p. p\<lparr>first_name := in_first_name person, last_name := in_last_name person,
                     job_role := in_job_role person, birthday := in_birthday person,
                     p_updated_at := now\<rparr>"
  from assms(1) have "persons d' = map (\<lambda>p. if pid p = i then ?upd p else p) (persons d)"
    by (auto simp: update_person_def split: option.splits)
  with assms(2) obtain p0 where "p0 \<in> set (persons d)" and p': "p' = (if pid p0 = i then ?upd p0 else p0)"
    by auto
  moreover from p' assms(3) have "pid p0 = i"
    by (simp split: if_splits)
  ultimately show ?thesis
    by simp
qed

lemma update_person_wf:
  "update_person person i now d = (r, d') \<Longrightarrow> wf_db d \<Longrightarrow> wf_db d'"
proof -
  assume u: "update_person person i now d = (r, d')" and wf: "wf_db d"
  from u have "map pid (persons d') = map pid (persons d)"
    and "map display_tag (persons d') = map display_tag (persons d)"
    and "shifts d' = shifts d" and "overtimes d' = overtimes d"
    using update_person_keeps_keys_and_tags by blast+
  with wf show "wf_db d'"
    by (simp add: wf_db_def keys_ordered_def)
qed

text \<open>
  C6: a successful DELETE /person/{id} removes the person and exactly their
  shifts, and leaves every overtime in place.
\<close>

lemma delete_person_cascade:
  assumes "delete_person i d = (Inr m, d')"
  shows "i \<notin> pid ` set (persons d') \<and> i \<notin> person_id ` set (shifts d') \<and>
         shifts d' = filter (\<lambda>s. person_id s \<noteq> i) (shifts d) \<and>
         persons d' = filter (\<lambda>p. pid p \<noteq> i) (persons d) \<and>
         overtimes d' = overtimes d"
  using assms by (auto simp: delete_person_def split: option.splits)

text \<open>
  DELETE /person/{id} on an absent id answers 404 \<open>Person not
  found\<close>, the store unchanged.
\<close>

lemma delete_person_not_found:
  "find_person d i = None \<Longrightarrow> delete_person i d = (Inl person_not_found, d)"
  by (simp add: delete_person_def)

lemma delete_person_wf:
  "delete_person i d = (r, d') \<Longrightarrow> wf_db d \<Longrightarrow> wf_db d'"
  by (auto simp: delete_person_def wf_db_def distinct_map_filter split: option.splits
           intro: wf_intros)


text \<open>
  C36: after a successful POST /person, GET /person/{id} on the id the row
  received returns the posted first name, last name, job role and birthday,
  with the generated tag.
\<close>

lemma create_person_get_roundtrip:
  assumes "wf_db d" and "create_person p now rs d = Some (Inr p', d')"
  shows "p' = p \<and>
         (\<exists>q. get_person_by_id (sqlite_next_rowid (map pid (persons d))) d' = Inr q \<and>
              first_name q = in_first_name p \<and> last_name q = in_last_name p \<and>
              job_role q = in_job_role p \<and> birthday q = in_birthday p \<and>
              display_tag q = first_tag p rs)"
proof -
  let ?row = "new_person_row p now (first_tag p rs) d"
  have fresh: "first_tag p rs \<notin> display_tag ` set (persons d)"
    using assms(2) create_person_duplicate_tag by fastforce
  from trans [OF assms(2) [symmetric] create_person_fresh_tag [OF fresh, of now]]
  have p': "p' = p" and d': "d' = d\<lparr>persons := persons d @ [?row]\<rparr>"
    by simp_all
  have "wf_db d'"
    using create_person_wf [OF assms(2,1)] .
  moreover have "?row \<in> set (persons d')"
    by (simp add: d')
  ultimately have "find_person d' (pid ?row) = Some ?row"
    by (rule find_person_wf)
  then have "get_person_by_id (sqlite_next_rowid (map pid (persons d))) d' = Inr ?row"
    by (simp add: get_person_by_id_def new_person_row_def)
  with p' show ?thesis
    by (simp add: new_person_row_def)
qed

text \<open>
  C38: while fewer than 900 persons are stored, some draw of randint(100,
  999) makes POST /person succeed: creating a person never becomes
  impossible.
\<close>

lemma create_person_some_draw_succeeds:
  assumes "length (persons d) < 900"
  shows "\<exists>n d'. 100 \<le> n \<and> n \<le> 999 \<and> create_person p now (sconst n) d = Some (Inr p, d')"
proof -
  have "card (display_tag ` set (persons d)) < 900"
    using assms card_image_le [of "set (persons d)" display_tag] card_length [of "persons d"]
    by simp
  then obtain n where n: "100 \<le> n" "n \<le> 999"
    and free: "py_lower (tag_prefix p) @ py_str_nat n \<notin> display_tag ` set (persons d)"
    using free_suffix_exists [of "display_tag ` set (persons d)"] by auto
  from free have "first_tag p (sconst n) \<notin> display_tag ` set (persons d)"
    by simp
  from create_person_fresh_tag [OF this, of now] n show ?thesis
    by blast
qed

section \<open>Witnesses\<close>

lemma create_person_duplicate_tag_witness:
  "first_tag \<lparr>in_first_name = ''Anders'', in_last_name = ''Postman'', in_job_role = None, in_birthday = None\<rparr> (sconst 512) \<in> display_tag ` set (persons (snd (the (create_person \<lparr>in_first_name = ''Anders'', in_last_name = ''Postman'', in_job_role = None, in_birthday = None\<rparr> 0 (sconst 512) empty_db)))) \<and>
   create_person \<lparr>in_first_name = ''Anders'', in_last_name = ''Postman'', in_job_role = None, in_birthday = None\<rparr> 1 (sconst 512) (snd (the (create_person \<lparr>in_first_name = ''Anders'', in_last_name = ''Postman'', in_job_role = None, in_birthday = None\<rparr> 0 (sconst 512) empty_db))) =
     Some (Inl (IntegrityError ''UNIQUE constraint failed: persons.display_tag''), (snd (the (create_person \<lparr>in_first_name = ''Anders'', in_last_name = ''Postman'', in_job_role = None, in_birthday = None\<rparr> 0 (sconst 512) empty_db))))"
  using create_person_duplicate_tag [where p = "\<lparr>in_first_name = ''Anders'', in_last_name = ''Postman'', in_job_role = None, in_birthday = None\<rparr>" and rs = "sconst 512" and now = 1
          and d = "(snd (the (create_person \<lparr>in_first_name = ''Anders'', in_last_name = ''Postman'', in_job_role = None, in_birthday = None\<rparr> 0 (sconst 512) empty_db)))"]
  by (simp add: create_person_eq empty_db_def insert_person_def new_person_row_def sqlite_next_rowid_def
                tag_prefix_def ascii_lower_def py_str_nat.simps eval_simps)

lemma delete_person_cascade_witness:
  "delete_person 1 ((snd (the (create_person \<lparr>in_first_name = ''Anders'', in_last_name = ''Postman'', in_job_role = None, in_birthday = None\<rparr> 0 (sconst 512) empty_db)))\<lparr>shifts := [\<lparr>sid = 1, start_time = 10, end_time = 20, comment = None, person_id = 1, s_created_at = 0,
      s_updated_at = 0, s_field_A = None, s_field_B = None, s_field_C = None, s_field_D = None,
      s_field_E = None\<rparr>], overtimes := [\<lparr>shift_id = 1, ot_type = None, hours = Some 1, o_created_at = 0, o_updated_at = 0,
      o_field_A = None, o_field_B = None, o_field_C = None, o_field_D = None, o_field_E = None\<rparr>]\<rparr>) = (Inr ''Person deleted successfully'', snd (delete_person 1 ((snd (the (create_person \<lparr>in_first_name = ''Anders'', in_last_name = ''Postman'', in_job_role = None, in_birthday = None\<rparr> 0 (sconst 512) empty_db)))\<lparr>shifts := [\<lparr>sid = 1, start_time = 10, end_time = 20, comment = None, person_id = 1, s_created_at = 0,
      s_updated_at = 0, s_field_A = None, s_field_B = None, s_field_C = None, s_field_D = None,
      s_field_E = None\<rparr>], overtimes := [\<lparr>shift_id = 1, ot_type = None, hours = Some 1, o_created_at = 0, o_updated_at = 0,
      o_field_A = None, o_field_B = None, o_field_C = None, o_field_D = None, o_field_E = None\<rparr>]\<rparr>))) \<and>
   shifts (snd (delete_person 1 ((snd (the (create_person \<lparr>in_first_name = ''Anders'', in_last_name = ''Postman'', in_job_role = None, in_birthday = None\<rparr> 0 (sconst 512) empty_db)))\<lparr>shifts := [\<lparr>sid = 1, start_time = 10, end_time = 20, comment = None, person_id = 1, s_created_at = 0,
      s_updated_at = 0, s_field_A = None, s_field_B = None, s_field_C = None, s_field_D = None,
      s_field_E = None\<rparr>], overtimes := [\<lparr>shift_id = 1, ot_type = None, hours = Some 1, o_created_at = 0, o_updated_at = 0,
      o_field_A = None, o_field_B = None, o_field_C = None, o_field_D = None, o_field_E = None\<rparr>]\<rparr>))) = [] \<and>
   persons (snd (delete_person 1 ((snd (the (create_person \<lparr>in_first_name = ''Anders'', in_last_name = ''Postman'', in_job_role = None, in_birthday = None\<rparr> 0 (sconst 512) empty_db)))\<lparr>shifts := [\<lparr>sid = 1, start_time = 10, end_time = 20, comment = None, person_id = 1, s_created_at = 0,
      s_updated_at = 0, s_field_A = None, s_field_B = None, s_field_C = None, s_field_D = None,
      s_field_E = None\<rparr>], overtimes := [\<lparr>shift_id = 1, ot_type = None, hours = Some 1, o_created_at = 0, o_updated_at = 0,
      o_field_A = None, o_field_B = None, o_field_C = None, o_field_D = None, o_field_E = None\<rparr>]\<rparr>))) = [] \<and>
   overtimes (snd (delete_person 1 ((snd (the (create_person \<lparr>in_first_name = ''Anders'', in_last_name = ''Postman'', in_job_role = None, in_birthday = None\<rparr> 0 (sconst 512) empty_db)))\<lparr>shifts := [\<lparr>sid = 1, start_time = 10, end_time = 20, comment = None, person_id = 1, s_created_at = 0,
      s_updated_at = 0, s_field_A = None, s_field_B = None, s_field_C = None, s_field_D = None,
      s_field_E = None\<rparr>], overtimes := [\<lparr>shift_id = 1, ot_type = None, hours = Some 1, o_created_at = 0, o_updated_at = 0,
      o_field_A = None, o_field_B = None, o_field_C = None, o_field_D = None, o_field_E = None\<rparr>]\<rparr>))) = [\<lparr>shift_id = 1, ot_type = None, hours = Some 1, o_created_at = 0, o_updated_at = 0,
      o_field_A = None, o_field_B = None, o_field_C = None, o_field_D = None, o_field_E = None\<rparr>]"
  using delete_person_cascade [where i = 1 and d = "((snd (the (create_person \<lparr>in_first_name = ''Anders'', in_last_name = ''Postman'', in_job_role = None, in_birthday = None\<rparr> 0 (sconst 512) empty_db)))\<lparr>shifts := [\<lparr>sid = 1, start_time = 10, end_time = 20, comment = None, person_id = 1, s_created_at = 0,
      s_updated_at = 0, s_field_A = None, s_field_B = None, s_field_C = None, s_field_D = None,
      s_field_E = None\<rparr>], overtimes := [\<lparr>shift_id = 1, ot_type = None, hours = Some 1, o_created_at = 0, o_updated_at = 0,
      o_field_A = None, o_field_B = None, o_field_C = None, o_field_D = None, o_field_E = None\<rparr>]\<rparr>)" and m = "''Person deleted successfully''"
          and d' = "snd (delete_person 1 ((snd (the (create_person \<lparr>in_first_name = ''Anders'', in_last_name = ''Postman'', in_job_role = None, in_birthday = None\<rparr> 0 (sconst 512) empty_db)))\<lparr>shifts := [\<lparr>sid = 1, start_time = 10, end_time = 20, comment = None, person_id = 1, s_created_at = 0,
      s_updated_at = 0, s_field_A = None, s_field_B = None, s_field_C = None, s_field_D = None,
      s_field_E = None\<rparr>], overtimes := [\<lparr>shift_id = 1, ot_type = None, hours = Some 1, o_created_at = 0, o_updated_at = 0,
      o_field_A = None, o_field_B = None, o_field_C = None, o_field_D = None, o_field_E = None\<rparr>]\<rparr>))"]
  by (simp add: delete_person_def find_person_def create_person_eq empty_db_def insert_person_def new_person_row_def sqlite_next_rowid_def
                tag_prefix_def ascii_lower_def py_str_nat.simps eval_simps)

lemma update_person_fields_witness:
  "update_person \<lparr>in_first_name = ''Peter'', in_last_name = ''Postman'', in_job_role = None, in_birthday = None\<rparr> 1 5 (snd (the (create_person \<lparr>in_first_name = ''Anders'', in_last_name = ''Postman'', in_job_role = None, in_birthday = None\<rparr> 0 (sconst 512) empty_db))) = (Inr \<lparr>in_first_name = ''Peter'', in_last_name = ''Postman'', in_job_role = None, in_birthday = None\<rparr>, snd (update_person \<lparr>in_first_name = ''Peter'', in_last_name = ''Postman'', in_job_role = None, in_birthday = None\<rparr> 1 5 (snd (the (create_person \<lparr>in_first_name = ''Anders'', in_last_name = ''Postman'', in_job_role = None, in_birthday = None\<rparr> 0 (sconst 512) empty_db))))) \<and>
   hd (persons (snd (update_person \<lparr>in_first_name = ''Peter'', in_last_name = ''Postman'', in_job_role = None, in_birthday = None\<rparr> 1 5 (snd (the (create_person \<lparr>in_first_name = ''Anders'', in_last_name = ''Postman'', in_job_role = None, in_birthday = None\<rparr> 0 (sconst 512) empty_db)))))) \<in>
     set (persons (snd (update_person \<lparr>in_first_name = ''Peter'', in_last_name = ''Postman'', in_job_role = None, in_birthday = None\<rparr> 1 5 (snd (the (create_person \<lparr>in_first_name = ''Anders'', in_last_name = ''Postman'', in_job_role = None, in_birthday = None\<rparr> 0 (sconst 512) empty_db)))))) \<and>
   pid (hd (persons (snd (update_person \<lparr>in_first_name = ''Peter'', in_last_name = ''Postman'', in_job_role = None, in_birthday = None\<rparr> 1 5 (snd (the (create_person \<lparr>in_first_name = ''Anders'', in_last_name = ''Postman'', in_job_role = None, in_birthday = None\<rparr> 0 (sconst 512) empty_db))))))) = 1 \<and>
   first_name (hd (persons (snd (update_person \<lparr>in_first_name = ''Peter'', in_last_name = ''Postman'', in_job_role = None, in_birthday = None\<rparr> 1 5 (snd (the (create_person \<lparr>in_first_name = ''Anders'', in_last_name = ''Postman'', in_job_role = None, in_birthday = None\<rparr> 0 (sconst 512) empty_db))))))) = ''Peter'' \<and>
   p_updated_at (hd (persons (snd (update_person \<lparr>in_first_name = ''Peter'', in_last_name = ''Postman'', in_job_role = None, in_birthday = None\<rparr> 1 5 (snd (the (create_person \<lparr>in_first_name = ''Anders'', in_last_name = ''Postman'', in_job_role = None, in_birthday = None\<rparr> 0 (sconst 512) empty_db))))))) = 5"
  using update_person_fields [where person = "\<lparr>in_first_name = ''Peter'', in_last_name = ''Postman'', in_job_role = None, in_birthday = None\<rparr>" and i = 1 and now = 5 and d = "(snd (the (create_person \<lparr>in_first_name = ''Anders'', in_last_name = ''Postman'', in_job_role = None, in_birthday = None\<rparr> 0 (sconst 512) empty_db)))"
          and r = "\<lparr>in_first_name = ''Peter'', in_last_name = ''Postman'', in_job_role = None, in_birthday = None\<rparr>" and d' = "snd (update_person \<lparr>in_first_name = ''Peter'', in_last_name = ''Postman'', in_job_role = None, in_birthday = None\<rparr> 1 5 (snd (the (create_person \<lparr>in_first_name = ''Anders'', in_last_name = ''Postman'', in_job_role = None, in_birthday = None\<rparr> 0 (sconst 512) empty_db))))"
          and p' = "hd (persons (snd (update_person \<lparr>in_first_name = ''Peter'', in_last_name = ''Postman'', in_job_role = None, in_birthday = None\<rparr> 1 5 (snd (the (create_person \<lparr>in_first_name = ''Anders'', in_last_name = ''Postman'', in_job_role = None, in_birthday = None\<rparr> 0 (sconst 512) empty_db))))))"]
  by (simp add: update_person_def find_person_def create_person_eq empty_db_def insert_person_def new_person_row_def sqlite_next_rowid_def
                tag_prefix_def ascii_lower_def py_str_nat.simps eval_simps)

lemma create_person_some_draw_succeeds_witness:
  "length (persons empty_db) < 900 \<and>
   (\<exists>n d'. 100 \<le> n \<and> n \<le> 999 \<and>
      create_person \<lparr>in_first_name = ''Anders'', in_last_name = ''Postman'', in_job_role = None,
                     in_birthday = None\<rparr> 0 (sconst n) empty_db =
        Some (Inr \<lparr>in_first_name = ''Anders'', in_last_name = ''Postman'', in_job_role = None,
                   in_birthday = None\<rparr>, d'))"
proof -
  have h: "length (persons empty_db) < 900"
    by (simp add: empty_db_def)
  show ?thesis
    by (rule conjI [OF h create_person_some_draw_succeeds [OF h]])
qed

lemma create_person_get_roundtrip_witness:
  "wf_db empty_db \<and>
   create_person \<lparr>in_first_name = ''Anders'', in_last_name = ''Postman'', in_job_role = None, in_birthday = None\<rparr> 0 (sconst 512) empty_db = Some (Inr \<lparr>in_first_name = ''Anders'', in_last_name = ''Postman'', in_job_role = None, in_birthday = None\<rparr>, (snd (the (create_person \<lparr>in_first_name = ''Anders'', in_last_name = ''Postman'', in_job_role = None, in_birthday = None\<rparr> 0 (sconst 512) empty_db)))) \<and>
   \<lparr>in_first_name = ''Anders'', in_last_name = ''Postman'', in_job_role = None, in_birthday = None\<rparr> = \<lparr>in_first_name = ''Anders'', in_last_name = ''Postman'', in_job_role = None, in_birthday = None\<rparr> \<and>
   (\<exists>q. get_person_by_id (sqlite_next_rowid (map pid (persons empty_db))) (snd (the (create_person \<lparr>in_first_name = ''Anders'', in_last_name = ''Postman'', in_job_role = None, in_birthday = None\<rparr> 0 (sconst 512) empty_db))) = Inr q \<and>
        first_name q = in_first_name \<lparr>in_first_name = ''Anders'', in_last_name = ''Postman'', in_job_role = None, in_birthday = None\<rparr> \<and> last_name q = in_last_name \<lparr>in_first_name = ''Anders'', in_last_name = ''Postman'', in_job_role = None, in_birthday = None\<rparr> \<and>
        job_role q = in_job_role \<lparr>in_first_name = ''Anders'', in_last_name = ''Postman'', in_job_role = None, in_birthday = None\<rparr> \<and> birthday q = in_birthday \<lparr>in_first_name = ''Anders'', in_last_name = ''Postman'', in_job_role = None, in_birthday = None\<rparr> \<and>
        display_tag q = first_tag \<lparr>in_first_name = ''Anders'', in_last_name = ''Postman'', in_job_role = None, in_birthday = None\<rparr> (sconst 512))"
proof -
  have h1: "wf_db empty_db"
    by (rule wf_empty_db)
  have h2: "create_person \<lparr>in_first_name = ''Anders'', in_last_name = ''Postman'', in_job_role = None, in_birthday = None\<rparr> 0 (sconst 512) empty_db = Some (Inr \<lparr>in_first_name = ''Anders'', in_last_name = ''Postman'', in_job_role = None, in_birthday = None\<rparr>, (snd (the (create_person \<lparr>in_first_name = ''Anders'', in_last_name = ''Postman'', in_job_role = None, in_birthday = None\<rparr> 0 (sconst 512) empty_db))))"
    by (simp add: create_person_eq empty_db_def insert_person_def new_person_row_def sqlite_next_rowid_def
                  tag_prefix_def ascii_lower_def py_str_nat.simps eval_simps)
  show ?thesis
    by (rule conjI [OF h1 conjI [OF h2 create_person_get_roundtrip [OF h1 h2]]])
qed

end
