(* ===== verification/Shift_Router.thy ===== *)
theory Shift_Router
  imports Query
begin

text \<open>
  The handlers of \<open>src/api/routers/shift.py\<close>, in the same style as
  \<open>Person_Router\<close>: the store in, the result and the store after the request
  out, \<open>now\<close> for \<open>datetime.now\<close>.
\<close>

section \<open>Handlers\<close>

definition end_before_start :: error where
  "end_before_start = HTTPException 400 ''End time cannot be before start time''"

text \<open>The row built by \<open>models.Shift(...)\<close> in \<open>create_shift\<close>, lines 33--38.\<close>

definition new_shift_row :: "shift_in \<Rightarrow> timestamp \<Rightarrow> db \<Rightarrow> shift" where
  "new_shift_row shift' now d =
     \<lparr>sid = sqlite_next_rowid (map sid (shifts d)),
      start_time = in_start_time shift', end_time = in_end_time shift',
      comment = in_comment shift', person_id = in_person_id shift',
      s_created_at = now, s_updated_at = now,
      s_field_A = None, s_field_B = None, s_field_C = None, s_field_D = None,
      s_field_E = None\<rparr>"

text \<open>
  \<open>create_shift\<close>, lines 25--42: rejected when the start is strictly after the
  end; a shift that ends when it starts is accepted. The person it names is not
  looked up.
\<close>

definition create_shift :: "shift_in \<Rightarrow> timestamp \<Rightarrow> db \<Rightarrow> (error + shift_in) \<times> db" where
  "create_shift shift' now d =
     (if in_start_time shift' > in_end_time shift' then (Inl end_before_start, d)
      else
        (let db_shift = new_shift_row shift' now d
         in (Inr shift', insert_shift db_shift d)))"

text \<open>
  \<open>get_all_shifts\<close>, lines 45--90: the persons (searched or all) as a subquery
  of \<open>(id, first_name)\<close>, shifts joined with it and filtered to its ids, ordered
  by the alias's first name or by start time, date-filtered, then each shift
  re-fetched through \<open>shift_join_with_shift_id\<close> and kept when that finds it.
\<close>

definition get_all_shifts ::
  "string option \<Rightarrow> string option \<Rightarrow> string option \<Rightarrow> timestamp option \<Rightarrow> timestamp option \<Rightarrow>
   page_params \<Rightarrow> db \<Rightarrow> error + shift_out page" where
  "get_all_shifts order_type sort_by search_string start_date end_date pp d =
     (let query = search_query search_string d
      in case query of
           Inl e \<Rightarrow> Inl e
         | Inr q \<Rightarrow>
             (let subquery = map (\<lambda>p. (pid p, first_name p)) q;
                  shift_query = [(s, a). s \<leftarrow> shifts d, a \<leftarrow> subquery, person_id s = fst a];
                  shift_query = filter (\<lambda>r. person_id (fst r) \<in> set (map fst subquery)) shift_query;
                  sorted_query =
                    (if sort_by = Some ''first_name''
                     then sort_query_by (Some (\<lambda>r. snd (snd r))) order_type shift_query
                     else if sort_by = Some ''start_time''
                     then sort_query_by (Some (\<lambda>r. start_time (fst r))) order_type shift_query
                     else Inr shift_query)
              in case sorted_query of
                   Inl e \<Rightarrow> Inl e
                 | Inr sq \<Rightarrow>
                     (let unjoined_shifts = map fst (apply_date_filters fst sq start_date end_date);
                          shifts' = List.map_filter (\<lambda>s. shift_join_with_shift_id (sid s) d)
                                      unjoined_shifts
                      in Inr (paginate pp shifts'))))"

text \<open>
  \<open>get_shift_by_id\<close>, lines 93--101: the bare row first, then the joined row;
  either missing is a 404.
\<close>

definition get_shift_by_id :: "ident \<Rightarrow> db \<Rightarrow> error + shift_out" where
  "get_shift_by_id shift_id' d =
     (case find_shift d shift_id' of
        Some _ \<Rightarrow>
          (case shift_join_with_shift_id shift_id' d of
             Some joined \<Rightarrow> Inr joined
           | None \<Rightarrow> Inl shift_not_found)
      | None \<Rightarrow> Inl shift_not_found)"

text \<open>
  \<open>update_shift\<close>, lines 104--124: the row is looked up, then the times are
  checked, then the row is updated if it was found. \<open>person_id\<close> of the body is
  not written.
\<close>

definition update_shift :: "shift_in \<Rightarrow> ident \<Rightarrow> timestamp \<Rightarrow> db \<Rightarrow> (error + shift_in) \<times> db" where
  "update_shift shift' shift_id' now d =
     (let s = find_shift d shift_id'
      in if in_start_time shift' > in_end_time shift' then (Inl end_before_start, d)
         else
           (case s of
              Some _ \<Rightarrow>
                (Inr shift',
                 d\<lparr>shifts := map (\<lambda>r. if sid r = shift_id'
                                      then r\<lparr>start_time := in_start_time shift',
                                             end_time := in_end_time shift',
                                             comment := in_comment shift',
                                             s_updated_at := now\<rparr>
                                      else r) (shifts d)\<rparr>)
            | None \<Rightarrow> (Inl shift_not_found, d)))"

text \<open>\<open>delete_shift\<close>, lines 127--136: the row only; its overtimes stay.\<close>

definition delete_shift :: "ident \<Rightarrow> db \<Rightarrow> (error + string) \<times> db" where
  "delete_shift shift_id' d =
     (case find_shift d shift_id' of
        Some _ \<Rightarrow>
          (Inr ''Shift deleted successfully'',
           d\<lparr>shifts := filter (\<lambda>s. sid s \<noteq> shift_id') (shifts d)\<rparr>)
      | None \<Rightarrow> (Inl shift_not_found, d))"

section \<open>Abstract specification of the shift listing\<close>

text \<open>
  The composition the spec describes (section 4.1): the shifts of the searched
  persons, each joined with its whole person row, kept when their start lies in
  the day range, ordered by the requested key. \<open>alias_row\<close> is the row of the
  implementation's join with the \<open>(id, first_name)\<close> subquery; \<open>joined_ok\<close>
  says a joined row is made of a stored shift and the stored person it names.
\<close>

definition shift_listing_spec ::
  "string option \<Rightarrow> string option \<Rightarrow> person list \<Rightarrow> timestamp option \<Rightarrow> timestamp option \<Rightarrow>
   db \<Rightarrow> error + (shift \<times> person) list" where
  "shift_listing_spec order_type sort_by q start_date end_date d =
     (let scope = [(s, p). s \<leftarrow> shifts d, p \<leftarrow> q, person_id s = pid p];
          in_range = filter (\<lambda>r. in_date_range start_date end_date (start_time (fst r))) scope
      in if sort_by = Some ''first_name''
         then sort_query_by (Some (\<lambda>r. first_name (snd r))) order_type in_range
         else if sort_by = Some ''start_time''
         then sort_query_by (Some (\<lambda>r. start_time (fst r))) order_type in_range
         else Inr in_range)"

abbreviation alias_row :: "shift \<times> person \<Rightarrow> shift \<times> (ident \<times> string)" where
  "alias_row r \<equiv> (fst r, (pid (snd r), first_name (snd r)))"

definition joined_ok :: "db \<Rightarrow> shift \<times> person \<Rightarrow> bool" where
  "joined_ok d r \<longleftrightarrow> fst r \<in> set (shifts d) \<and> snd r \<in> set (persons d) \<and> person_id (fst r) = pid (snd r)"

section \<open>Lemmas\<close>

lemma refetch_after_date_filter:
  assumes "wf_db d" and "\<forall>r \<in> set rows. joined_ok d r"
  shows "List.map_filter (\<lambda>s. shift_join_with_shift_id (sid s) d)
           (map fst (apply_date_filters fst (map alias_row rows) start_date end_date)) =
         map joined_shift_dict (filter (\<lambda>r. in_date_range start_date end_date (start_time (fst r))) rows)"
proof -
  let ?G = "filter (\<lambda>r. in_date_range start_date end_date (start_time (fst r))) rows"
  have e: "apply_date_filters fst (map alias_row rows) start_date end_date = map alias_row ?G"
    by (simp add: apply_date_filters_eq filter_map comp_def)
  have ok: "\<forall>r \<in> set ?G. fst r \<in> set (shifts d) \<and> snd r \<in> set (persons d) \<and>
                             person_id (fst r) = pid (snd r)"
    using assms(2) by (simp add: joined_ok_def)
  have "map fst (map alias_row ?G) = map fst ?G"
    by simp
  with e map_filter_refetch [OF assms(1) ok] show ?thesis
    by (simp add: comp_def)
qed

lemma get_all_shifts_eq_listing:
  assumes "wf_db d"
  shows "get_all_shifts order_type sort_by search_string start_date end_date pp d =
           (case search_query search_string d of
              Inl e \<Rightarrow> Inl e
            | Inr q \<Rightarrow> map_sum id (\<lambda>rows. paginate pp (map joined_shift_dict rows))
                         (shift_listing_spec order_type sort_by q start_date end_date d))"
proof -
  obtain q where q: "search_query search_string d = Inr q" and sub: "subseq q (persons d)"
    using search_query_no_error by blast
  define J where "J = [(s, p). s \<leftarrow> shifts d, p \<leftarrow> q, person_id s = pid p]"
  let ?F = "filter (\<lambda>r. in_date_range start_date end_date (start_time (fst r)))"
  have okJ: "\<forall>r \<in> set J. joined_ok d r"
    using sub by (auto simp: J_def joined_ok_def dest: subseq_set_subset)
  have join: "[(s, a). s \<leftarrow> shifts d, a \<leftarrow> map (\<lambda>p. (pid p, first_name p)) q, person_id s = fst a] =
                map alias_row J"
    unfolding J_def by (simp only: comprehension_map_right fst_conv)
  have keep: "filter (\<lambda>r. person_id (fst r) \<in> set (map fst (map (\<lambda>p. (pid p, first_name p)) q)))
                (map alias_row J) = map alias_row J"
    by (auto simp: filter_id_conv J_def)
  have sorted_case:
    "(case map_sum id (map alias_row) (sort_query_by (Some k) order_type J) of
        Inl e \<Rightarrow> Inl e
      | Inr sq \<Rightarrow> Inr (paginate pp (List.map_filter (\<lambda>s. shift_join_with_shift_id (sid s) d)
                                   (map fst (apply_date_filters fst sq start_date end_date))))) =
     map_sum id (\<lambda>rows. paginate pp (map joined_shift_dict rows)) (sort_query_by (Some k) order_type (?F J))"
    for k :: "shift \<times> person \<Rightarrow> 'k::linorder"
  proof (cases "sort_query_by (Some k) order_type J")
    case (Inl e)
    then show ?thesis by (simp add: sort_query_by_filter)
  next
    case (Inr Y)
    then have "set Y = set J" by (rule sort_query_by_set)
    with okJ have "\<forall>r \<in> set Y. joined_ok d r" by simp
    with Inr show ?thesis
      by (simp add: sort_query_by_filter refetch_after_date_filter [OF assms])
  qed
  have plain_case:
    "List.map_filter (\<lambda>s. shift_join_with_shift_id (sid s) d)
       (map fst (apply_date_filters fst (map alias_row J) start_date end_date)) =
     map joined_shift_dict (?F J)"
    using refetch_after_date_filter [OF assms okJ] .
  have spec: "shift_listing_spec order_type sort_by q start_date end_date d =
      (if sort_by = Some ''first_name''
       then sort_query_by (Some (\<lambda>r. first_name (snd r))) order_type (?F J)
       else if sort_by = Some ''start_time''
       then sort_query_by (Some (\<lambda>r. start_time (fst r))) order_type (?F J)
       else Inr (?F J))"
    by (simp add: shift_listing_spec_def J_def)
  show ?thesis
    unfolding get_all_shifts_def Let_def q sum.case join keep spec
    using sorted_case [of "\<lambda>r. first_name (snd r)"] sorted_case [of "\<lambda>r. start_time (fst r)"] plain_case
    by (simp add: sort_query_by_map comp_def)
qed

text \<open>
  C8: on a well-formed store, GET /shift succeeds with a page exactly when
  the abstract listing (search, join with the person row, day-range filter,
  ordering) succeeds, the page being that listing paginated; and it fails
  with exactly the listing's errors.
\<close>

lemma get_all_shifts_refines:
  assumes "wf_db d"
  shows "(get_all_shifts order_type sort_by search_string start_date end_date pp d = Inr pg \<longleftrightarrow>
          (\<exists>q rows. search_query search_string d = Inr q \<and>
             shift_listing_spec order_type sort_by q start_date end_date d = Inr rows \<and>
             pg = paginate pp (map joined_shift_dict rows))) \<and>
         (get_all_shifts order_type sort_by search_string start_date end_date pp d = Inl e \<longleftrightarrow>
          search_query search_string d = Inl e \<or>
          (\<exists>q. search_query search_string d = Inr q \<and>
             shift_listing_spec order_type sort_by q start_date end_date d = Inl e))"
  by (auto simp: get_all_shifts_eq_listing [OF assms] split: sum.splits)

text \<open>
  C9: GET /shift with sort_by=start_time returns its items in ascending
  (asc) or descending (desc) start time, each starting within the requested
  day range.
\<close>

lemma get_all_shifts_start_time_order:
  assumes "wf_db d"
    and "get_all_shifts order_type (Some ''start_time'') search_string start_date end_date pp d = Inr pg"
  shows "(order_type = Some ''asc'' \<longrightarrow> sorted (map (\<lambda>r. start_time (out_shift r)) (items pg))) \<and>
         (order_type = Some ''desc'' \<longrightarrow> sorted_wrt (\<ge>) (map (\<lambda>r. start_time (out_shift r)) (items pg))) \<and>
         (\<forall>r \<in> set (items pg). in_date_range start_date end_date (start_time (out_shift r)))"
proof -
  obtain q where q: "search_query search_string d = Inr q"
    using search_query_no_error by blast
  let ?F = "filter (\<lambda>r. in_date_range start_date end_date (start_time (fst r)))"
  let ?J = "[(s, p). s \<leftarrow> shifts d, p \<leftarrow> q, person_id s = pid p]"
  have eq: "map_sum id (\<lambda>rows. paginate pp (map joined_shift_dict rows))
              (sort_query_by (Some (\<lambda>r. start_time (fst r))) order_type (?F ?J)) = Inr pg"
    using assms(2) by (simp add: get_all_shifts_eq_listing [OF assms(1)] q shift_listing_spec_def)
  then obtain Y where Y: "sort_query_by (Some (\<lambda>r. start_time (fst r))) order_type (?F ?J) = Inr Y"
    and pg: "pg = paginate pp (map joined_shift_dict Y)"
    by (cases "sort_query_by (Some (\<lambda>r. start_time (fst r))) order_type (?F ?J)") auto
  have key: "map (\<lambda>r. start_time (out_shift r)) (map joined_shift_dict Y) = map (\<lambda>r. start_time (fst r)) Y"
    by (simp add: joined_shift_dict_def)
  have res: "(order_type = Some ''asc'' \<longrightarrow> sorted (map (\<lambda>r. start_time (fst r)) Y)) \<and>
             (order_type = Some ''desc'' \<longrightarrow> sorted_wrt (\<ge>) (map (\<lambda>r. start_time (fst r)) Y))"
    using sort_query_by_result [OF Y] by blast
  have range: "\<forall>r \<in> set Y. in_date_range start_date end_date (start_time (fst r))"
    using sort_query_by_set [OF Y] by simp
  show ?thesis
  proof (intro conjI impI ballI)
    assume "order_type = Some ''asc''"
    with res key show "sorted (map (\<lambda>r. start_time (out_shift r)) (items pg))"
      unfolding pg by (metis paginate_sorted_wrt)
  next
    assume "order_type = Some ''desc''"
    with res key show "sorted_wrt (\<ge>) (map (\<lambda>r. start_time (out_shift r)) (items pg))"
      unfolding pg by (metis paginate_sorted_wrt)
  next
    fix r assume "r \<in> set (items pg)"
    then have "r \<in> joined_shift_dict ` set Y"
      using paginate_set unfolding pg by fastforce
    with range show "in_date_range start_date end_date (start_time (out_shift r))"
      by (auto simp: joined_shift_dict_def)
  qed
qed

text \<open>
  C4: POST /shift answers 400 \<open>End time cannot be before start
  time\<close> exactly when the end is strictly before the start.
\<close>

lemma create_shift_rejects_iff:
  "fst (create_shift s now d) = Inl end_before_start \<longleftrightarrow> in_end_time s < in_start_time s"
  by (simp add: create_shift_def Let_def)

text \<open>
  A successful POST /shift appends one row with a fresh id and the body's
  times, person and comment, and changes no other table.
\<close>

lemma create_shift_stores:
  assumes "create_shift s now d = (Inr s', d')"
  shows "s' = s \<and> persons d' = persons d \<and> overtimes d' = overtimes d \<and>
         shifts d' = shifts d @ [new_shift_row s now d] \<and>
         sid (new_shift_row s now d) \<notin> sid ` set (shifts d)"
  using assms sqlite_next_rowid_fresh [of "map sid (shifts d)"]
  by (auto simp: create_shift_def insert_shift_def new_shift_row_def Let_def split: if_splits)

lemma create_shift_wf:
  assumes "create_shift s now d = (r, d')" and "wf_db d"
  shows "wf_db d'"
proof (cases "in_start_time s > in_end_time s")
  case True
  with assms show ?thesis by (simp add: create_shift_def)
next
  case False
  then have "d' = insert_shift (new_shift_row s now d) d"
    using assms(1) by (simp add: create_shift_def Let_def)
  moreover have "sid (new_shift_row s now d) = sqlite_next_rowid (map sid (shifts d))"
    and "start_time (new_shift_row s now d) \<le> end_time (new_shift_row s now d)"
    using False by (simp_all add: new_shift_row_def)
  ultimately show ?thesis
    using insert_shift_wf [OF assms(2)] by simp
qed

text \<open>
  C16: PUT /shift/{id} with an end before the start answers 400 whether or
  not the shift exists, the store unchanged.
\<close>

lemma update_shift_checks_times_first:
  "in_end_time s < in_start_time s \<Longrightarrow> update_shift s i now d = (Inl end_before_start, d)"
  by (simp add: update_shift_def)

text \<open>
  C17: PUT /shift/{id} with ordered times on an absent id answers 404
  \<open>Shift not found\<close>.
\<close>

lemma update_shift_not_found:
  "find_shift d i = None \<Longrightarrow> in_start_time s \<le> in_end_time s \<Longrightarrow>
   update_shift s i now d = (Inl shift_not_found, d)"
  by (simp add: update_shift_def)

lemma update_shift_keeps_owner:
  assumes "update_shift s i now d = (r, d')"
  shows "map sid (shifts d') = map sid (shifts d) \<and> map person_id (shifts d') = map person_id (shifts d) \<and>
         persons d' = persons d \<and> overtimes d' = overtimes d"
  using assms by (auto simp: update_shift_def Let_def split: if_splits option.splits)

lemma update_shift_wf:
  assumes "update_shift s i now d = (r, d')" and "wf_db d"
  shows "wf_db d'"
proof (cases "in_start_time s > in_end_time s \<or> find_shift d i = None")
  case True
  with assms(1,2) show ?thesis by (auto simp: update_shift_def split: if_splits)
next
  case False
  then have d': "shifts d' = map (\<lambda>r. if sid r = i
                                     then r\<lparr>start_time := in_start_time s, end_time := in_end_time s,
                                            comment := in_comment s, s_updated_at := now\<rparr>
                                     else r) (shifts d)"
    using assms(1) by (auto simp: update_shift_def)
  have "map sid (shifts d') = map sid (shifts d)" and "persons d' = persons d"
    and "overtimes d' = overtimes d"
    using update_shift_keeps_owner [OF assms(1)] by simp_all
  moreover have "\<forall>r \<in> set (shifts d'). start_time r \<le> end_time r"
    using assms(2) False by (auto simp: d' wf_db_def)
  ultimately show ?thesis
    using assms(2) by (simp add: wf_db_def keys_ordered_def)
qed

text \<open>
  A successful DELETE /shift/{id} removes the shift and touches neither
  persons nor overtimes.
\<close>

lemma delete_shift_effect:
  assumes "delete_shift i d = (Inr m, d')"
  shows "i \<notin> sid ` set (shifts d') \<and> persons d' = persons d \<and> overtimes d' = overtimes d"
  using assms by (auto simp: delete_shift_def split: option.splits)

lemma delete_shift_wf:
  "delete_shift i d = (r, d') \<Longrightarrow> wf_db d \<Longrightarrow> wf_db d'"
  by (auto simp: delete_shift_def wf_db_def split: option.splits intro: wf_intros)

text \<open>
  C18: a stored shift whose person does not exist is answered 404 by GET
  /shift/{id}.
\<close>

lemma get_shift_by_id_dangling:
  assumes "wf_db d" and "find_shift d i = Some s" and "person_id s \<notin> pid ` set (persons d)"
  shows "get_shift_by_id i d = Inl shift_not_found"
proof -
  from assms(2) have "s \<in> set (shifts d)" and "sid s = i"
    by (simp_all add: find_shift_Some)
  with shift_join_with_shift_id_dangling [OF assms(1) _ assms(3)] assms(2) show ?thesis
    by (simp add: get_shift_by_id_def)
qed

lemma get_shift_by_id_found:
  assumes "wf_db d" and "find_shift d i = Some s" and "p \<in> set (persons d)" and "pid p = person_id s"
  shows "get_shift_by_id i d = Inr (joined_shift_dict (s, p))"
proof -
  from assms(2) have s: "s \<in> set (shifts d)" and i: "sid s = i"
    by (simp_all add: find_shift_Some)
  have "shift_join_with_shift_id i d = Some (joined_shift_dict (s, p))"
    using shift_join_with_shift_id_found [OF assms(1) s assms(3)] assms(4) i by simp
  with assms(2) show ?thesis
    by (simp add: get_shift_by_id_def)
qed

text \<open>
  C37: after a successful POST /shift for a person that exists, GET
  /shift/{id} on the id the row received returns the posted start, end,
  comment and person.
\<close>

lemma create_shift_get_roundtrip:
  assumes "wf_db d" and "create_shift s now d = (Inr s', d')"
    and "in_person_id s \<in> pid ` set (persons d)"
  shows "s' = s \<and>
         (\<exists>r. get_shift_by_id (sqlite_next_rowid (map sid (shifts d))) d' = Inr r \<and>
              start_time (out_shift r) = in_start_time s \<and> end_time (out_shift r) = in_end_time s \<and>
              comment (out_shift r) = in_comment s \<and> person_id (out_shift r) = in_person_id s)"
proof -
  let ?row = "new_shift_row s now d"
  have st: "s' = s \<and> persons d' = persons d \<and> shifts d' = shifts d @ [?row]"
    using create_shift_stores [OF assms(2)] by simp
  have wf': "wf_db d'"
    using create_shift_wf [OF assms(2,1)] .
  obtain q where q: "q \<in> set (persons d)" "pid q = in_person_id s"
    using assms(3) by auto
  have "find_shift d' (sid ?row) = Some ?row"
    using find_shift_wf [OF wf'] st by simp
  moreover have "q \<in> set (persons d')" and "pid q = person_id ?row"
    using st q by (simp_all add: new_shift_row_def)
  ultimately have "get_shift_by_id (sid ?row) d' = Inr (joined_shift_dict (?row, q))"
    by (rule get_shift_by_id_found [OF wf'])
  with st show ?thesis
    by (simp add: new_shift_row_def joined_shift_dict_def)
qed

section \<open>Witnesses\<close>

lemma get_all_shifts_refines_witness:
  "wf_db \<lparr>persons = [\<lparr>pid = 1, first_name = ''Peter'', last_name = ''Postman'', job_role = None, birthday = None,
       p_created_at = 0, p_updated_at = 0, display_tag = ''andpo512'', p_field_A = None,
       p_field_B = None, p_field_C = None, p_field_D = None, p_field_E = None\<rparr>],
     shifts = [\<lparr>sid = 1, start_time = 1708195140000000, end_time = 1708202340000000, comment = Some ''work'', person_id = 1,
       s_created_at = 0, s_updated_at = 0, s_field_A = None, s_field_B = None, s_field_C = None,
       s_field_D = None, s_field_E = None\<rparr>,
       \<lparr>sid = 2, start_time = 1708000000000000, end_time = 1708003600000000, comment = Some ''work'', person_id = 9,
       s_created_at = 0, s_updated_at = 0, s_field_A = None, s_field_B = None, s_field_C = None,
       s_field_D = None, s_field_E = None\<rparr>,
       \<lparr>sid = 3, start_time = 1707000000000000, end_time = 1707003600000000, comment = Some ''work'', person_id = 1,
       s_created_at = 0, s_updated_at = 0, s_field_A = None, s_field_B = None, s_field_C = None,
       s_field_D = None, s_field_E = None\<rparr>],
     overtimes = []\<rparr> \<and>
   (get_all_shifts (Some ''asc'') (Some ''start_time'') None None None default_params \<lparr>persons = [\<lparr>pid = 1, first_name = ''Peter'', last_name = ''Postman'', job_role = None, birthday = None,
       p_created_at = 0, p_updated_at = 0, display_tag = ''andpo512'', p_field_A = None,
       p_field_B = None, p_field_C = None, p_field_D = None, p_field_E = None\<rparr>],
     shifts = [\<lparr>sid = 1, start_time = 1708195140000000, end_time = 1708202340000000, comment = Some ''work'', person_id = 1,
       s_created_at = 0, s_updated_at = 0, s_field_A = None, s_field_B = None, s_field_C = None,
       s_field_D = None, s_field_E = None\<rparr>,
       \<lparr>sid = 2, start_time = 1708000000000000, end_time = 1708003600000000, comment = Some ''work'', person_id = 9,
       s_created_at = 0, s_updated_at = 0, s_field_A = None, s_field_B = None, s_field_C = None,
       s_field_D = None, s_field_E = None\<rparr>,
       \<lparr>sid = 3, start_time = 1707000000000000, end_time = 1707003600000000, comment = Some ''work'', person_id = 1,
       s_created_at = 0, s_updated_at = 0, s_field_A = None, s_field_B = None, s_field_C = None,
       s_field_D = None, s_field_E = None\<rparr>],
     overtimes = []\<rparr> = Inr (paginate default_params []) \<longleftrightarrow>
    (\<exists>q rows. search_query None \<lparr>persons = [\<lparr>pid = 1, first_name = ''Peter'', last_name = ''Postman'', job_role = None, birthday = None,
       p_created_at = 0, p_updated_at = 0, display_tag = ''andpo512'', p_field_A = None,
       p_field_B = None, p_field_C = None, p_field_D = None, p_field_E = None\<rparr>],
     shifts = [\<lparr>sid = 1, start_time = 1708195140000000, end_time = 1708202340000000, comment = Some ''work'', person_id = 1,
       s_created_at = 0, s_updated_at = 0, s_field_A = None, s_field_B = None, s_field_C = None,
       s_field_D = None, s_field_E = None\<rparr>,
       \<lparr>sid = 2, start_time = 1708000000000000, end_time = 1708003600000000, comment = Some ''work'', person_id = 9,
       s_created_at = 0, s_updated_at = 0, s_field_A = None, s_field_B = None, s_field_C = None,
       s_field_D = None, s_field_E = None\<rparr>,
       \<lparr>sid = 3, start_time = 1707000000000000, end_time = 1707003600000000, comment = Some ''work'', person_id = 1,
       s_created_at = 0, s_updated_at = 0, s_field_A = None, s_field_B = None, s_field_C = None,
       s_field_D = None, s_field_E = None\<rparr>],
     overtimes = []\<rparr> = Inr q \<and>
       shift_listing_spec (Some ''asc'') (Some ''start_time'') q None None \<lparr>persons = [\<lparr>pid = 1, first_name = ''Peter'', last_name = ''Postman'', job_role = None, birthday = None,
       p_created_at = 0, p_updated_at = 0, display_tag = ''andpo512'', p_field_A = None,
       p_field_B = None, p_field_C = None, p_field_D = None, p_field_E = None\<rparr>],
     shifts = [\<lparr>sid = 1, start_time = 1708195140000000, end_time = 1708202340000000, comment = Some ''work'', person_id = 1,
       s_created_at = 0, s_updated_at = 0, s_field_A = None, s_field_B = None, s_field_C = None,
       s_field_D = None, s_field_E = None\<rparr>,
       \<lparr>sid = 2, start_time = 1708000000000000, end_time = 1708003600000000, comment = Some ''work'', person_id = 9,
       s_created_at = 0, s_updated_at = 0, s_field_A = None, s_field_B = None, s_field_C = None,
       s_field_D = None, s_field_E = None\<rparr>,
       \<lparr>sid = 3, start_time = 1707000000000000, end_time = 1707003600000000, comment = Some ''work'', person_id = 1,
       s_created_at = 0, s_updated_at = 0, s_field_A = None, s_field_B = None, s_field_C = None,
       s_field_D = None, s_field_E = None\<rparr>],
     overtimes = []\<rparr> = Inr rows \<and>
       paginate default_params [] = paginate default_params (map joined_shift_dict rows))) \<and>
   (get_all_shifts (Some ''asc'') (Some ''start_time'') None None None default_params \<lparr>persons = [\<lparr>pid = 1, first_name = ''Peter'', last_name = ''Postman'', job_role = None, birthday = None,
       p_created_at = 0, p_updated_at = 0, display_tag = ''andpo512'', p_field_A = None,
       p_field_B = None, p_field_C = None, p_field_D = None, p_field_E = None\<rparr>],
     shifts = [\<lparr>sid = 1, start_time = 1708195140000000, end_time = 1708202340000000, comment = Some ''work'', person_id = 1,
       s_created_at = 0, s_updated_at = 0, s_field_A = None, s_field_B = None, s_field_C = None,
       s_field_D = None, s_field_E = None\<rparr>,
       \<lparr>sid = 2, start_time = 1708000000000000, end_time = 1708003600000000, comment = Some ''work'', person_id = 9,
       s_created_at = 0, s_updated_at = 0, s_field_A = None, s_field_B = None, s_field_C = None,
       s_field_D = None, s_field_E = None\<rparr>,
       \<lparr>sid = 3, start_time = 1707000000000000, end_time = 1707003600000000, comment = Some ''work'', person_id = 1,
       s_created_at = 0, s_updated_at = 0, s_field_A = None, s_field_B = None, s_field_C = None,
       s_field_D = None, s_field_E = None\<rparr>],
     overtimes = []\<rparr> = Inl (ValueError []) \<longleftrightarrow>
    search_query None \<lparr>persons = [\<lparr>pid = 1, first_name = ''Peter'', last_name = ''Postman'', job_role = None, birthday = None,
       p_created_at = 0, p_updated_at = 0, display_tag = ''andpo512'', p_field_A = None,
       p_field_B = None, p_field_C = None, p_field_D = None, p_field_E = None\<rparr>],
     shifts = [\<lparr>sid = 1, start_time = 1708195140000000, end_time = 1708202340000000, comment = Some ''work'', person_id = 1,
       s_created_at = 0, s_updated_at = 0, s_field_A = None, s_field_B = None, s_field_C = None,
       s_field_D = None, s_field_E = None\<rparr>,
       \<lparr>sid = 2, start_time = 1708000000000000, end_time = 1708003600000000, comment = Some ''work'', person_id = 9,
       s_created_at = 0, s_updated_at = 0, s_field_A = None, s_field_B = None, s_field_C = None,
       s_field_D = None, s_field_E = None\<rparr>,
       \<lparr>sid = 3, start_time = 1707000000000000, end_time = 1707003600000000, comment = Some ''work'', person_id = 1,
       s_created_at = 0, s_updated_at = 0, s_field_A = None, s_field_B = None, s_field_C = None,
       s_field_D = None, s_field_E = None\<rparr>],
     overtimes = []\<rparr> = Inl (ValueError []) \<or>
    (\<exists>q. search_query None \<lparr>persons = [\<lparr>pid = 1, first_name = ''Peter'', last_name = ''Postman'', job_role = None, birthday = None,
       p_created_at = 0, p_updated_at = 0, display_tag = ''andpo512'', p_field_A = None,
       p_field_B = None, p_field_C = None, p_field_D = None, p_field_E = None\<rparr>],
     shifts = [\<lparr>sid = 1, start_time = 1708195140000000, end_time = 1708202340000000, comment = Some ''work'', person_id = 1,
       s_created_at = 0, s_updated_at = 0, s_field_A = None, s_field_B = None, s_field_C = None,
       s_field_D = None, s_field_E = None\<rparr>,
       \<lparr>sid = 2, start_time = 1708000000000000, end_time = 1708003600000000, comment = Some ''work'', person_id = 9,
       s_created_at = 0, s_updated_at = 0, s_field_A = None, s_field_B = None, s_field_C = None,
       s_field_D = None, s_field_E = None\<rparr>,
       \<lparr>sid = 3, start_time = 1707000000000000, end_time = 1707003600000000, comment = Some ''work'', person_id = 1,
       s_created_at = 0, s_updated_at = 0, s_field_A = None, s_field_B = None, s_field_C = None,
       s_field_D = None, s_field_E = None\<rparr>],
     overtimes = []\<rparr> = Inr q \<and>
       shift_listing_spec (Some ''asc'') (Some ''start_time'') q None None \<lparr>persons = [\<lparr>pid = 1, first_name = ''Peter'', last_name = ''Postman'', job_role = None, birthday = None,
       p_created_at = 0, p_updated_at = 0, display_tag = ''andpo512'', p_field_A = None,
       p_field_B = None, p_field_C = None, p_field_D = None, p_field_E = None\<rparr>],
     shifts = [\<lparr>sid = 1, start_time = 1708195140000000, end_time = 1708202340000000, comment = Some ''work'', person_id = 1,
       s_created_at = 0, s_updated_at = 0, s_field_A = None, s_field_B = None, s_field_C = None,
       s_field_D = None, s_field_E = None\<rparr>,
       \<lparr>sid = 2, start_time = 1708000000000000, end_time = 1708003600000000, comment = Some ''work'', person_id = 9,
       s_created_at = 0, s_updated_at = 0, s_field_A = None, s_field_B = None, s_field_C = None,
       s_field_D = None, s_field_E = None\<rparr>,
       \<lparr>sid = 3, start_time = 1707000000000000, end_time = 1707003600000000, comment = Some ''work'', person_id = 1,
       s_created_at = 0, s_updated_at = 0, s_field_A = None, s_field_B = None, s_field_C = None,
       s_field_D = None, s_field_E = None\<rparr>],
     overtimes = []\<rparr> = Inl (ValueError [])))"
proof -
  have h: "wf_db \<lparr>persons = [\<lparr>pid = 1, first_name = ''Peter'', last_name = ''Postman'', job_role = None, birthday = None,
       p_created_at = 0, p_updated_at = 0, display_tag = ''andpo512'', p_field_A = None,
       p_field_B = None, p_field_C = None, p_field_D = None, p_field_E = None\<rparr>],
     shifts = [\<lparr>sid = 1, start_time = 1708195140000000, end_time = 1708202340000000, comment = Some ''work'', person_id = 1,
       s_created_at = 0, s_updated_at = 0, s_field_A = None, s_field_B = None, s_field_C = None,
       s_field_D = None, s_field_E = None\<rparr>,
       \<lparr>sid = 2, start_time = 1708000000000000, end_time = 1708003600000000, comment = Some ''work'', person_id = 9,
       s_created_at = 0, s_updated_at = 0, s_field_A = None, s_field_B = None, s_field_C = None,
       s_field_D = None, s_field_E = None\<rparr>,
       \<lparr>sid = 3, start_time = 1707000000000000, end_time = 1707003600000000, comment = Some ''work'', person_id = 1,
       s_created_at = 0, s_updated_at = 0, s_field_A = None, s_field_B = None, s_field_C = None,
       s_field_D = None, s_field_E = None\<rparr>],
     overtimes = []\<rparr>"
    by (simp add: wf_db_def keys_ordered_def)
  show ?thesis
    by (rule conjI [OF h get_all_shifts_refines [OF h]])
qed

lemma get_all_shifts_start_time_order_witness:
  "wf_db \<lparr>persons = [\<lparr>pid = 1, first_name = ''Peter'', last_name = ''Postman'', job_role = None, birthday = None,
       p_created_at = 0, p_updated_at = 0, display_tag = ''andpo512'', p_field_A = None,
       p_field_B = None, p_field_C = None, p_field_D = None, p_field_E = None\<rparr>],
     shifts = [\<lparr>sid = 1, start_time = 1708195140000000, end_time = 1708202340000000, comment = Some ''work'', person_id = 1,
       s_created_at = 0, s_updated_at = 0, s_field_A = None, s_field_B = None, s_field_C = None,
       s_field_D = None, s_field_E = None\<rparr>,
       \<lparr>sid = 2, start_time = 1708000000000000, end_time = 1708003600000000, comment = Some ''work'', person_id = 9,
       s_created_at = 0, s_updated_at = 0, s_field_A = None, s_field_B = None, s_field_C = None,
       s_field_D = None, s_field_E = None\<rparr>,
       \<lparr>sid = 3, start_time = 1707000000000000, end_time = 1707003600000000, comment = Some ''work'', person_id = 1,
       s_created_at = 0, s_updated_at = 0, s_field_A = None, s_field_B = None, s_field_C = None,
       s_field_D = None, s_field_E = None\<rparr>],
     overtimes = []\<rparr> \<and>
   get_all_shifts (Some ''asc'') (Some ''start_time'') None None None default_params \<lparr>persons = [\<lparr>pid = 1, first_name = ''Peter'', last_name = ''Postman'', job_role = None, birthday = None,
       p_created_at = 0, p_updated_at = 0, display_tag = ''andpo512'', p_field_A = None,
       p_field_B = None, p_field_C = None, p_field_D = None, p_field_E = None\<rparr>],
     shifts = [\<lparr>sid = 1, start_time = 1708195140000000, end_time = 1708202340000000, comment = Some ''work'', person_id = 1,
       s_created_at = 0, s_updated_at = 0, s_field_A = None, s_field_B = None, s_field_C = None,
       s_field_D = None, s_field_E = None\<rparr>,
       \<lparr>sid = 2, start_time = 1708000000000000, end_time = 1708003600000000, comment = Some ''work'', person_id = 9,
       s_created_at = 0, s_updated_at = 0, s_field_A = None, s_field_B = None, s_field_C = None,
       s_field_D = None, s_field_E = None\<rparr>,
       \<lparr>sid = 3, start_time = 1707000000000000, end_time = 1707003600000000, comment = Some ''work'', person_id = 1,
       s_created_at = 0, s_updated_at = 0, s_field_A = None, s_field_B = None, s_field_C = None,
       s_field_D = None, s_field_E = None\<rparr>],
     overtimes = []\<rparr> = Inr (projr (get_all_shifts (Some ''asc'') (Some ''start_time'') None None None default_params \<lparr>persons = [\<lparr>pid = 1, first_name = ''Peter'', last_name = ''Postman'', job_role = None, birthday = None,
       p_created_at = 0, p_updated_at = 0, display_tag = ''andpo512'', p_field_A = None,
       p_field_B = None, p_field_C = None, p_field_D = None, p_field_E = None\<rparr>],
     shifts = [\<lparr>sid = 1, start_time = 1708195140000000, end_time = 1708202340000000, comment = Some ''work'', person_id = 1,
       s_created_at = 0, s_updated_at = 0, s_field_A = None, s_field_B = None, s_field_C = None,
       s_field_D = None, s_field_E = None\<rparr>,
       \<lparr>sid = 2, start_time = 1708000000000000, end_time = 1708003600000000, comment = Some ''work'', person_id = 9,
       s_created_at = 0, s_updated_at = 0, s_field_A = None, s_field_B = None, s_field_C = None,
       s_field_D = None, s_field_E = None\<rparr>,
       \<lparr>sid = 3, start_time = 1707000000000000, end_time = 1707003600000000, comment = Some ''work'', person_id = 1,
       s_created_at = 0, s_updated_at = 0, s_field_A = None, s_field_B = None, s_field_C = None,
       s_field_D = None, s_field_E = None\<rparr>],
     overtimes = []\<rparr>)) \<and>
   sorted (map (\<lambda>r. start_time (out_shift r)) (items (projr (get_all_shifts (Some ''asc'') (Some ''start_time'') None None None default_params \<lparr>persons = [\<lparr>pid = 1, first_name = ''Peter'', last_name = ''Postman'', job_role = None, birthday = None,
       p_created_at = 0, p_updated_at = 0, display_tag = ''andpo512'', p_field_A = None,
       p_field_B = None, p_field_C = None, p_field_D = None, p_field_E = None\<rparr>],
     shifts = [\<lparr>sid = 1, start_time = 1708195140000000, end_time = 1708202340000000, comment = Some ''work'', person_id = 1,
       s_created_at = 0, s_updated_at = 0, s_field_A = None, s_field_B = None, s_field_C = None,
       s_field_D = None, s_field_E = None\<rparr>,
       \<lparr>sid = 2, start_time = 1708000000000000, end_time = 1708003600000000, comment = Some ''work'', person_id = 9,
       s_created_at = 0, s_updated_at = 0, s_field_A = None, s_field_B = None, s_field_C = None,
       s_field_D = None, s_field_E = None\<rparr>,
       \<lparr>sid = 3, start_time = 1707000000000000, end_time = 1707003600000000, comment = Some ''work'', person_id = 1,
       s_created_at = 0, s_updated_at = 0, s_field_A = None, s_field_B = None, s_field_C = None,
       s_field_D = None, s_field_E = None\<rparr>],
     overtimes = []\<rparr>))))"
proof -
  have h1: "wf_db \<lparr>persons = [\<lparr>pid = 1, first_name = ''Peter'', last_name = ''Postman'', job_role = None, birthday = None,
       p_created_at = 0, p_updated_at = 0, display_tag = ''andpo512'', p_field_A = None,
       p_field_B = None, p_field_C = None, p_field_D = None, p_field_E = None\<rparr>],
     shifts = [\<lparr>sid = 1, start_time = 1708195140000000, end_time = 1708202340000000, comment = Some ''work'', person_id = 1,
       s_created_at = 0, s_updated_at = 0, s_field_A = None, s_field_B = None, s_field_C = None,
       s_field_D = None, s_field_E = None\<rparr>,
       \<lparr>sid = 2, start_time = 1708000000000000, end_time = 1708003600000000, comment = Some ''work'', person_id = 9,
       s_created_at = 0, s_updated_at = 0, s_field_A = None, s_field_B = None, s_field_C = None,
       s_field_D = None, s_field_E = None\<rparr>,
       \<lparr>sid = 3, start_time = 1707000000000000, end_time = 1707003600000000, comment = Some ''work'', person_id = 1,
       s_created_at = 0, s_updated_at = 0, s_field_A = None, s_field_B = None, s_field_C = None,
       s_field_D = None, s_field_E = None\<rparr>],
     overtimes = []\<rparr>"
    by (simp add: wf_db_def keys_ordered_def)
  have h2: "get_all_shifts (Some ''asc'') (Some ''start_time'') None None None default_params \<lparr>persons = [\<lparr>pid = 1, first_name = ''Peter'', last_name = ''Postman'', job_role = None, birthday = None,
       p_created_at = 0, p_updated_at = 0, display_tag = ''andpo512'', p_field_A = None,
       p_field_B = None, p_field_C = None, p_field_D = None, p_field_E = None\<rparr>],
     shifts = [\<lparr>sid = 1, start_time = 1708195140000000, end_time = 1708202340000000, comment = Some ''work'', person_id = 1,
       s_created_at = 0, s_updated_at = 0, s_field_A = None, s_field_B = None, s_field_C = None,
       s_field_D = None, s_field_E = None\<rparr>,
       \<lparr>sid = 2, start_time = 1708000000000000, end_time = 1708003600000000, comment = Some ''work'', person_id = 9,
       s_created_at = 0, s_updated_at = 0, s_field_A = None, s_field_B = None, s_field_C = None,
       s_field_D = None, s_field_E = None\<rparr>,
       \<lparr>sid = 3, start_time = 1707000000000000, end_time = 1707003600000000, comment = Some ''work'', person_id = 1,
       s_created_at = 0, s_updated_at = 0, s_field_A = None, s_field_B = None, s_field_C = None,
       s_field_D = None, s_field_E = None\<rparr>],
     overtimes = []\<rparr> = Inr (projr (get_all_shifts (Some ''asc'') (Some ''start_time'') None None None default_params \<lparr>persons = [\<lparr>pid = 1, first_name = ''Peter'', last_name = ''Postman'', job_role = None, birthday = None,
       p_created_at = 0, p_updated_at = 0, display_tag = ''andpo512'', p_field_A = None,
       p_field_B = None, p_field_C = None, p_field_D = None, p_field_E = None\<rparr>],
     shifts = [\<lparr>sid = 1, start_time = 1708195140000000, end_time = 1708202340000000, comment = Some ''work'', person_id = 1,
       s_created_at = 0, s_updated_at = 0, s_field_A = None, s_field_B = None, s_field_C = None,
       s_field_D = None, s_field_E = None\<rparr>,
       \<lparr>sid = 2, start_time = 1708000000000000, end_time = 1708003600000000, comment = Some ''work'', person_id = 9,
       s_created_at = 0, s_updated_at = 0, s_field_A = None, s_field_B = None, s_field_C = None,
       s_field_D = None, s_field_E = None\<rparr>,
       \<lparr>sid = 3, start_time = 1707000000000000, end_time = 1707003600000000, comment = Some ''work'', person_id = 1,
       s_created_at = 0, s_updated_at = 0, s_field_A = None, s_field_B = None, s_field_C = None,
       s_field_D = None, s_field_E = None\<rparr>],
     overtimes = []\<rparr>))"
    by code_simp
  show ?thesis
    using get_all_shifts_start_time_order [OF h1 h2] h1 h2 by simp
qed

lemma update_shift_checks_times_first_witness:
  "in_end_time \<lparr>in_start_time = 1708195140000000, in_end_time = 1705523940000000, in_person_id = 1,
       in_comment = Some ''work''\<rparr> < in_start_time \<lparr>in_start_time = 1708195140000000, in_end_time = 1705523940000000, in_person_id = 1,
       in_comment = Some ''work''\<rparr> \<and>
   update_shift \<lparr>in_start_time = 1708195140000000, in_end_time = 1705523940000000, in_person_id = 1,
       in_comment = Some ''work''\<rparr> 123456 5 \<lparr>persons = [\<lparr>pid = 1, first_name = ''Peter'', last_name = ''Postman'', job_role = None, birthday = None,
       p_created_at = 0, p_updated_at = 0, display_tag = ''andpo512'', p_field_A = None,
       p_field_B = None, p_field_C = None, p_field_D = None, p_field_E = None\<rparr>],
     shifts = [\<lparr>sid = 1, start_time = 1708195140000000, end_time = 1708202340000000, comment = Some ''work'', person_id = 1,
       s_created_at = 0, s_updated_at = 0, s_field_A = None, s_field_B = None, s_field_C = None,
       s_field_D = None, s_field_E = None\<rparr>,
       \<lparr>sid = 2, start_time = 1708000000000000, end_time = 1708003600000000, comment = Some ''work'', person_id = 9,
       s_created_at = 0, s_updated_at = 0, s_field_A = None, s_field_B = None, s_field_C = None,
       s_field_D = None, s_field_E = None\<rparr>,
       \<lparr>sid = 3, start_time = 1707000000000000, end_time = 1707003600000000, comment = Some ''work'', person_id = 1,
       s_created_at = 0, s_updated_at = 0, s_field_A = None, s_field_B = None, s_field_C = None,
       s_field_D = None, s_field_E = None\<rparr>],
     overtimes = []\<rparr> = (Inl end_before_start, \<lparr>persons = [\<lparr>pid = 1, first_name = ''Peter'', last_name = ''Postman'', job_role = None, birthday = None,
       p_created_at = 0, p_updated_at = 0, display_tag = ''andpo512'', p_field_A = None,
       p_field_B = None, p_field_C = None, p_field_D = None, p_field_E = None\<rparr>],
     shifts = [\<lparr>sid = 1, start_time = 1708195140000000, end_time = 1708202340000000, comment = Some ''work'', person_id = 1,
       s_created_at = 0, s_updated_at = 0, s_field_A = None, s_field_B = None, s_field_C = None,
       s_field_D = None, s_field_E = None\<rparr>,
       \<lparr>sid = 2, start_time = 1708000000000000, end_time = 1708003600000000, comment = Some ''work'', person_id = 9,
       s_created_at = 0, s_updated_at = 0, s_field_A = None, s_field_B = None, s_field_C = None,
       s_field_D = None, s_field_E = None\<rparr>,
       \<lparr>sid = 3, start_time = 1707000000000000, end_time = 1707003600000000, comment = Some ''work'', person_id = 1,
       s_created_at = 0, s_updated_at = 0, s_field_A = None, s_field_B = None, s_field_C = None,
       s_field_D = None, s_field_E = None\<rparr>],
     overtimes = []\<rparr>)"
proof -
  have h: "in_end_time \<lparr>in_start_time = 1708195140000000, in_end_time = 1705523940000000, in_person_id = 1,
       in_comment = Some ''work''\<rparr> < in_start_time \<lparr>in_start_time = 1708195140000000, in_end_time = 1705523940000000, in_person_id = 1,
       in_comment = Some ''work''\<rparr>"
    by simp
  show ?thesis
    by (rule conjI [OF h update_shift_checks_times_first [OF h]])
qed

lemma update_shift_not_found_witness:
  "find_shift \<lparr>persons = [\<lparr>pid = 1, first_name = ''Peter'', last_name = ''Postman'', job_role = None, birthday = None,
       p_created_at = 0, p_updated_at = 0, display_tag = ''andpo512'', p_field_A = None,
       p_field_B = None, p_field_C = None, p_field_D = None, p_field_E = None\<rparr>],
     shifts = [\<lparr>sid = 1, start_time = 1708195140000000, end_time = 1708202340000000, comment = Some ''work'', person_id = 1,
       s_created_at = 0, s_updated_at = 0, s_field_A = None, s_field_B = None, s_field_C = None,
       s_field_D = None, s_field_E = None\<rparr>,
       \<lparr>sid = 2, start_time = 1708000000000000, end_time = 1708003600000000, comment = Some ''work'', person_id = 9,
       s_created_at = 0, s_updated_at = 0, s_field_A = None, s_field_B = None, s_field_C = None,
       s_field_D = None, s_field_E = None\<rparr>,
       \<lparr>sid = 3, start_time = 1707000000000000, end_time = 1707003600000000, comment = Some ''work'', person_id = 1,
       s_created_at = 0, s_updated_at = 0, s_field_A = None, s_field_B = None, s_field_C = None,
       s_field_D = None, s_field_E = None\<rparr>],
     overtimes = []\<rparr> 123456 = None \<and> in_start_time \<lparr>in_start_time = 1708195140000000, in_end_time = 1708202340000000, in_person_id = 1,
       in_comment = Some ''work''\<rparr> \<le> in_end_time \<lparr>in_start_time = 1708195140000000, in_end_time = 1708202340000000, in_person_id = 1,
       in_comment = Some ''work''\<rparr> \<and>
   update_shift \<lparr>in_start_time = 1708195140000000, in_end_time = 1708202340000000, in_person_id = 1,
       in_comment = Some ''work''\<rparr> 123456 5 \<lparr>persons = [\<lparr>pid = 1, first_name = ''Peter'', last_name = ''Postman'', job_role = None, birthday = None,
       p_created_at = 0, p_updated_at = 0, display_tag = ''andpo512'', p_field_A = None,
       p_field_B = None, p_field_C = None, p_field_D = None, p_field_E = None\<rparr>],
     shifts = [\<lparr>sid = 1, start_time = 1708195140000000, end_time = 1708202340000000, comment = Some ''work'', person_id = 1,
       s_created_at = 0, s_updated_at = 0, s_field_A = None, s_field_B = None, s_field_C = None,
       s_field_D = None, s_field_E = None\<rparr>,
       \<lparr>sid = 2, start_time = 1708000000000000, end_time = 1708003600000000, comment = Some ''work'', person_id = 9,
       s_created_at = 0, s_updated_at = 0, s_field_A = None, s_field_B = None, s_field_C = None,
       s_field_D = None, s_field_E = None\<rparr>,
       \<lparr>sid = 3, start_time = 1707000000000000, end_time = 1707003600000000, comment = Some ''work'', person_id = 1,
       s_created_at = 0, s_updated_at = 0, s_field_A = None, s_field_B = None, s_field_C = None,
       s_field_D = None, s_field_E = None\<rparr>],
     overtimes = []\<rparr> = (Inl shift_not_found, \<lparr>persons = [\<lparr>pid = 1, first_name = ''Peter'', last_name = ''Postman'', job_role = None, birthday = None,
       p_created_at = 0, p_updated_at = 0, display_tag = ''andpo512'', p_field_A = None,
       p_field_B = None, p_field_C = None, p_field_D = None, p_field_E = None\<rparr>],
     shifts = [\<lparr>sid = 1, start_time = 1708195140000000, end_time = 1708202340000000, comment = Some ''work'', person_id = 1,
       s_created_at = 0, s_updated_at = 0, s_field_A = None, s_field_B = None, s_field_C = None,
       s_field_D = None, s_field_E = None\<rparr>,
       \<lparr>sid = 2, start_time = 1708000000000000, end_time = 1708003600000000, comment = Some ''work'', person_id = 9,
       s_created_at = 0, s_updated_at = 0, s_field_A = None, s_field_B = None, s_field_C = None,
       s_field_D = None, s_field_E = None\<rparr>,
       \<lparr>sid = 3, start_time = 1707000000000000, end_time = 1707003600000000, comment = Some ''work'', person_id = 1,
       s_created_at = 0, s_updated_at = 0, s_field_A = None, s_field_B = None, s_field_C = None,
       s_field_D = None, s_field_E = None\<rparr>],
     overtimes = []\<rparr>)"
proof -
  have h1: "find_shift \<lparr>persons = [\<lparr>pid = 1, first_name = ''Peter'', last_name = ''Postman'', job_role = None, birthday = None,
       p_created_at = 0, p_updated_at = 0, display_tag = ''andpo512'', p_field_A = None,
       p_field_B = None, p_field_C = None, p_field_D = None, p_field_E = None\<rparr>],
     shifts = [\<lparr>sid = 1, start_time = 1708195140000000, end_time = 1708202340000000, comment = Some ''work'', person_id = 1,
       s_created_at = 0, s_updated_at = 0, s_field_A = None, s_field_B = None, s_field_C = None,
       s_field_D = None, s_field_E = None\<rparr>,
       \<lparr>sid = 2, start_time = 1708000000000000, end_time = 1708003600000000, comment = Some ''work'', person_id = 9,
       s_created_at = 0, s_updated_at = 0, s_field_A = None, s_field_B = None, s_field_C = None,
       s_field_D = None, s_field_E = None\<rparr>,
       \<lparr>sid = 3, start_time = 1707000000000000, end_time = 1707003600000000, comment = Some ''work'', person_id = 1,
       s_created_at = 0, s_updated_at = 0, s_field_A = None, s_field_B = None, s_field_C = None,
       s_field_D = None, s_field_E = None\<rparr>],
     overtimes = []\<rparr> 123456 = None"
    by (simp add: find_shift_def)
  have h2: "in_start_time \<lparr>in_start_time = 1708195140000000, in_end_time = 1708202340000000, in_person_id = 1,
       in_comment = Some ''work''\<rparr> \<le> in_end_time \<lparr>in_start_time = 1708195140000000, in_end_time = 1708202340000000, in_person_id = 1,
       in_comment = Some ''work''\<rparr>"
    by simp
  show ?thesis
    by (rule conjI [OF h1 conjI [OF h2 update_shift_not_found [OF h1 h2]]])
qed

lemma get_shift_by_id_dangling_witness:
  "wf_db \<lparr>persons = [\<lparr>pid = 1, first_name = ''Peter'', last_name = ''Postman'', job_role = None, birthday = None,
       p_created_at = 0, p_updated_at = 0, display_tag = ''andpo512'', p_field_A = None,
       p_field_B = None, p_field_C = None, p_field_D = None, p_field_E = None\<rparr>],
     shifts = [\<lparr>sid = 1, start_time = 1708195140000000, end_time = 1708202340000000, comment = Some ''work'', person_id = 1,
       s_created_at = 0, s_updated_at = 0, s_field_A = None, s_field_B = None, s_field_C = None,
       s_field_D = None, s_field_E = None\<rparr>,
       \<lparr>sid = 2, start_time = 1708000000000000, end_time = 1708003600000000, comment = Some ''work'', person_id = 9,
       s_created_at = 0, s_updated_at = 0, s_field_A = None, s_field_B = None, s_field_C = None,
       s_field_D = None, s_field_E = None\<rparr>,
       \<lparr>sid = 3, start_time = 1707000000000000, end_time = 1707003600000000, comment = Some ''work'', person_id = 1,
       s_created_at = 0, s_updated_at = 0, s_field_A = None, s_field_B = None, s_field_C = None,
       s_field_D = None, s_field_E = None\<rparr>],
     overtimes = []\<rparr> \<and> find_shift \<lparr>persons = [\<lparr>pid = 1, first_name = ''Peter'', last_name = ''Postman'', job_role = None, birthday = None,
       p_created_at = 0, p_updated_at = 0, display_tag = ''andpo512'', p_field_A = None,
       p_field_B = None, p_field_C = None, p_field_D = None, p_field_E = None\<rparr>],
     shifts = [\<lparr>sid = 1, start_time = 1708195140000000, end_time = 1708202340000000, comment = Some ''work'', person_id = 1,
       s_created_at = 0, s_updated_at = 0, s_field_A = None, s_field_B = None, s_field_C = None,
       s_field_D = None, s_field_E = None\<rparr>,
       \<lparr>sid = 2, start_time = 1708000000000000, end_time = 1708003600000000, comment = Some ''work'', person_id = 9,
       s_created_at = 0, s_updated_at = 0, s_field_A = None, s_field_B = None, s_field_C = None,
       s_field_D = None, s_field_E = None\<rparr>,
       \<lparr>sid = 3, start_time = 1707000000000000, end_time = 1707003600000000, comment = Some ''work'', person_id = 1,
       s_created_at = 0, s_updated_at = 0, s_field_A = None, s_field_B = None, s_field_C = None,
       s_field_D = None, s_field_E = None\<rparr>],
     overtimes = []\<rparr> 2 = Some (\<lparr>sid = 2, start_time = 1708000000000000, end_time = 1708003600000000, comment = Some ''work'', person_id = 9,
       s_created_at = 0, s_updated_at = 0, s_field_A = None, s_field_B = None, s_field_C = None,
       s_field_D = None, s_field_E = None\<rparr>) \<and>
   person_id (\<lparr>sid = 2, start_time = 1708000000000000, end_time = 1708003600000000, comment = Some ''work'', person_id = 9,
       s_created_at = 0, s_updated_at = 0, s_field_A = None, s_field_B = None, s_field_C = None,
       s_field_D = None, s_field_E = None\<rparr>) \<notin> pid ` set (persons \<lparr>persons = [\<lparr>pid = 1, first_name = ''Peter'', last_name = ''Postman'', job_role = None, birthday = None,
       p_created_at = 0, p_updated_at = 0, display_tag = ''andpo512'', p_field_A = None,
       p_field_B = None, p_field_C = None, p_field_D = None, p_field_E = None\<rparr>],
     shifts = [\<lparr>sid = 1, start_time = 1708195140000000, end_time = 1708202340000000, comment = Some ''work'', person_id = 1,
       s_created_at = 0, s_updated_at = 0, s_field_A = None, s_field_B = None, s_field_C = None,
       s_field_D = None, s_field_E = None\<rparr>,
       \<lparr>sid = 2, start_time = 1708000000000000, end_time = 1708003600000000, comment = Some ''work'', person_id = 9,
       s_created_at = 0, s_updated_at = 0, s_field_A = None, s_field_B = None, s_field_C = None,
       s_field_D = None, s_field_E = None\<rparr>,
       \<lparr>sid = 3, start_time = 1707000000000000, end_time = 1707003600000000, comment = Some ''work'', person_id = 1,
       s_created_at = 0, s_updated_at = 0, s_field_A = None, s_field_B = None, s_field_C = None,
       s_field_D = None, s_field_E = None\<rparr>],
     overtimes = []\<rparr>) \<and>
   get_shift_by_id 2 \<lparr>persons = [\<lparr>pid = 1, first_name = ''Peter'', last_name = ''Postman'', job_role = None, birthday = None,
       p_created_at = 0, p_updated_at = 0, display_tag = ''andpo512'', p_field_A = None,
       p_field_B = None, p_field_C = None, p_field_D = None, p_field_E = None\<rparr>],
     shifts = [\<lparr>sid = 1, start_time = 1708195140000000, end_time = 1708202340000000, comment = Some ''work'', person_id = 1,
       s_created_at = 0, s_updated_at = 0, s_field_A = None, s_field_B = None, s_field_C = None,
       s_field_D = None, s_field_E = None\<rparr>,
       \<lparr>sid = 2, start_time = 1708000000000000, end_time = 1708003600000000, comment = Some ''work'', person_id = 9,
       s_created_at = 0, s_updated_at = 0, s_field_A = None, s_field_B = None, s_field_C = None,
       s_field_D = None, s_field_E = None\<rparr>,
       \<lparr>sid = 3, start_time = 1707000000000000, end_time = 1707003600000000, comment = Some ''work'', person_id = 1,
       s_created_at = 0, s_updated_at = 0, s_field_A = None, s_field_B = None, s_field_C = None,
       s_field_D = None, s_field_E = None\<rparr>],
     overtimes = []\<rparr> = Inl shift_not_found"
proof -
  have h1: "wf_db \<lparr>persons = [\<lparr>pid = 1, first_name = ''Peter'', last_name = ''Postman'', job_role = None, birthday = None,
       p_created_at = 0, p_updated_at = 0, display_tag = ''andpo512'', p_field_A = None,
       p_field_B = None, p_field_C = None, p_field_D = None, p_field_E = None\<rparr>],
     shifts = [\<lparr>sid = 1, start_time = 1708195140000000, end_time = 1708202340000000, comment = Some ''work'', person_id = 1,
       s_created_at = 0, s_updated_at = 0, s_field_A = None, s_field_B = None, s_field_C = None,
       s_field_D = None, s_field_E = None\<rparr>,
       \<lparr>sid = 2, start_time = 1708000000000000, end_time = 1708003600000000, comment = Some ''work'', person_id = 9,
       s_created_at = 0, s_updated_at = 0, s_field_A = None, s_field_B = None, s_field_C = None,
       s_field_D = None, s_field_E = None\<rparr>,
       \<lparr>sid = 3, start_time = 1707000000000000, end_time = 1707003600000000, comment = Some ''work'', person_id = 1,
       s_created_at = 0, s_updated_at = 0, s_field_A = None, s_field_B = None, s_field_C = None,
       s_field_D = None, s_field_E = None\<rparr>],
     overtimes = []\<rparr>"
    by (simp add: wf_db_def keys_ordered_def)
  have h2: "find_shift \<lparr>persons = [\<lparr>pid = 1, first_name = ''Peter'', last_name = ''Postman'', job_role = None, birthday = None,
       p_created_at = 0, p_updated_at = 0, display_tag = ''andpo512'', p_field_A = None,
       p_field_B = None, p_field_C = None, p_field_D = None, p_field_E = None\<rparr>],
     shifts = [\<lparr>sid = 1, start_time = 1708195140000000, end_time = 1708202340000000, comment = Some ''work'', person_id = 1,
       s_created_at = 0, s_updated_at = 0, s_field_A = None, s_field_B = None, s_field_C = None,
       s_field_D = None, s_field_E = None\<rparr>,
       \<lparr>sid = 2, start_time = 1708000000000000, end_time = 1708003600000000, comment = Some ''work'', person_id = 9,
       s_created_at = 0, s_updated_at = 0, s_field_A = None, s_field_B = None, s_field_C = None,
       s_field_D = None, s_field_E = None\<rparr>,
       \<lparr>sid = 3, start_time = 1707000000000000, end_time = 1707003600000000, comment = Some ''work'', person_id = 1,
       s_created_at = 0, s_updated_at = 0, s_field_A = None, s_field_B = None, s_field_C = None,
       s_field_D = None, s_field_E = None\<rparr>],
     overtimes = []\<rparr> 2 = Some (\<lparr>sid = 2, start_time = 1708000000000000, end_time = 1708003600000000, comment = Some ''work'', person_id = 9,
       s_created_at = 0, s_updated_at = 0, s_field_A = None, s_field_B = None, s_field_C = None,
       s_field_D = None, s_field_E = None\<rparr>)"
    by (simp add: find_shift_def)
  have h3: "person_id (\<lparr>sid = 2, start_time = 1708000000000000, end_time = 1708003600000000, comment = Some ''work'', person_id = 9,
       s_created_at = 0, s_updated_at = 0, s_field_A = None, s_field_B = None, s_field_C = None,
       s_field_D = None, s_field_E = None\<rparr>) \<notin> pid ` set (persons \<lparr>persons = [\<lparr>pid = 1, first_name = ''Peter'', last_name = ''Postman'', job_role = None, birthday = None,
       p_created_at = 0, p_updated_at = 0, display_tag = ''andpo512'', p_field_A = None,
       p_field_B = None, p_field_C = None, p_field_D = None, p_field_E = None\<rparr>],
     shifts = [\<lparr>sid = 1, start_time = 1708195140000000, end_time = 1708202340000000, comment = Some ''work'', person_id = 1,
       s_created_at = 0, s_updated_at = 0, s_field_A = None, s_field_B = None, s_field_C = None,
       s_field_D = None, s_field_E = None\<rparr>,
       \<lparr>sid = 2, start_time = 1708000000000000, end_time = 1708003600000000, comment = Some ''work'', person_id = 9,
       s_created_at = 0, s_updated_at = 0, s_field_A = None, s_field_B = None, s_field_C = None,
       s_field_D = None, s_field_E = None\<rparr>,
       \<lparr>sid = 3, start_time = 1707000000000000, end_time = 1707003600000000, comment = Some ''work'', person_id = 1,
       s_created_at = 0, s_updated_at = 0, s_field_A = None, s_field_B = None, s_field_C = None,
       s_field_D = None, s_field_E = None\<rparr>],
     overtimes = []\<rparr>)"
    by simp
  show ?thesis
    by (rule conjI [OF h1 conjI [OF h2 conjI [OF h3 get_shift_by_id_dangling [OF h1 h2 h3]]]])
qed

lemma create_shift_get_roundtrip_witness:
  "wf_db (empty_db\<lparr>persons := [\<lparr>pid = 1, first_name = ''Peter'', last_name = ''Postman'', job_role = None, birthday = None,
       p_created_at = 0, p_updated_at = 0, display_tag = ''andpo512'', p_field_A = None,
       p_field_B = None, p_field_C = None, p_field_D = None, p_field_E = None\<rparr>]\<rparr>) \<and>
   create_shift \<lparr>in_start_time = 1708195140000000, in_end_time = 1708202340000000, in_person_id = 1,
       in_comment = Some ''work''\<rparr> 0 (empty_db\<lparr>persons := [\<lparr>pid = 1, first_name = ''Peter'', last_name = ''Postman'', job_role = None, birthday = None,
       p_created_at = 0, p_updated_at = 0, display_tag = ''andpo512'', p_field_A = None,
       p_field_B = None, p_field_C = None, p_field_D = None, p_field_E = None\<rparr>]\<rparr>) = (Inr \<lparr>in_start_time = 1708195140000000, in_end_time = 1708202340000000, in_person_id = 1,
       in_comment = Some ''work''\<rparr>, snd (create_shift \<lparr>in_start_time = 1708195140000000, in_end_time = 1708202340000000, in_person_id = 1,
       in_comment = Some ''work''\<rparr> 0 (empty_db\<lparr>persons := [\<lparr>pid = 1, first_name = ''Peter'', last_name = ''Postman'', job_role = None, birthday = None,
       p_created_at = 0, p_updated_at = 0, display_tag = ''andpo512'', p_field_A = None,
       p_field_B = None, p_field_C = None, p_field_D = None, p_field_E = None\<rparr>]\<rparr>))) \<and>
   in_person_id \<lparr>in_start_time = 1708195140000000, in_end_time = 1708202340000000, in_person_id = 1,
       in_comment = Some ''work''\<rparr> \<in> pid ` set (persons (empty_db\<lparr>persons := [\<lparr>pid = 1, first_name = ''Peter'', last_name = ''Postman'', job_role = None, birthday = None,
       p_created_at = 0, p_updated_at = 0, display_tag = ''andpo512'', p_field_A = None,
       p_field_B = None, p_field_C = None, p_field_D = None, p_field_E = None\<rparr>]\<rparr>)) \<and>
   \<lparr>in_start_time = 1708195140000000, in_end_time = 1708202340000000, in_person_id = 1,
       in_comment = Some ''work''\<rparr> = \<lparr>in_start_time = 1708195140000000, in_end_time = 1708202340000000, in_person_id = 1,
       in_comment = Some ''work''\<rparr> \<and>
   (\<exists>r. get_shift_by_id (sqlite_next_rowid (map sid (shifts (empty_db\<lparr>persons := [\<lparr>pid = 1, first_name = ''Peter'', last_name = ''Postman'', job_role = None, birthday = None,
       p_created_at = 0, p_updated_at = 0, display_tag = ''andpo512'', p_field_A = None,
       p_field_B = None, p_field_C = None, p_field_D = None, p_field_E = None\<rparr>]\<rparr>)))) (snd (create_shift \<lparr>in_start_time = 1708195140000000, in_end_time = 1708202340000000, in_person_id = 1,
       in_comment = Some ''work''\<rparr> 0 (empty_db\<lparr>persons := [\<lparr>pid = 1, first_name = ''Peter'', last_name = ''Postman'', job_role = None, birthday = None,
       p_created_at = 0, p_updated_at = 0, display_tag = ''andpo512'', p_field_A = None,
       p_field_B = None, p_field_C = None, p_field_D = None, p_field_E = None\<rparr>]\<rparr>))) =
          Inr r \<and>
        start_time (out_shift r) = in_start_time \<lparr>in_start_time = 1708195140000000, in_end_time = 1708202340000000, in_person_id = 1,
       in_comment = Some ''work''\<rparr> \<and> end_time (out_shift r) = in_end_time \<lparr>in_start_time = 1708195140000000, in_end_time = 1708202340000000, in_person_id = 1,
       in_comment = Some ''work''\<rparr> \<and>
        comment (out_shift r) = in_comment \<lparr>in_start_time = 1708195140000000, in_end_time = 1708202340000000, in_person_id = 1,
       in_comment = Some ''work''\<rparr> \<and> person_id (out_shift r) = in_person_id \<lparr>in_start_time = 1708195140000000, in_end_time = 1708202340000000, in_person_id = 1,
       in_comment = Some ''work''\<rparr>)"
proof -
  have h1: "wf_db (empty_db\<lparr>persons := [\<lparr>pid = 1, first_name = ''Peter'', last_name = ''Postman'', job_role = None, birthday = None,
       p_created_at = 0, p_updated_at = 0, display_tag = ''andpo512'', p_field_A = None,
       p_field_B = None, p_field_C = None, p_field_D = None, p_field_E = None\<rparr>]\<rparr>)"
    by (simp add: wf_db_def keys_ordered_def empty_db_def)
  have h2: "create_shift \<lparr>in_start_time = 1708195140000000, in_end_time = 1708202340000000, in_person_id = 1,
       in_comment = Some ''work''\<rparr> 0 (empty_db\<lparr>persons := [\<lparr>pid = 1, first_name = ''Peter'', last_name = ''Postman'', job_role = None, birthday = None,
       p_created_at = 0, p_updated_at = 0, display_tag = ''andpo512'', p_field_A = None,
       p_field_B = None, p_field_C = None, p_field_D = None, p_field_E = None\<rparr>]\<rparr>) = (Inr \<lparr>in_start_time = 1708195140000000, in_end_time = 1708202340000000, in_person_id = 1,
       in_comment = Some ''work''\<rparr>, snd (create_shift \<lparr>in_start_time = 1708195140000000, in_end_time = 1708202340000000, in_person_id = 1,
       in_comment = Some ''work''\<rparr> 0 (empty_db\<lparr>persons := [\<lparr>pid = 1, first_name = ''Peter'', last_name = ''Postman'', job_role = None, birthday = None,
       p_created_at = 0, p_updated_at = 0, display_tag = ''andpo512'', p_field_A = None,
       p_field_B = None, p_field_C = None, p_field_D = None, p_field_E = None\<rparr>]\<rparr>)))"
    by (simp add: create_shift_def)
  have h3: "in_person_id \<lparr>in_start_time = 1708195140000000, in_end_time = 1708202340000000, in_person_id = 1,
       in_comment = Some ''work''\<rparr> \<in> pid ` set (persons (empty_db\<lparr>persons := [\<lparr>pid = 1, first_name = ''Peter'', last_name = ''Postman'', job_role = None, birthday = None,
       p_created_at = 0, p_updated_at = 0, display_tag = ''andpo512'', p_field_A = None,
       p_field_B = None, p_field_C = None, p_field_D = None, p_field_E = None\<rparr>]\<rparr>))"
    by simp
  show ?thesis
    by (rule conjI [OF h1 conjI [OF h2 conjI [OF h3 create_shift_get_roundtrip [OF h1 h2 h3]]]])
qed

end
