(* ===== verification/Overtime_Router.thy ===== *)
theory Overtime_Router
  imports Query
begin

text \<open>
  The handlers of \<open>src/api/routers/overtime.py\<close>. An overtime row is keyed by
  the shift it belongs to; nothing checks that the shift exists.
\<close>

section \<open>Handlers\<close>

text \<open>The row built by \<open>models.Overtime(...)\<close>, lines 22--24.\<close>

definition new_overtime_row :: "overtime_in \<Rightarrow> timestamp \<Rightarrow> overtime" where
  "new_overtime_row overtime' now =
     \<lparr>shift_id = in_shift_id overtime', ot_type = Some (in_type overtime'),
      hours = Some (in_hours overtime'), o_created_at = now, o_updated_at = now,
      o_field_A = None, o_field_B = None, o_field_C = None, o_field_D = None,
      o_field_E = None\<rparr>"

text \<open>\<open>create_overtime\<close>, lines 18--30.\<close>

definition create_overtime :: "overtime_in \<Rightarrow> timestamp \<Rightarrow> db \<Rightarrow> (error + overtime_in) \<times> db" where
  "create_overtime overtime' now d =
     (let db_overtime = new_overtime_row overtime' now
      in case insert_overtime db_overtime d of
           Inl e \<Rightarrow> (Inl e, d)
         | Inr d' \<Rightarrow> (Inr overtime', d'))"

text \<open>\<open>get_all_overtimes\<close>, lines 33--36: every row, in scan order.\<close>

definition get_all_overtimes :: "page_params \<Rightarrow> db \<Rightarrow> overtime page" where
  "get_all_overtimes pp d = paginate pp (overtimes d)"

text \<open>\<open>get_overtime_by_shift\<close>, lines 39--50.\<close>

definition get_overtime_by_shift :: "ident \<Rightarrow> db \<Rightarrow> error + overtime list" where
  "get_overtime_by_shift shift_id' d =
     (case find_shift d shift_id' of
        Some _ \<Rightarrow> Inr (filter (\<lambda>ot. shift_id ot = shift_id') (overtimes d))
      | None \<Rightarrow> Inl shift_not_found)"

section \<open>Lemmas\<close>

text \<open>
  C19: POST /overtime stores the overtime for any shift id not yet used by
  an overtime, whether or not the shift exists.
\<close>

lemma create_overtime_unchecked_shift:
  assumes "in_shift_id ot \<notin> shift_id ` set (overtimes d)"
  shows "create_overtime ot now d =
           (Inr ot, d\<lparr>overtimes := insort_key shift_id (new_overtime_row ot now) (overtimes d)\<rparr>)"
  using assms by (simp add: create_overtime_def insert_overtime_def new_overtime_row_def)

text \<open>
  C20: a second overtime for the same shift fails with the primary-key
  violation, the store unchanged.
\<close>

lemma create_overtime_duplicate:
  assumes "in_shift_id ot \<in> shift_id ` set (overtimes d)"
  shows "create_overtime ot now d =
           (Inl (IntegrityError ''UNIQUE constraint failed: overtimes.shift_id''), d)"
  using assms by (simp add: create_overtime_def insert_overtime_def new_overtime_row_def)

lemma create_overtime_wf:
  "create_overtime ot now d = (r, d') \<Longrightarrow> wf_db d \<Longrightarrow> wf_db d'"
  by (auto simp: create_overtime_def split: sum.splits intro: insert_overtime_wf)

lemma create_overtime_frame:
  "create_overtime ot now d = (r, d') \<Longrightarrow> persons d' = persons d \<and> shifts d' = shifts d"
  by (auto simp: create_overtime_def insert_overtime_def Let_def split: sum.splits if_splits)

text \<open>
  C21: GET /overtime/{shift_id} answers 404 for an absent shift and
  otherwise the overtimes of the shift, of which there is at most one.
\<close>

lemma get_overtime_by_shift_result:
  assumes "wf_db d"
  shows "get_overtime_by_shift i d =
           (if i \<in> sid ` set (shifts d)
            then Inr (filter (\<lambda>ot. shift_id ot = i) (overtimes d))
            else Inl shift_not_found) \<and>
         length (filter (\<lambda>ot. shift_id ot = i) (overtimes d)) \<le> 1"
proof
  show "get_overtime_by_shift i d =
          (if i \<in> sid ` set (shifts d)
           then Inr (filter (\<lambda>ot. shift_id ot = i) (overtimes d))
           else Inl shift_not_found)"
  proof (cases "find_shift d i")
    case None
    then have "i \<notin> sid ` set (shifts d)" by (simp add: find_shift_None)
    with None show ?thesis by (simp add: get_overtime_by_shift_def)
  next
    case (Some s)
    then have "i \<in> sid ` set (shifts d)" using find_shift_Some by force
    with Some show ?thesis by (simp add: get_overtime_by_shift_def)
  qed
  have "distinct (map shift_id (overtimes d))"
    using assms by (simp add: wf_db_def keys_ordered_distinct)
  then have "distinct (map shift_id (filter (\<lambda>ot. shift_id ot = i) (overtimes d)))"
    by (simp add: distinct_map_filter)
  moreover have "set (map shift_id (filter (\<lambda>ot. shift_id ot = i) (overtimes d))) \<subseteq> {i}"
    by auto
  ultimately show "length (filter (\<lambda>ot. shift_id ot = i) (overtimes d)) \<le> 1"
    by (metis card_mono distinct_card finite.emptyI finite.insertI is_singletonI
              is_singleton_altdef length_map)
qed

section \<open>Witnesses\<close>

lemma create_overtime_unchecked_shift_witness:
  "in_shift_id \<lparr>in_type = ''Fix issues'', in_hours = 1, in_shift_id = 123456\<rparr> \<notin> shift_id ` set (overtimes empty_db) \<and>
   create_overtime \<lparr>in_type = ''Fix issues'', in_hours = 1, in_shift_id = 123456\<rparr> 0 empty_db =
     (Inr \<lparr>in_type = ''Fix issues'', in_hours = 1, in_shift_id = 123456\<rparr>, empty_db\<lparr>overtimes := insort_key shift_id (new_overtime_row \<lparr>in_type = ''Fix issues'', in_hours = 1, in_shift_id = 123456\<rparr> 0) (overtimes empty_db)\<rparr>)"
proof -
  have h: "in_shift_id \<lparr>in_type = ''Fix issues'', in_hours = 1, in_shift_id = 123456\<rparr> \<notin> shift_id ` set (overtimes empty_db)"
    by (simp add: empty_db_def)
  show ?thesis
    by (rule conjI [OF h create_overtime_unchecked_shift [OF h]])
qed

lemma create_overtime_duplicate_witness:
  "in_shift_id \<lparr>in_type = ''Fix issues'', in_hours = 1, in_shift_id = 123456\<rparr> \<in> shift_id ` set (overtimes (empty_db\<lparr>overtimes := [new_overtime_row \<lparr>in_type = ''Fix issues'', in_hours = 1, in_shift_id = 123456\<rparr> 0]\<rparr>)) \<and>
   create_overtime \<lparr>in_type = ''Fix issues'', in_hours = 1, in_shift_id = 123456\<rparr> 1 (empty_db\<lparr>overtimes := [new_overtime_row \<lparr>in_type = ''Fix issues'', in_hours = 1, in_shift_id = 123456\<rparr> 0]\<rparr>) =
     (Inl (IntegrityError ''UNIQUE constraint failed: overtimes.shift_id''), (empty_db\<lparr>overtimes := [new_overtime_row \<lparr>in_type = ''Fix issues'', in_hours = 1, in_shift_id = 123456\<rparr> 0]\<rparr>))"
proof -
  have h: "in_shift_id \<lparr>in_type = ''Fix issues'', in_hours = 1, in_shift_id = 123456\<rparr> \<in> shift_id ` set (overtimes (empty_db\<lparr>overtimes := [new_overtime_row \<lparr>in_type = ''Fix issues'', in_hours = 1, in_shift_id = 123456\<rparr> 0]\<rparr>))"
    by (simp add: empty_db_def new_overtime_row_def)
  show ?thesis
    by (rule conjI [OF h create_overtime_duplicate [OF h]])
qed

lemma get_overtime_by_shift_result_witness:
  "wf_db (empty_db\<lparr>overtimes := [new_overtime_row \<lparr>in_type = ''Fix issues'', in_hours = 1, in_shift_id = 123456\<rparr> 0]\<rparr>) \<and>
   get_overtime_by_shift 123456 (empty_db\<lparr>overtimes := [new_overtime_row \<lparr>in_type = ''Fix issues'', in_hours = 1, in_shift_id = 123456\<rparr> 0]\<rparr>) =
     (if 123456 \<in> sid ` set (shifts (empty_db\<lparr>overtimes := [new_overtime_row \<lparr>in_type = ''Fix issues'', in_hours = 1, in_shift_id = 123456\<rparr> 0]\<rparr>))
      then Inr (filter (\<lambda>ot. shift_id ot = 123456) (overtimes (empty_db\<lparr>overtimes := [new_overtime_row \<lparr>in_type = ''Fix issues'', in_hours = 1, in_shift_id = 123456\<rparr> 0]\<rparr>)))
      else Inl shift_not_found) \<and>
   length (filter (\<lambda>ot. shift_id ot = 123456) (overtimes (empty_db\<lparr>overtimes := [new_overtime_row \<lparr>in_type = ''Fix issues'', in_hours = 1, in_shift_id = 123456\<rparr> 0]\<rparr>))) \<le> 1"
proof -
  have h: "wf_db (empty_db\<lparr>overtimes := [new_overtime_row \<lparr>in_type = ''Fix issues'', in_hours = 1, in_shift_id = 123456\<rparr> 0]\<rparr>)"
    by (simp add: wf_db_def keys_ordered_def empty_db_def new_overtime_row_def)
  show ?thesis
    by (rule conjI [OF h get_overtime_by_shift_result [OF h]])
qed

end
