(* ===== verification/Api.thy ===== *)
theory Api
  imports Person_Router Shift_Router Overtime_Router
begin

text \<open>
  The HTTP surface: the API-key gate of \<open>src/dependencies.py\<close> that every
  router declares as a dependency, the liveness route of \<open>src/main.py\<close>, the
  routing of each request to its handler, and the maintenance script
  \<open>src/clear_database.py\<close>. On top of them, the service as a state machine: a
  step is one request (with any header, clock value and random draws) or one
  run of the clear-database script; the reachable stores are those a sequence
  of steps produces from the empty database, and the invariant \<open>wf_db\<close> holds
  in all of them.
\<close>

section \<open>The API-key gate (dependencies.py)\<close>

text \<open>
  \<open>get_api_key\<close>, lines 22--30. The header is optional (\<open>auto_error=False\<close>),
  and so is the environment variable (\<open>os.environ.get\<close>): \<open>None\<close> for a missing
  one. They are compared as they are.
\<close>

definition get_api_key :: "string option \<Rightarrow> string option \<Rightarrow> error + string option" where
  "get_api_key api_key_env api_key_header =
     (if api_key_header = api_key_env then Inr api_key_header
      else Inl (HTTPException 403 ''Could not validate API KEY''))"

section \<open>The application (main.py) and the maintenance script\<close>

text \<open>\<open>hello_world\<close>, lines 30--32: the one route outside the routers.\<close>

definition hello_world :: string where
  "hello_world = ''Hello World!''"

text \<open>\<open>delete_records\<close> of \<open>clear_database.py\<close>, lines 7--16: all three tables emptied.\<close>

definition delete_records :: "db \<Rightarrow> db" where
  "delete_records d = d\<lparr>overtimes := [], shifts := [], persons := []\<rparr>"

section \<open>Requests and responses\<close>

text \<open>
  One constructor per route of the three routers and of the application, with
  the path and query parameters and the body the route reads.
\<close>

datatype request =
    PostPerson person_in
  | GetPerson ident
  | GetPersons "string option" "string option" "string option" page_params
  | PutPerson ident person_in
  | GetPersonShifts ident "timestamp option" "timestamp option" "string option" "string option"
      page_params
  | DeletePerson ident
  | PostShift shift_in
  | GetShifts "string option" "string option" "string option" "timestamp option" "timestamp option"
      page_params
  | GetShift ident
  | PutShift ident shift_in
  | DeleteShift ident
  | PostOvertime overtime_in
  | GetOvertimes page_params
  | GetOvertime ident
  | GetRoot

datatype response =
    RPerson person_in
  | RPersonOut person
  | RPersons "person page"
  | RShift shift_in
  | RShiftOut shift_out
  | RShifts "shift_out page"
  | RMessage string
  | ROvertime overtime_in
  | ROvertimes "overtime page"
  | ROvertimeList "overtime list"
  | RHello string

text \<open>
  The handler each route runs (\<open>app.include_router\<close>, main.py lines 35--37, and
  the decorators of the routers), with its result wrapped as a response.
\<close>

fun route :: "request \<Rightarrow> timestamp \<Rightarrow> nat stream \<Rightarrow> db \<Rightarrow> ((error + response) \<times> db) option" where
  "route (PostPerson p) now rs d =
     map_option (\<lambda>(r, d'). (map_sum id RPerson r, d')) (create_person p now rs d)"
| "route (GetPerson i) now rs d = Some (map_sum id RPersonOut (get_person_by_id i d), d)"
| "route (GetPersons ss ot sb pp) now rs d =
     Some (map_sum id RPersons (get_all_persons ss ot sb pp d), d)"
| "route (PutPerson i p) now rs d =
     (case update_person p i now d of (r, d') \<Rightarrow> Some (map_sum id RPerson r, d'))"
| "route (GetPersonShifts i sd ed sb ot pp) now rs d =
     Some (map_sum id RShifts (get_shifts i sd ed sb ot pp d), d)"
| "route (DeletePerson i) now rs d =
     (case delete_person i d of (r, d') \<Rightarrow> Some (map_sum id RMessage r, d'))"
| "route (PostShift s) now rs d =
     (case create_shift s now d of (r, d') \<Rightarrow> Some (map_sum id RShift r, d'))"
| "route (GetShifts ot sb ss sd ed pp) now rs d =
     Some (map_sum id RShifts (get_all_shifts ot sb ss sd ed pp d), d)"
| "route (GetShift i) now rs d = Some (map_sum id RShiftOut (get_shift_by_id i d), d)"
| "route (PutShift i s) now rs d =
     (case update_shift s i now d of (r, d') \<Rightarrow> Some (map_sum id RShift r, d'))"
| "route (DeleteShift i) now rs d =
     (case delete_shift i d of (r, d') \<Rightarrow> Some (map_sum id RMessage r, d'))"
| "route (PostOvertime ot) now rs d =
     (case create_overtime ot now d of (r, d') \<Rightarrow> Some (map_sum id ROvertime r, d'))"
| "route (GetOvertimes pp) now rs d = Some (Inr (ROvertimes (get_all_overtimes pp d)), d)"
| "route (GetOvertime i) now rs d =
     Some (map_sum id ROvertimeList (get_overtime_by_shift i d), d)"
| "route GetRoot now rs d = Some (Inr (RHello hello_world), d)"

text \<open>
  A request: the routers' dependency \<open>get_api_key\<close> runs first on every route
  but \<open>/\<close>, and a failed check ends the request before the handler.
\<close>

definition needs_api_key :: "request \<Rightarrow> bool" where
  "needs_api_key req \<longleftrightarrow> req \<noteq> GetRoot"

definition handle ::
  "string option \<Rightarrow> string option \<Rightarrow> request \<Rightarrow> timestamp \<Rightarrow> nat stream \<Rightarrow> db \<Rightarrow>
   ((error + response) \<times> db) option" where
  "handle api_key_env header req now rs d =
     (if needs_api_key req
      then (case get_api_key api_key_env header of
              Inl e \<Rightarrow> Some (Inl e, d)
            | Inr _ \<Rightarrow> route req now rs d)
      else route req now rs d)"

text \<open>A sequence of requests, each with its clock value and its random draws.\<close>

fun run ::
  "string option \<Rightarrow> string option \<Rightarrow> (request \<times> timestamp \<times> nat stream) list \<Rightarrow> db \<Rightarrow>
   ((error + response) list \<times> db) option" where
  "run k h [] d = Some ([], d)"
| "run k h ((req, now, rs) # reqs) d =
     (case handle k h req now rs d of
        None \<Rightarrow> None
      | Some (r, d') \<Rightarrow>
          (case run k h reqs d' of
             None \<Rightarrow> None
           | Some (out, d'') \<Rightarrow> Some (r # out, d'')))"

section \<open>The service as a state machine\<close>

inductive api_step :: "string option \<Rightarrow> db \<Rightarrow> db \<Rightarrow> bool" for api_key_env where
  request: "handle api_key_env header req now rs d = Some (r, d') \<Longrightarrow> api_step api_key_env d d'"
| clear: "api_step api_key_env d (delete_records d)"

inductive reachable :: "string option \<Rightarrow> db \<Rightarrow> bool" for api_key_env where
  init: "reachable api_key_env empty_db"
| step: "reachable api_key_env d \<Longrightarrow> api_step api_key_env d d' \<Longrightarrow> reachable api_key_env d'"

inductive_cases api_step_cases: "api_step k d d'"

section \<open>Lemmas\<close>

lemma handle_own_key: "handle k k req now rs d = route req now rs d"
  by (simp add: handle_def get_api_key_def)

lemma route_wf:
  assumes "route req now rs d = Some (r, d')" and "wf_db d"
  shows "wf_db d'"
proof (cases req)
  case (PostPerson p)
  with assms show ?thesis
    by (auto simp: create_person_wf dest: create_person_wf [OF _ assms(2)])
next
  case (PutPerson i p)
  with assms show ?thesis
    by (cases "update_person p i now d") (auto dest: update_person_wf)
next
  case (DeletePerson i)
  with assms show ?thesis
    by (cases "delete_person i d") (auto dest: delete_person_wf)
next
  case (PostShift s)
  with assms show ?thesis
    by (cases "create_shift s now d") (auto dest: create_shift_wf)
next
  case (PutShift i s)
  with assms show ?thesis
    by (cases "update_shift s i now d") (auto dest: update_shift_wf)
next
  case (DeleteShift i)
  with assms show ?thesis
    by (cases "delete_shift i d") (auto dest: delete_shift_wf)
next
  case (PostOvertime ot)
  with assms show ?thesis
    by (cases "create_overtime ot now d") (auto dest: create_overtime_wf)
qed (use assms in auto)

lemma handle_wf:
  "handle k h req now rs d = Some (r, d') \<Longrightarrow> wf_db d \<Longrightarrow> wf_db d'"
  by (auto simp: handle_def split: if_splits sum.splits dest: route_wf)

lemma delete_records_wf: "wf_db (delete_records d)"
  by (simp add: delete_records_def wf_db_def)

text \<open>
  The invariant rule of the reachable stores: a property of the empty store
  that every step keeps holds in every reachable store.
\<close>

lemma reachable_invariant [consumes 1, case_names init step]:
  assumes "reachable k d" and "I empty_db"
    and "\<And>d d'. reachable k d \<Longrightarrow> I d \<Longrightarrow> api_step k d d' \<Longrightarrow> I d'"
  shows "I d"
  using assms(1) by (induction rule: reachable.induct) (auto intro: assms(2,3))

lemma reachable_wf_db: "reachable k d \<Longrightarrow> wf_db d"
  by (erule reachable_invariant)
     (auto simp: wf_empty_db delete_records_wf elim!: api_step.cases dest: handle_wf)

text \<open>
  C14: every step of the service (a request or the clear-database script)
  preserves the store invariant wf_db.
\<close>

lemma api_step_wf: "api_step k d d' \<Longrightarrow> wf_db d \<Longrightarrow> wf_db d'"
  by (erule api_step.cases) (auto dest: handle_wf simp: delete_records_wf)

text \<open>
  C3: in every store reachable from the empty one by requests and runs of
  the clear-database script, display tags are pairwise distinct.
\<close>

lemma reachable_display_tags_unique:
  "reachable k d \<Longrightarrow> distinct (map display_tag (persons d))"
  using reachable_wf_db by (simp add: wf_db_def)

text \<open>
  C5: in every reachable store, each shift starts no later than it ends.
\<close>

lemma reachable_shift_times_ordered:
  "reachable k d \<Longrightarrow> s \<in> set (shifts d) \<Longrightarrow> start_time s \<le> end_time s"
  using reachable_wf_db by (auto simp: wf_db_def)

lemma route_returns: "\<exists>r d'. route req now rs d = Some (r, d')"
proof (cases req)
  case (PostPerson p)
  then show ?thesis
    using create_person_returns [of p now rs d] by auto
qed (auto split: prod.split)



text \<open>
  C12: with the API_KEY variable unset, a request without the access_token
  header passes the key check and runs its handler.
\<close>

lemma handle_unset_key_admits_no_header:
  "handle None None req now rs d = route req now rs d"
  by (simp add: handle_def get_api_key_def)

lemma reachable_run:
  "run k h reqs d = Some (outs, d') \<Longrightarrow> reachable k d \<Longrightarrow> reachable k d'"
proof (induction reqs arbitrary: d outs)
  case Nil
  then show ?case by simp
next
  case (Cons x reqs)
  obtain req now rs where x: "x = (req, now, rs)"
    by (cases x) auto
  from Cons.prems(1) obtain r d1 outs' where
    h: "handle k h req now rs d = Some (r, d1)" and t: "run k h reqs d1 = Some (outs', d')"
    by (auto simp: x split: option.splits)
  have "reachable k d1"
    using Cons.prems(2) api_step.request [OF h] by (rule reachable.step)
  with t show ?case
    by (rule Cons.IH)
qed

text \<open>Row ids start at 1: no person of a reachable store has the id 0.\<close>

lemma route_pid_nonzero:
  assumes "route req now rs d = Some (r, d')" and "0 \<notin> pid ` set (persons d)"
  shows "0 \<notin> pid ` set (persons d')"
proof (cases req)
  case (PostPerson p)
  with assms show ?thesis
    by (auto simp: create_person_eq insert_person_def new_person_row_def sqlite_next_rowid_def
             split: sum.splits if_splits)
next
  case (PutPerson i p)
  obtain r' d'' where u: "update_person p i now d = (r', d'')"
    by (cases "update_person p i now d")
  have "map pid (persons d'') = map pid (persons d)"
    using update_person_keeps_keys_and_tags [OF u] by simp
  then have "pid ` set (persons d'') = pid ` set (persons d)"
    by (metis list.set_map)
  with assms PutPerson u show ?thesis
    by simp
next
  case (DeletePerson i)
  with assms show ?thesis
    by (auto simp: delete_person_def split: option.splits)
next
  case (PostShift s)
  with assms show ?thesis
    by (auto simp: create_shift_def insert_shift_def Let_def split: if_splits)
next
  case (PutShift i s)
  with assms show ?thesis
    by (auto simp: update_shift_def Let_def split: if_splits option.splits)
next
  case (DeleteShift i)
  with assms show ?thesis
    by (auto simp: delete_shift_def split: option.splits)
next
  case (PostOvertime ot)
  with assms show ?thesis
    by (cases "create_overtime ot now d") (auto dest: create_overtime_frame)
qed (use assms in auto)

lemma handle_pid_nonzero:
  assumes "handle k h req now rs d = Some (r, d')" and "0 \<notin> pid ` set (persons d)"
  shows "0 \<notin> pid ` set (persons d')"
proof (cases "needs_api_key req \<and> isl (get_api_key k h)")
  case True
  with assms show ?thesis
    by (auto simp: handle_def split: sum.splits)
next
  case False
  then have "route req now rs d = Some (r, d')"
    using assms(1) by (auto simp: handle_def split: sum.splits if_splits)
  from route_pid_nonzero [OF this assms(2)] show ?thesis .
qed

lemma reachable_pid_nonzero: "reachable k d \<Longrightarrow> 0 \<notin> pid ` set (persons d)"
proof (erule reachable_invariant)
  show "0 \<notin> pid ` set (persons empty_db)"
    by (simp add: empty_db_def)
next
  fix d d'
  assume "api_step k d d'" and nz: "0 \<notin> pid ` set (persons d)"
  then show "0 \<notin> pid ` set (persons d')"
  proof (cases rule: api_step.cases)
    case (request header req now rs r)
    then show ?thesis
      using nz by (rule handle_pid_nonzero)
  next
    case clear
    then show ?thesis
      by (simp add: delete_records_def)
  qed
qed

lemma run_append:
  "run k h (xs @ ys) d =
     (case run k h xs d of
        None \<Rightarrow> None
      | Some (out1, d1) \<Rightarrow> map_option (\<lambda>(out2, d2). (out1 @ out2, d2)) (run k h ys d1))"
proof (induction xs arbitrary: d)
  case Nil
  show ?case
    by (cases "run k h ys d") auto
next
  case (Cons x xs)
  obtain req now rs where x: "x = (req, now, rs)"
    by (cases x) auto
  show ?case
    by (auto simp: x Cons.IH split: option.splits)
qed

section \<open>Witnesses\<close>

lemma api_step_wf_witness:
  "api_step (Some ''k'') empty_db (snd (the (route (PostShift \<lparr>in_start_time = 1708195140000000, in_end_time = 1708202340000000, in_person_id = 1,
       in_comment = Some ''work''\<rparr>) 0 (sconst 512) empty_db))) \<and>
   wf_db empty_db \<and> wf_db (snd (the (route (PostShift \<lparr>in_start_time = 1708195140000000, in_end_time = 1708202340000000, in_person_id = 1,
       in_comment = Some ''work''\<rparr>) 0 (sconst 512) empty_db)))"
proof -
  have h1: "api_step (Some ''k'') empty_db (snd (the (route (PostShift \<lparr>in_start_time = 1708195140000000, in_end_time = 1708202340000000, in_person_id = 1,
       in_comment = Some ''work''\<rparr>) 0 (sconst 512) empty_db)))"
    by (rule api_step.request [where header = "Some ''k''" and req = "PostShift \<lparr>in_start_time = 1708195140000000, in_end_time = 1708202340000000, in_person_id = 1,
       in_comment = Some ''work''\<rparr>" and now = 0
          and rs = "sconst 512" and r = "Inr (RShift \<lparr>in_start_time = 1708195140000000, in_end_time = 1708202340000000, in_person_id = 1,
       in_comment = Some ''work''\<rparr>)"])
       (simp add: handle_def needs_api_key_def get_api_key_def create_shift_def)
  have h2: "wf_db empty_db"
    by (rule wf_empty_db)
  show ?thesis
    by (rule conjI [OF h1 conjI [OF h2 api_step_wf [OF h1 h2]]])
qed

lemma reachable_after_post_shift:
  "reachable (Some ''k'') (snd (the (route (PostShift \<lparr>in_start_time = 1708195140000000, in_end_time = 1708202340000000, in_person_id = 1,
       in_comment = Some ''work''\<rparr>) 0 (sconst 512) empty_db)))"
  by (rule reachable.step [OF reachable.init api_step.request
        [where header = "Some ''k''" and req = "PostShift \<lparr>in_start_time = 1708195140000000, in_end_time = 1708202340000000, in_person_id = 1,
       in_comment = Some ''work''\<rparr>" and now = 0
          and rs = "sconst 512" and r = "Inr (RShift \<lparr>in_start_time = 1708195140000000, in_end_time = 1708202340000000, in_person_id = 1,
       in_comment = Some ''work''\<rparr>)"]])
     (simp add: handle_def needs_api_key_def get_api_key_def create_shift_def)

lemma reachable_display_tags_unique_witness:
  "reachable (Some ''k'') (snd (the (route (PostShift \<lparr>in_start_time = 1708195140000000, in_end_time = 1708202340000000, in_person_id = 1,
       in_comment = Some ''work''\<rparr>) 0 (sconst 512) empty_db))) \<and>
   distinct (map display_tag (persons (snd (the (route (PostShift \<lparr>in_start_time = 1708195140000000, in_end_time = 1708202340000000, in_person_id = 1,
       in_comment = Some ''work''\<rparr>) 0 (sconst 512) empty_db)))))"
  by (rule conjI [OF reachable_after_post_shift
        reachable_display_tags_unique [OF reachable_after_post_shift]])

lemma reachable_shift_times_ordered_witness:
  "reachable (Some ''k'') (snd (the (route (PostShift \<lparr>in_start_time = 1708195140000000, in_end_time = 1708202340000000, in_person_id = 1,
       in_comment = Some ''work''\<rparr>) 0 (sconst 512) empty_db))) \<and>
   new_shift_row \<lparr>in_start_time = 1708195140000000, in_end_time = 1708202340000000, in_person_id = 1,
       in_comment = Some ''work''\<rparr> 0 empty_db \<in>
     set (shifts (snd (the (route (PostShift \<lparr>in_start_time = 1708195140000000, in_end_time = 1708202340000000, in_person_id = 1,
       in_comment = Some ''work''\<rparr>) 0 (sconst 512) empty_db)))) \<and>
   start_time (new_shift_row \<lparr>in_start_time = 1708195140000000, in_end_time = 1708202340000000, in_person_id = 1,
       in_comment = Some ''work''\<rparr> 0 empty_db) \<le> end_time (new_shift_row \<lparr>in_start_time = 1708195140000000, in_end_time = 1708202340000000, in_person_id = 1,
       in_comment = Some ''work''\<rparr> 0 empty_db)"
proof -
  have h: "new_shift_row \<lparr>in_start_time = 1708195140000000, in_end_time = 1708202340000000, in_person_id = 1,
       in_comment = Some ''work''\<rparr> 0 empty_db \<in>
             set (shifts (snd (the (route (PostShift \<lparr>in_start_time = 1708195140000000, in_end_time = 1708202340000000, in_person_id = 1,
       in_comment = Some ''work''\<rparr>) 0 (sconst 512) empty_db))))"
    by (simp add: create_shift_def insert_shift_def empty_db_def)
  show ?thesis
    by (rule conjI [OF reachable_after_post_shift conjI [OF h
          reachable_shift_times_ordered [OF reachable_after_post_shift h]]])
qed


end
