(* ===== verification/Populate.thy ===== *)
theory Populate
  imports Api
begin

text \<open>
  \<open>src/populate.py\<close>, the client script that fills a running service with
  dummy data over HTTP. It pings \<open>/\<close>, then posts \<open>size\<close> random persons
  (\<open>add_persons\<close>) and the shifts of \<open>add_shifts\<close>; \<open>add_overtime\<close> is defined
  but its call is commented out. The script is modelled as the list of
  requests it sends, run through \<open>run\<close> of \<open>Api\<close>: the client's draws of
  \<open>random.randint\<close> are given as indices, the server's draws and clock as a
  schedule (one clock value and one stream of draws per request). The
  header is \<open>os.environ.get("API_KEY")\<close> read from the same \<open>.env\<close> as the
  service, so it equals the service's key (\<open>requests\<close> drops a header whose
  value is \<open>None\<close>, which is the missing header of the model).
\<close>

section \<open>The data (lines 25--48)\<close>

definition first_names :: "string list" where
  "first_names = [''Darth'', ''Obi-Wan'', ''Anakin'', ''Leia'', ''Kylo'', ''Boba'', ''Han'',
                  ''Ahsoka'', ''Luke'']"

definition last_names :: "string list" where
  "last_names = [''Vader'', ''Kenobi'', ''Skywalker'', ''Organa'', ''Ren'', ''Fett'', ''Solo'',
                 ''Tano'']"

text \<open>The job roles, the non-ASCII ones as their UTF-8 bytes.\<close>

definition job_roles :: "string list" where
  "job_roles = [''Bartender'', ''Kock'', ''Servit'' @ [CHR 0xC3, CHR 0xB6] @ ''r'', ''Chef'',
                ''Hovm'' @ [CHR 0xC3, CHR 0xA4] @ ''stare'', ''Bagare'']"

text \<open>\<open>"2024-05-02T20:00:00.000Z"\<close>, in microseconds since 1970.\<close>

definition populate_birthday :: timestamp where
  "populate_birthday = 1714680000000000"

section \<open>The requests\<close>

text \<open>
  One person of \<open>add_persons\<close> (lines 51--56): the three draws of
  \<open>random.randint(0, len(...) - 1)\<close> index the three lists.
\<close>

definition person_data :: "nat \<times> nat \<times> nat \<Rightarrow> person_in" where
  "person_data draw =
     (case draw of (i, j, r) \<Rightarrow>
        \<lparr>in_first_name = first_names ! i, in_last_name = last_names ! j,
         in_job_role = Some (job_roles ! r), in_birthday = Some populate_birthday\<rparr>)"

text \<open>The range of the three draws: \<open>randint\<close> never leaves it, so no index fails.\<close>

definition draw_in_range :: "nat \<times> nat \<times> nat \<Rightarrow> bool" where
  "draw_in_range draw \<longleftrightarrow>
     (case draw of (i, j, r) \<Rightarrow>
        i < length first_names \<and> j < length last_names \<and> r < length job_roles)"

text \<open>\<open>add_persons(size)\<close>, lines 22--60: one \<open>POST /person\<close> per draw.\<close>

definition add_persons :: "(nat \<times> nat \<times> nat) list \<Rightarrow> request list" where
  "add_persons draws = map (\<lambda>draw. PostPerson (person_data draw)) draws"

text \<open>The body of a posted shift (lines 70--75 and 87--112).\<close>

definition shift_data :: "timestamp \<Rightarrow> timestamp \<Rightarrow> string option \<Rightarrow> nat \<Rightarrow> shift_in" where
  "shift_data start_t end_t c i =
     \<lparr>in_start_time = start_t, in_end_time = end_t, in_person_id = i, in_comment = c\<rparr>"

text \<open>
  The shifts of \<open>add_shifts(size)\<close>, lines 63--125: one shift on 2024-01-30,
  08:00--17:00, for each \<open>person_id\<close> \<open>i\<close> in \<open>range(size)\<close>; then, for
  every \<open>i\<close> divisible by 3, a shift on 2024-02-17 08:00--17:00, one on
  2024-05-01 10:00--19:00, and one from 2024-04-05 18:00 to 02:00 the same
  day.
\<close>

definition add_shifts_data :: "nat \<Rightarrow> shift_in list" where
  "add_shifts_data sz =
     map (\<lambda>i. shift_data 1706601600000000 1706634000000000 None i) [0..<sz] @
     concat (map (\<lambda>i. if i mod 3 = 0
                      then [shift_data 1708156800000000 1708189200000000
                              (Some (''Jobbade 2 timmar '' @ [CHR 0xC3, CHR 0xB6] @ ''vertid'')) i,
                            shift_data 1714557600000000 1714590000000000
                              (Some ''Bytte pass med Anakin'') i,
                            shift_data 1712340000000000 1712282400000000 None i]
                      else []) [0..<sz])"

definition add_shifts :: "nat \<Rightarrow> request list" where
  "add_shifts sz = map PostShift (add_shifts_data sz)"

text \<open>
  \<open>add_overtime(size)\<close>, lines 128--138: an overtime of type \<open>Kompledigt\<close>
  for every \<open>shift_id\<close> \<open>i\<close> in \<open>range(size)\<close> divisible by 4, its hours the
  draws of \<open>random.randint(1, 4)\<close>.
\<close>

definition add_overtime :: "nat \<Rightarrow> int list \<Rightarrow> request list" where
  "add_overtime sz hs =
     map2 (\<lambda>i h. PostOvertime \<lparr>in_type = ''Kompledigt'', in_hours = h, in_shift_id = i\<rparr>)
       (filter (\<lambda>i. i mod 4 = 0) [0..<sz]) hs"

text \<open>
  \<open>ping_application\<close>, lines 13--19: \<open>GET /\<close> without a header; true when the
  status is 200. The service is modelled as running, so the exception branch
  is not reached.
\<close>

definition ping_application :: "string option \<Rightarrow> db \<Rightarrow> bool" where
  "ping_application api_key_env d =
     (case handle api_key_env None GetRoot 0 (sconst 0) d of
        Some (Inr _, _) \<Rightarrow> True
      | _ \<Rightarrow> False)"

text \<open>The requests sent at the \<open>n\<close>-th position get the \<open>n\<close>-th clock value and draws.\<close>

definition timed ::
  "request list \<Rightarrow> (nat \<Rightarrow> timestamp \<times> nat stream) \<Rightarrow> (request \<times> timestamp \<times> nat stream) list" where
  "timed reqs sched = map (\<lambda>(n, q). (q, fst (sched n), snd (sched n))) (zip [0..<length reqs] reqs)"

text \<open>
  The \<open>__main__\<close> block, lines 141--149: after a successful ping, the persons
  and then the shifts (\<open>size\<close> is the number of person draws); otherwise
  nothing is sent.
\<close>

definition populate ::
  "string option \<Rightarrow> (nat \<times> nat \<times> nat) list \<Rightarrow> (nat \<Rightarrow> timestamp \<times> nat stream) \<Rightarrow> db \<Rightarrow>
   ((error + response) list \<times> db) option" where
  "populate api_key_env draws sched d =
     (if ping_application api_key_env d
      then run api_key_env api_key_env
             (timed (add_persons draws @ add_shifts (length draws)) sched) d
      else Some ([], d))"

section \<open>Lemmas\<close>

lemma ping_application_true: "ping_application k d"
  by (simp add: ping_application_def handle_def needs_api_key_def)

lemma timed_append:
  "timed (xs @ ys) sched = timed xs sched @ timed ys (\<lambda>n. sched (length xs + n))"
proof -
  have "[length xs..<length xs + length ys] = map ((+) (length xs)) [0..<length ys]"
    by (rule nth_equalityI) auto
  then have "zip [0..<length xs + length ys] (xs @ ys) =
               zip [0..<length xs] xs @ zip (map ((+) (length xs)) [0..<length ys]) ys"
    by (simp add: upt_add_eq_append [of 0] zip_append)
  then show ?thesis
    by (auto simp: timed_def zip_map1)
qed

lemma timed_post_shifts:
  "timed (map PostShift ss) sched =
   map (\<lambda>(s, t, rs). (PostShift s, t, rs)) (map (\<lambda>(n, s). (s, sched n)) (zip [0..<length ss] ss))"
  by (simp add: timed_def zip_map2 case_prod_beta)

text \<open>A run of \<open>POST /shift\<close> requests: each is refused or appended, in order.\<close>

lemma run_post_shifts:
  "\<exists>d'. run k k (map (\<lambda>(s, t, rs). (PostShift s, t, rs)) xs) d =
          Some (map (\<lambda>(s, t, rs). if in_end_time s < in_start_time s then Inl end_before_start
                                  else Inr (RShift s)) xs, d') \<and>
        persons d' = persons d \<and> overtimes d' = overtimes d \<and>
        map person_id (shifts d') =
          map person_id (shifts d) @
          map in_person_id (filter (\<lambda>s. in_start_time s \<le> in_end_time s) (map fst xs))"
proof (induction xs arbitrary: d)
  case Nil
  show ?case by simp
next
  case (Cons x xs)
  obtain s t rs where x: "x = (s, t, rs)"
    by (cases x) auto
  show ?case
  proof (cases "in_end_time s < in_start_time s")
    case True
    then have "handle k k (PostShift s) t rs d = Some (Inl end_before_start, d)"
      by (simp add: handle_own_key create_shift_def)
    with True Cons.IH [of d] show ?thesis
      by (auto simp: x)
  next
    case False
    let ?d1 = "insert_shift (new_shift_row s t d) d"
    have "handle k k (PostShift s) t rs d = Some (Inr (RShift s), ?d1)"
      using False by (simp add: handle_own_key create_shift_def)
    with False Cons.IH [of ?d1] show ?thesis
      by (auto simp: x insert_shift_def new_shift_row_def)
  qed
qed

lemma count_mod_3: "length (filter (\<lambda>i. i mod 3 = 0) [0..<n]) = (n + 2) div 3"
  by (induction n) (auto, presburger+)

lemma length_concat_map_if:
  "length (concat (map (\<lambda>i. if P i then f i else []) xs)) =
   sum_list (map (\<lambda>i. length (f i)) (filter P xs))"
  by (induction xs) auto

lemma add_shifts_data_refused:
  "filter (\<lambda>s. in_end_time s < in_start_time s) (add_shifts_data n) =
   concat (map (\<lambda>i. if i mod 3 = 0 then [shift_data 1712340000000000 1712282400000000 None i]
                    else []) [0..<n])"
  by (simp add: add_shifts_data_def filter_concat comp_def shift_data_def if_distrib [of "filter _"]
                cong: if_cong)

lemma add_shifts_data_counts:
  "length (filter (\<lambda>s. in_end_time s < in_start_time s) (add_shifts_data n)) = (n + 2) div 3 \<and>
   length (filter (\<lambda>s. in_start_time s \<le> in_end_time s) (add_shifts_data n)) = n + 2 * ((n + 2) div 3)"
proof -
  have bad: "length (filter (\<lambda>s. in_end_time s < in_start_time s) (add_shifts_data n)) = (n + 2) div 3"
    unfolding add_shifts_data_refused length_concat_map_if by (simp add: count_mod_3 sum_list_triv)
  have all: "length (add_shifts_data n) = n + 3 * ((n + 2) div 3)"
    unfolding add_shifts_data_def length_append length_map length_upt length_concat_map_if
    by (simp add: sum_list_triv count_mod_3)
  have "length (filter (\<lambda>s. in_start_time s \<le> in_end_time s) (add_shifts_data n)) +
        length (filter (\<lambda>s. in_end_time s < in_start_time s) (add_shifts_data n)) =
        length (add_shifts_data n)"
    using sum_length_filter_compl [of "\<lambda>s. in_start_time s \<le> in_end_time s" "add_shifts_data n"]
    by (simp add: not_le)
  with bad all show ?thesis
    by simp
qed

lemma filter_isl_refusals:
  "filter isl (map (\<lambda>s. if in_end_time s < in_start_time s then Inl end_before_start
                         else Inr (RShift s)) ss) =
   replicate (length (filter (\<lambda>s. in_end_time s < in_start_time s) ss)) (Inl end_before_start)"
  by (induction ss) auto

lemma map_case_fst: "map (\<lambda>(s, t, rs). G s) xs = map G (map fst xs)"
  by (induction xs) auto

text \<open>The run of \<open>add_shifts\<close> from any store, with any schedule.\<close>

lemma run_add_shifts:
  "\<exists>d'. run k k (timed (add_shifts n) sched) d =
          Some (map (\<lambda>s. if in_end_time s < in_start_time s then Inl end_before_start
                          else Inr (RShift s)) (add_shifts_data n), d') \<and>
        persons d' = persons d \<and> overtimes d' = overtimes d \<and>
        map person_id (shifts d') =
          map person_id (shifts d) @
          map in_person_id (filter (\<lambda>s. in_start_time s \<le> in_end_time s) (add_shifts_data n))"
proof -
  let ?ss = "add_shifts_data n"
  let ?xs = "map (\<lambda>(i, s). (s, sched i)) (zip [0..<length ?ss] ?ss)"
  have fst_xs: "map fst ?xs = ?ss"
    by (simp add: case_prod_beta comp_def)
  have outs: "map (\<lambda>(s, t, rs). if in_end_time s < in_start_time s then Inl end_before_start
                                else Inr (RShift s)) ?xs =
              map (\<lambda>s. if in_end_time s < in_start_time s then Inl end_before_start
                        else Inr (RShift s)) (map fst ?xs)"
    by (rule map_case_fst)
  show ?thesis
    using run_post_shifts [of k ?xs d] unfolding outs fst_xs
    by (simp add: add_shifts_def timed_post_shifts)
qed

lemma add_shifts_data_person_0:
  "0 < n \<Longrightarrow> 0 \<in> in_person_id ` set (filter (\<lambda>s. in_start_time s \<le> in_end_time s) (add_shifts_data n))"
  by (rule image_eqI [of _ _ "shift_data 1706601600000000 1706634000000000 None 0"])
     (auto simp: add_shifts_data_def shift_data_def)



end
