(* ===== verification/Responses.thy ===== *)
theory Responses
  imports Api
begin

text \<open>
  The response models of \<open>src/api/schemas.py\<close> and the conversion FastAPI
  applies to a handler's return value through its return annotation; a value
  that does not validate is a server error. \<open>OvertimeOut\<close> requires
  \<open>type: str\<close> and \<open>hours: int\<close>, while the columns \<open>type\<close> and \<open>hours\<close> of
  \<open>models.Overtime\<close> are nullable. This theory shows, in the manner of a
  type-soundness proof, that every reachable store holds only overtimes that
  validate, so that every response of every route validates; and that a
  client following the \<open>next\<close> links of \<open>GET /overtime\<close> reads the whole
  table once.
\<close>

section \<open>OvertimeOut (schemas.py, lines 62--72)\<close>

record overtime_out =
  oo_type :: string
  oo_hours :: int
  oo_shift_id :: ident
  oo_field_A :: "string option"
  oo_field_B :: "string option"
  oo_field_C :: "string option"
  oo_field_D :: "string option"
  oo_field_E :: "string option"

text \<open>Validation of one row against the model: \<open>None\<close> when a required field is \<open>NULL\<close>.\<close>

definition overtime_out_of :: "overtime \<Rightarrow> overtime_out option" where
  "overtime_out_of ot =
     (case (ot_type ot, hours ot) of
        (Some t, Some h) \<Rightarrow>
          Some \<lparr>oo_type = t, oo_hours = h, oo_shift_id = shift_id ot,
                oo_field_A = o_field_A ot, oo_field_B = o_field_B ot, oo_field_C = o_field_C ot,
                oo_field_D = o_field_D ot, oo_field_E = o_field_E ot\<rparr>
      | _ \<Rightarrow> None)"

text \<open>Validation of a \<open>list[OvertimeOut]\<close>: every element must validate.\<close>

definition validate_overtimes :: "overtime list \<Rightarrow> overtime_out list option" where
  "validate_overtimes xs = those (map overtime_out_of xs)"

text \<open>The typing of a store: every overtime row has its type and its hours.\<close>

definition overtimes_typed :: "db \<Rightarrow> bool" where
  "overtimes_typed d \<longleftrightarrow> (\<forall>ot \<in> set (overtimes d). ot_type ot \<noteq> None \<and> hours ot \<noteq> None)"

section \<open>PersonOut (schemas.py, lines 13--28)\<close>

text \<open>
  Every field of \<open>PersonOut\<close> has its column's type in the model: the
  required strings \<open>first_name\<close>, \<open>last_name\<close> and \<open>display_tag\<close> are
  always written by \<open>create_person\<close> and \<open>update_person\<close>, so the
  conversion of a stored row is total.
\<close>

record person_out =
  po_id :: ident
  po_first_name :: string
  po_last_name :: string
  po_display_tag :: string
  po_created_at :: timestamp
  po_updated_at :: timestamp
  po_job_role :: "string option"
  po_birthday :: "timestamp option"
  po_field_A :: "string option"
  po_field_B :: "string option"
  po_field_C :: "string option"
  po_field_D :: "string option"
  po_field_E :: "string option"

definition person_out_of :: "person \<Rightarrow> person_out" where
  "person_out_of p =
     \<lparr>po_id = pid p, po_first_name = first_name p, po_last_name = last_name p,
      po_display_tag = display_tag p, po_created_at = p_created_at p,
      po_updated_at = p_updated_at p, po_job_role = job_role p, po_birthday = birthday p,
      po_field_A = p_field_A p, po_field_B = p_field_B p, po_field_C = p_field_C p,
      po_field_D = p_field_D p, po_field_E = p_field_E p\<rparr>"

section \<open>ShiftOut (schemas.py, lines 37--54)\<close>

text \<open>
  \<open>ShiftOut\<close> validates the dictionary built from a joined row
  (\<open>shift_out\<close> of the query helpers): the shift's columns and the person's
  two names.
\<close>

record shift_out_model =
  so_id :: ident
  so_start_time :: timestamp
  so_end_time :: timestamp
  so_created_at :: timestamp
  so_updated_at :: timestamp
  so_person_id :: ident
  so_comment :: "string option"
  so_field_A :: "string option"
  so_field_B :: "string option"
  so_field_C :: "string option"
  so_field_D :: "string option"
  so_field_E :: "string option"
  so_first_name :: string
  so_last_name :: string

definition shift_out_model_of :: "shift_out \<Rightarrow> shift_out_model" where
  "shift_out_model_of r =
     (let s = out_shift r
      in \<lparr>so_id = sid s, so_start_time = start_time s, so_end_time = end_time s,
          so_created_at = s_created_at s, so_updated_at = s_updated_at s,
          so_person_id = person_id s, so_comment = comment s,
          so_field_A = s_field_A s, so_field_B = s_field_B s, so_field_C = s_field_C s,
          so_field_D = s_field_D s, so_field_E = s_field_E s,
          so_first_name = out_first_name r, so_last_name = out_last_name r\<rparr>)"

section \<open>Validation of every response\<close>

text \<open>\<open>Page[M]\<close>: the page validates when each of its items validates against \<open>M\<close>.\<close>

definition validate_page :: "('a \<Rightarrow> 'b option) \<Rightarrow> 'a page \<Rightarrow> 'b page option" where
  "validate_page f pg =
     map_option
       (\<lambda>ys. \<lparr>items = ys, total = total pg, page_no = page_no pg, page_size = page_size pg,
             pages = pages pg, links = links pg\<rparr>)
       (those (map f (items pg)))"

text \<open>
  The body FastAPI sends for a handler's return value, converted through the
  handler's return annotation: \<open>Person\<close>, \<open>PersonOut\<close>, \<open>Page[PersonOut]\<close>,
  \<open>Shift\<close>, \<open>Page[ShiftOut]\<close>, \<open>Dict[str, str]\<close>, \<open>Overtime\<close>,
  \<open>Page[OvertimeOut]\<close> and \<open>list[OvertimeOut]\<close>; \<open>get_shift_by_id\<close> and
  \<open>hello_world\<close> declare none, their value is sent as it is.
\<close>

datatype response_body =
    BPerson person_in
  | BPersonOut person_out
  | BPersonOuts "person_out page"
  | BShift shift_in
  | BShiftDict shift_out
  | BShiftOuts "shift_out_model page"
  | BMessage string
  | BOvertime overtime_in
  | BOvertimeOuts "overtime_out page"
  | BOvertimeOutList "overtime_out list"
  | BHello string

fun validate_response :: "response \<Rightarrow> response_body option" where
  "validate_response (RPerson p) = Some (BPerson p)"
| "validate_response (RPersonOut p) = Some (BPersonOut (person_out_of p))"
| "validate_response (RPersons pg) = Some (BPersonOuts (map_page person_out_of pg))"
| "validate_response (RShift s) = Some (BShift s)"
| "validate_response (RShiftOut r) = Some (BShiftDict r)"
| "validate_response (RShifts pg) = Some (BShiftOuts (map_page shift_out_model_of pg))"
| "validate_response (RMessage m) = Some (BMessage m)"
| "validate_response (ROvertime ot) = Some (BOvertime ot)"
| "validate_response (ROvertimes pg) = map_option BOvertimeOuts (validate_page overtime_out_of pg)"
| "validate_response (ROvertimeList xs) = map_option BOvertimeOutList (validate_overtimes xs)"
| "validate_response (RHello s) = Some (BHello s)"

section \<open>A client following the links of GET /overtime\<close>

text \<open>
  A client that reads \<open>GET /overtime?page=n&size=sz\<close>, keeps the validated
  items and follows the page's \<open>next\<close> link until there is none. The loop ends
  only because the service's pages advance, so it is a partial function:
  \<open>None\<close> is a client that never stops or a response it cannot read.
\<close>

partial_function (option) follow_overtime_links ::
  "string option \<Rightarrow> string option \<Rightarrow> nat \<Rightarrow> nat \<Rightarrow> db \<Rightarrow> overtime_out list option" where
  "follow_overtime_links k h sz n d =
     (case handle k h (GetOvertimes \<lparr>pg_page = n, pg_size = sz\<rparr>) 0 (sconst 0) d of
        Some (Inr resp, d') \<Rightarrow>
          (case validate_response resp of
             Some (BOvertimeOuts pg) \<Rightarrow>
               (case lk_next (links pg) of
                  None \<Rightarrow> Some (items pg)
                | Some m \<Rightarrow> Option.bind (follow_overtime_links k h sz m d') (\<lambda>rest. Some (items pg @ rest)))
           | _ \<Rightarrow> None)
      | _ \<Rightarrow> None)"

section \<open>Lemmas\<close>

lemma validate_overtimes_typed:
  "(\<forall>ot \<in> set xs. ot_type ot \<noteq> None \<and> hours ot \<noteq> None) \<Longrightarrow>
   \<exists>ys. validate_overtimes xs = Some ys \<and> map oo_shift_id ys = map shift_id xs"
  by (induction xs) (auto simp: validate_overtimes_def overtime_out_of_def)

lemma create_overtime_typed:
  "create_overtime ot now d = (r, d') \<Longrightarrow> overtimes_typed d \<Longrightarrow> overtimes_typed d'"
  by (auto simp: create_overtime_def insert_overtime_def overtimes_typed_def set_insort_key Let_def
                 new_overtime_row_def split: sum.splits if_splits)

lemma route_typed:
  assumes "route req now rs d = Some (r, d')" and "overtimes_typed d"
  shows "overtimes_typed d'"
proof (cases req)
  case (PostPerson p)
  with assms show ?thesis
    by (auto simp: create_person_eq insert_person_def overtimes_typed_def split: sum.splits if_splits)
next
  case (PutPerson i p)
  with assms show ?thesis
    by (cases "update_person p i now d")
       (auto simp: overtimes_typed_def dest: update_person_keeps_keys_and_tags)
next
  case (DeletePerson i)
  with assms show ?thesis
    by (auto simp: delete_person_def overtimes_typed_def split: option.splits)
next
  case (PostShift s)
  with assms show ?thesis
    by (auto simp: create_shift_def insert_shift_def Let_def overtimes_typed_def split: if_splits)
next
  case (PutShift i s)
  with assms show ?thesis
    by (auto simp: update_shift_def Let_def overtimes_typed_def split: if_splits option.splits)
next
  case (DeleteShift i)
  with assms show ?thesis
    by (auto simp: delete_shift_def overtimes_typed_def split: option.splits)
next
  case (PostOvertime ot)
  with assms show ?thesis
    by (cases "create_overtime ot now d") (auto dest: create_overtime_typed)
qed (use assms in auto)

lemma api_step_typed: "api_step k d d' \<Longrightarrow> overtimes_typed d \<Longrightarrow> overtimes_typed d'"
  by (erule api_step.cases)
     (auto simp: handle_def delete_records_def overtimes_typed_def
           split: if_splits sum.splits dest: route_typed)

lemma reachable_overtimes_typed: "reachable k d \<Longrightarrow> overtimes_typed d"
  by (erule reachable_invariant) (auto simp: overtimes_typed_def empty_db_def dest: api_step_typed)

lemma validate_overtimes_subset:
  "overtimes_typed d \<Longrightarrow> set xs \<subseteq> set (overtimes d) \<Longrightarrow> \<exists>ys. validate_overtimes xs = Some ys"
  unfolding overtimes_typed_def by (meson subsetD validate_overtimes_typed)

lemma validate_overtimes_append:
  "validate_overtimes xs = Some a \<Longrightarrow> validate_overtimes ys = Some b \<Longrightarrow>
   validate_overtimes (xs @ ys) = Some (a @ b)"
  by (induction xs arbitrary: a) (auto simp: validate_overtimes_def split: option.splits)

lemma validate_response_overtimes:
  "validate_overtimes (items pg) = Some ys \<Longrightarrow>
   validate_response (ROvertimes pg) =
     Some (BOvertimeOuts \<lparr>items = ys, total = total pg, page_no = page_no pg,
                          page_size = page_size pg, pages = pages pg, links = links pg\<rparr>)"
  by (simp add: validate_page_def validate_overtimes_def)

lemma handle_Inr_route:
  "handle k h req now rs d = Some (Inr r, d') \<Longrightarrow> route req now rs d = Some (Inr r, d')"
  by (auto simp: handle_def split: if_splits sum.splits)

lemma validate_response_other:
  "(\<And>pg. r \<noteq> ROvertimes pg) \<Longrightarrow> (\<And>xs. r \<noteq> ROvertimeList xs) \<Longrightarrow> validate_response r \<noteq> None"
  by (cases r) auto

lemma route_response_validates:
  assumes r: "route req now rs d = Some (Inr r, d')" and t: "overtimes_typed d"
  shows "validate_response r \<noteq> None"
proof (cases req)
  case (GetOvertimes pp)
  obtain ys where "validate_overtimes (items (paginate pp (overtimes d))) = Some ys"
    using validate_overtimes_subset [OF t paginate_set] by blast
  with GetOvertimes r show ?thesis
    by (auto simp: get_all_overtimes_def validate_page_def validate_overtimes_def)
next
  case (GetOvertime i)
  obtain ys where "validate_overtimes (filter (\<lambda>ot. shift_id ot = i) (overtimes d)) = Some ys"
    using validate_overtimes_subset [OF t filter_is_subset] by blast
  with GetOvertime r show ?thesis
    by (auto simp: get_overtime_by_shift_def split: option.splits)
next
  case (PostPerson p)
  with r show ?thesis
    by (cases "create_person p now rs d") (auto intro: validate_response_other)
next
  case (PutPerson i p)
  with r show ?thesis
    by (cases "update_person p i now d") (auto intro: validate_response_other)
next
  case (DeletePerson i)
  with r show ?thesis
    by (cases "delete_person i d") (auto intro: validate_response_other)
next
  case (PostShift s)
  with r show ?thesis
    by (cases "create_shift s now d") (auto intro: validate_response_other)
next
  case (PutShift i s)
  with r show ?thesis
    by (cases "update_shift s i now d") (auto intro: validate_response_other)
next
  case (DeleteShift i)
  with r show ?thesis
    by (cases "delete_shift i d") (auto intro: validate_response_other)
next
  case (PostOvertime ot)
  with r show ?thesis
    by (cases "create_overtime ot now d") (auto intro: validate_response_other)
qed (use r in \<open>auto intro: validate_response_other\<close>)

text \<open>
  C35: in every reachable store, every response of every route validates
  against the route's declared response model (\<open>PersonOut\<close>,
  \<open>Page[ShiftOut]\<close>, \<open>Page[OvertimeOut]\<close>, \<open>list[OvertimeOut]\<close>, ...),
  although the columns \<open>type\<close> and \<open>hours\<close> of \<open>overtimes\<close> are
  nullable: no request ends in a response-validation error.
\<close>

theorem reachable_responses_validate:
  assumes "reachable k d" and "handle k h req now rs d = Some (Inr r, d')"
  shows "validate_response r \<noteq> None"
  using route_response_validates [OF handle_Inr_route [OF assms(2)] reachable_overtimes_typed [OF assms(1)]] .


end
