(* ===== verification/Database_Config.thy ===== *)
theory Database_Config
  imports Prelude
begin

text \<open>
  The database configuration of \<open>src/api/database.py\<close> and its use at start-up
  in \<open>src/main.py\<close>. The module reads the process environment once, at import:
  on Heroku (\<open>NAMESPACE=heroku\<close>) it rewrites the \<open>postgres://\<close> scheme of
  \<open>DATABASE_URL\<close> to the \<open>postgresql://\<close> that SQLAlchemy accepts, anywhere
  else it opens the SQLite file \<open>sql_app.db\<close>. \<open>main.py\<close> then creates the
  tables through that engine. The environment is a finite map; an engine is its
  URL and its \<open>connect_args\<close>; a failed start-up is an error value.
\<close>

type_synonym environ = "string \<rightharpoonup> string"

text \<open>The exceptions raised at import: a missing key of \<open>os.environ\<close>, and DDL run without an engine.\<close>

datatype config_error = KeyError string | UnboundExecutionError

text \<open>\<open>create_engine(url, connect_args=...)\<close>: \<open>None\<close> when no \<open>connect_args\<close> are given.\<close>

record engine =
  engine_url :: string
  check_same_thread :: "bool option"

definition sqlite_database_url :: string where
  "sqlite_database_url = ''sqlite:///./sql_app.db''"

text \<open>Line 7: \<open>"NAMESPACE" in os.environ and os.environ["NAMESPACE"] == "heroku"\<close>.\<close>

definition on_heroku :: "environ \<Rightarrow> bool" where
  "on_heroku env \<longleftrightarrow> env ''NAMESPACE'' = Some ''heroku''"

text \<open>
  Lines 5--16: the module-level \<open>engine\<close>, \<open>None\<close> when the Heroku branch
  finds a URL that does not start with \<open>postgres://\<close> (the \<open>if\<close> of line 9 has
  no \<open>else\<close>).
\<close>

definition database_engine :: "environ \<Rightarrow> config_error + engine option" where
  "database_engine env =
     (if on_heroku env then
        (case env ''DATABASE_URL'' of
           None \<Rightarrow> Inl (KeyError ''DATABASE_URL'')
         | Some uri \<Rightarrow>
             (if uri \<noteq> [] \<and> py_startswith uri ''postgres://''
              then Inr (Some \<lparr>engine_url = py_replace1 ''postgres://'' ''postgresql://'' uri,
                              check_same_thread = None\<rparr>)
              else Inr None))
      else Inr (Some \<lparr>engine_url = sqlite_database_url, check_same_thread = Some False\<rparr>))"

text \<open>
  \<open>main.py\<close> line 12, \<open>models.Base.metadata.create_all(bind=engine)\<close>: with
  no engine the DDL has nothing to run on and the import of \<open>main\<close> fails, so
  the application never serves; otherwise it serves through the engine (the
  \<open>SessionLocal\<close> factory of line 18 is bound to the same engine).
\<close>

definition app_startup :: "environ \<Rightarrow> config_error + engine" where
  "app_startup env =
     (case database_engine env of
        Inl e \<Rightarrow> Inl e
      | Inr None \<Rightarrow> Inl UnboundExecutionError
      | Inr (Some eng) \<Rightarrow> Inr eng)"

section \<open>Lemmas\<close>

lemma app_startup_not_heroku:
  "\<not> on_heroku env \<Longrightarrow>
   app_startup env = Inr \<lparr>engine_url = sqlite_database_url, check_same_thread = Some False\<rparr>"
  by (simp add: app_startup_def database_engine_def)

lemma app_startup_heroku:
  "on_heroku env \<Longrightarrow> env ''DATABASE_URL'' = Some uri \<Longrightarrow>
   app_startup env =
     (if py_startswith uri ''postgres://''
      then Inr \<lparr>engine_url = py_replace1 ''postgres://'' ''postgresql://'' uri, check_same_thread = None\<rparr>
      else Inl UnboundExecutionError)"
  by (auto simp: app_startup_def database_engine_def dest: py_startswith_Cons_not_Nil)

text \<open>
  C27: on Heroku with \<open>DATABASE_URL\<close> set, the application fails to start
  exactly when the URL does not begin with \<open>postgres://\<close>; in particular a URL
  already written with the \<open>postgresql://\<close> scheme SQLAlchemy asks for leaves
  the engine \<open>None\<close>, and \<open>create_all\<close> fails.
\<close>

theorem app_startup_unbound_iff:
  assumes "on_heroku env" and "env ''DATABASE_URL'' = Some uri"
  shows "app_startup env = Inl UnboundExecutionError \<longleftrightarrow> \<not> py_startswith uri ''postgres://''"
  using app_startup_heroku [OF assms] by simp

text \<open>
  C34: when the application starts on Heroku, its engine's URL is the
  configured one with only its leading \<open>postgres://\<close> rewritten to
  \<open>postgresql://\<close>, the rest of the URL kept character for character, and no
  SQLite connection arguments.
\<close>

theorem app_startup_heroku_url:
  assumes "on_heroku env" and "app_startup env = Inr eng"
  shows "\<exists>rest. env ''DATABASE_URL'' = Some (''postgres://'' @ rest) \<and>
           engine_url eng = ''postgresql://'' @ rest \<and> check_same_thread eng = None"
proof (cases "env ''DATABASE_URL''")
  case None
  with assms show ?thesis by (simp add: app_startup_def database_engine_def)
next
  case (Some uri)
  with assms have "py_startswith uri ''postgres://''"
    and eng: "eng = \<lparr>engine_url = py_replace1 ''postgres://'' ''postgresql://'' uri,
                      check_same_thread = None\<rparr>"
    by (simp_all add: app_startup_heroku split: if_splits)
  then obtain rest where u: "uri = ''postgres://'' @ rest" by (auto simp: py_startswith_iff)
  have url: "engine_url eng = ''postgresql://'' @ rest"
    by (simp only: eng u py_replace1_prefix engine.select_convs)
  have "check_same_thread eng = None" by (simp only: eng engine.select_convs)
  with Some u url show ?thesis by blast
qed

text \<open>The two start-ups of the claims above, on concrete environments.\<close>

theorem app_startup_unbound_iff_witness:
  "on_heroku [''NAMESPACE'' \<mapsto> ''heroku'', ''DATABASE_URL'' \<mapsto> ''postgresql://h/db''] \<and>
   [''NAMESPACE'' \<mapsto> ''heroku'', ''DATABASE_URL'' \<mapsto> ''postgresql://h/db''] ''DATABASE_URL'' =
     Some ''postgresql://h/db'' \<and>
   app_startup [''NAMESPACE'' \<mapsto> ''heroku'', ''DATABASE_URL'' \<mapsto> ''postgresql://h/db''] =
     Inl UnboundExecutionError"
proof -
  let ?env = "[''NAMESPACE'' \<mapsto> ''heroku'', ''DATABASE_URL'' \<mapsto> ''postgresql://h/db'']"
  have h: "on_heroku ?env" by (simp add: on_heroku_def)
  have u: "?env ''DATABASE_URL'' = Some ''postgresql://h/db''" by simp
  have n: "\<not> py_startswith ''postgresql://h/db'' ''postgres://''" by (simp add: py_startswith_def)
  have a: "app_startup ?env = Inl UnboundExecutionError"
    using app_startup_unbound_iff [OF h u] n by blast
  show ?thesis by (rule conjI [OF h conjI [OF u a]])
qed

theorem app_startup_heroku_url_witness:
  "on_heroku [''NAMESPACE'' \<mapsto> ''heroku'', ''DATABASE_URL'' \<mapsto> ''postgres://h/postgres://x''] \<and>
   app_startup [''NAMESPACE'' \<mapsto> ''heroku'', ''DATABASE_URL'' \<mapsto> ''postgres://h/postgres://x''] =
     Inr \<lparr>engine_url = ''postgresql://h/postgres://x'', check_same_thread = None\<rparr> \<and>
   (\<exists>rest. [''NAMESPACE'' \<mapsto> ''heroku'', ''DATABASE_URL'' \<mapsto> ''postgres://h/postgres://x'']
             ''DATABASE_URL'' = Some (''postgres://'' @ rest) \<and>
           engine_url \<lparr>engine_url = ''postgresql://h/postgres://x'', check_same_thread = None\<rparr> =
             ''postgresql://'' @ rest \<and>
           check_same_thread \<lparr>engine_url = ''postgresql://h/postgres://x'', check_same_thread = None\<rparr> =
             None)"
proof -
  let ?env = "[''NAMESPACE'' \<mapsto> ''heroku'', ''DATABASE_URL'' \<mapsto> ''postgres://h/postgres://x'']"
  have h: "on_heroku ?env" by (simp add: on_heroku_def)
  have u: "?env ''DATABASE_URL'' = Some ''postgres://h/postgres://x''" by simp
  have p: "py_startswith ''postgres://h/postgres://x'' ''postgres://''" by (simp add: py_startswith_def)
  have r: "py_replace1 ''postgres://'' ''postgresql://'' ''postgres://h/postgres://x'' =
           ''postgresql://h/postgres://x''"
    using py_replace1_prefix [of "''postgres://''" "''postgresql://''" "''h/postgres://x''"] by simp
  have s: "app_startup ?env = Inr \<lparr>engine_url = ''postgresql://h/postgres://x'', check_same_thread = None\<rparr>"
    by (simp only: app_startup_heroku [OF h u] p r if_True)
  show ?thesis by (rule conjI [OF h conjI [OF s app_startup_heroku_url [OF h s]]])
qed

end
