(* ===== verification/Session.thy ===== *)
theory Session
  imports Person_Router Shift_Router Overtime_Router
begin

text \<open>
  The database session of a request: \<open>get_db\<close> of \<open>src/dependencies.py\<close>
  opens a \<open>SessionLocal()\<close> (\<open>autocommit=False\<close>, \<open>autoflush=False\<close>,
  \<open>src/api/database.py\<close> line 18), hands it to the handler and closes it in a
  \<open>finally\<close>, on every exit path. Inside the session, \<open>db.add\<close> only records
  the new object; \<open>Query.update\<close> and \<open>Query.delete\<close> run their statement at
  once inside the open transaction; \<open>db.commit\<close> flushes the added objects
  (the engine picks a new row's id and checks the constraints there) and makes
  the transaction's state the committed one; \<open>db.close\<close> rolls back whatever
  was not committed. The mutating handlers are written here the way the
  routers drive the session, and each is proved to refine the store-level
  handler that the other theories use, which updates the store at once:
  a request is atomic.
\<close>

section \<open>The session (SQLAlchemy \<open>Session\<close>)\<close>

text \<open>An object given to \<open>db.add\<close>, written at the next flush.\<close>

datatype pending_row = PendingPerson person | PendingShift shift | PendingOvertime overtime

record session =
  sess_committed :: db
  sess_working :: db
  sess_pending :: "pending_row list"
  sess_closed :: bool

text \<open>\<open>SessionLocal()\<close>: a new session over the committed store.\<close>

definition session_local :: "db \<Rightarrow> session" where
  "session_local d = \<lparr>sess_committed = d, sess_working = d, sess_pending = [], sess_closed = False\<rparr>"

definition db_add :: "pending_row \<Rightarrow> session \<Rightarrow> session" where
  "db_add r s = s\<lparr>sess_pending := sess_pending s @ [r]\<rparr>"

text \<open>\<open>Query.update\<close> and \<open>Query.delete\<close>: a statement run inside the transaction.\<close>

definition db_execute :: "(db \<Rightarrow> db) \<Rightarrow> session \<Rightarrow> session" where
  "db_execute f s = s\<lparr>sess_working := f (sess_working s)\<rparr>"

text \<open>
  The \<open>INSERT\<close> of one added object at flush: a person or a shift gets the
  row id SQLite assigns at that moment; an overtime's key is its \<open>shift_id\<close>.
\<close>

fun flush_row :: "pending_row \<Rightarrow> db \<Rightarrow> error + db" where
  "flush_row (PendingPerson p) d = insert_person (p\<lparr>pid := sqlite_next_rowid (map pid (persons d))\<rparr>) d"
| "flush_row (PendingShift sh) d = Inr (insert_shift (sh\<lparr>sid := sqlite_next_rowid (map sid (shifts d))\<rparr>) d)"
| "flush_row (PendingOvertime ot) d = insert_overtime ot d"

fun flush_rows :: "pending_row list \<Rightarrow> db \<Rightarrow> error + db" where
  "flush_rows [] d = Inr d"
| "flush_rows (r # rs) d = (case flush_row r d of Inl e \<Rightarrow> Inl e | Inr d' \<Rightarrow> flush_rows rs d')"

text \<open>\<open>db.commit()\<close>: flush, then commit; a failed flush raises and commits nothing.\<close>

definition db_commit :: "session \<Rightarrow> error + session" where
  "db_commit s =
     (case flush_rows (sess_pending s) (sess_working s) of
        Inl e \<Rightarrow> Inl e
      | Inr d' \<Rightarrow> Inr (s\<lparr>sess_committed := d', sess_working := d', sess_pending := []\<rparr>))"

text \<open>\<open>db.close()\<close>: what was not committed is rolled back.\<close>

definition db_close :: "session \<Rightarrow> session" where
  "db_close s = s\<lparr>sess_working := sess_committed s, sess_pending := [], sess_closed := True\<rparr>"

text \<open>
  \<open>get_db\<close>, \<open>dependencies.py\<close> lines 9--14: the handler runs on a new session,
  which is closed afterwards whatever the handler's outcome, an exception
  included. A handler that does not return (\<open>None\<close>) never reaches the
  \<open>finally\<close>.
\<close>

definition get_db :: "(session \<Rightarrow> ('r \<times> session) option) \<Rightarrow> db \<Rightarrow> ('r \<times> session) option" where
  "get_db handler d = map_option (\<lambda>(r, s). (r, db_close s)) (handler (session_local d))"

text \<open>The committed store after a request, the one the next request sees.\<close>

definition committed_after :: "(session \<Rightarrow> ('r \<times> session) option) \<Rightarrow> db \<Rightarrow> ('r \<times> db) option" where
  "committed_after handler d = map_option (map_prod id sess_committed) (get_db handler d)"

section \<open>The mutating handlers on the session\<close>

text \<open>A commit at the end of a handler: its exception ends the request.\<close>

definition commit_then :: "'a \<Rightarrow> session \<Rightarrow> (error + 'a) \<times> session" where
  "commit_then v s = (case db_commit s of Inl e \<Rightarrow> (Inl e, s) | Inr s' \<Rightarrow> (Inr v, s'))"

text \<open>\<open>create_person\<close>, person.py lines 21--42.\<close>

definition create_person_session ::
  "person_in \<Rightarrow> timestamp \<Rightarrow> nat stream \<Rightarrow> session \<Rightarrow> ((error + person_in) \<times> session) option" where
  "create_person_session person now rs s =
     (case generate_display_tag person (sess_working s) rs of
        None \<Rightarrow> None
      | Some (tag, _) \<Rightarrow>
          Some (commit_then person
                  (db_add (PendingPerson (new_person_row person now tag (sess_working s))) s)))"

text \<open>\<open>update_person\<close>, person.py lines 90--108.\<close>

definition update_person_session ::
  "person_in \<Rightarrow> ident \<Rightarrow> timestamp \<Rightarrow> session \<Rightarrow> (error + person_in) \<times> session" where
  "update_person_session person person_id' now s =
     (case find_person (sess_working s) person_id' of
        Some _ \<Rightarrow>
          commit_then person
            (db_execute (\<lambda>d. d\<lparr>persons := map (\<lambda>p. if pid p = person_id'
                                                  then p\<lparr>first_name := in_first_name person,
                                                         last_name := in_last_name person,
                                                         job_role := in_job_role person,
                                                         birthday := in_birthday person,
                                                         p_updated_at := now\<rparr>
                                                  else p) (persons d)\<rparr>) s)
      | None \<Rightarrow> (Inl person_not_found, s))"

text \<open>\<open>delete_person\<close>, person.py lines 131--144: two bulk deletes, one commit.\<close>

definition delete_person_session :: "ident \<Rightarrow> session \<Rightarrow> (error + string) \<times> session" where
  "delete_person_session person_id' s =
     (case find_person (sess_working s) person_id' of
        Some _ \<Rightarrow>
          commit_then ''Person deleted successfully''
            (db_execute (\<lambda>d. d\<lparr>persons := filter (\<lambda>p. pid p \<noteq> person_id') (persons d)\<rparr>)
              (db_execute (\<lambda>d. d\<lparr>shifts := filter (\<lambda>s. person_id s \<noteq> person_id') (shifts d)\<rparr>) s))
      | None \<Rightarrow> (Inl person_not_found, s))"

text \<open>\<open>create_shift\<close>, shift.py lines 25--42.\<close>

definition create_shift_session :: "shift_in \<Rightarrow> timestamp \<Rightarrow> session \<Rightarrow> (error + shift_in) \<times> session" where
  "create_shift_session shift' now s =
     (if in_start_time shift' > in_end_time shift' then (Inl end_before_start, s)
      else commit_then shift' (db_add (PendingShift (new_shift_row shift' now (sess_working s))) s))"

text \<open>\<open>update_shift\<close>, shift.py lines 104--124.\<close>

definition update_shift_session ::
  "shift_in \<Rightarrow> ident \<Rightarrow> timestamp \<Rightarrow> session \<Rightarrow> (error + shift_in) \<times> session" where
  "update_shift_session shift' shift_id' now s =
     (let found = find_shift (sess_working s) shift_id'
      in if in_start_time shift' > in_end_time shift' then (Inl end_before_start, s)
         else
           (case found of
              Some _ \<Rightarrow>
                commit_then shift'
                  (db_execute (\<lambda>d. d\<lparr>shifts := map (\<lambda>r. if sid r = shift_id'
                                                       then r\<lparr>start_time := in_start_time shift',
                                                              end_time := in_end_time shift',
                                                              comment := in_comment shift',
                                                              s_updated_at := now\<rparr>
                                                       else r) (shifts d)\<rparr>) s)
            | None \<Rightarrow> (Inl shift_not_found, s)))"

text \<open>\<open>delete_shift\<close>, shift.py lines 127--136.\<close>

definition delete_shift_session :: "ident \<Rightarrow> session \<Rightarrow> (error + string) \<times> session" where
  "delete_shift_session shift_id' s =
     (case find_shift (sess_working s) shift_id' of
        Some _ \<Rightarrow>
          commit_then ''Shift deleted successfully''
            (db_execute (\<lambda>d. d\<lparr>shifts := filter (\<lambda>r. sid r \<noteq> shift_id') (shifts d)\<rparr>) s)
      | None \<Rightarrow> (Inl shift_not_found, s))"

text \<open>\<open>create_overtime\<close>, overtime.py lines 18--30.\<close>

definition create_overtime_session ::
  "overtime_in \<Rightarrow> timestamp \<Rightarrow> session \<Rightarrow> (error + overtime_in) \<times> session" where
  "create_overtime_session overtime' now s =
     commit_then overtime' (db_add (PendingOvertime (new_overtime_row overtime' now)) s)"

section \<open>Lemmas\<close>

lemma get_db_closed: "get_db handler d = Some (r, s) \<Longrightarrow> sess_closed s"
  by (auto simp: get_db_def db_close_def)

text \<open>
  The committed store after a request whose handler ends with one commit: the
  commit's result when it succeeds, the store the request started from
  otherwise.
\<close>

lemma committed_after_commit_then:
  "committed_after (\<lambda>s. Some (commit_then v (f s))) d =
     Some (case db_commit (f (session_local d)) of
             Inl e \<Rightarrow> (Inl e, sess_committed (f (session_local d)))
           | Inr s' \<Rightarrow> (Inr v, sess_committed s'))"
  by (simp add: committed_after_def get_db_def commit_then_def db_close_def split: sum.split)

lemma db_commit_execute:
  "db_commit (db_execute g (session_local d)) =
     Inr \<lparr>sess_committed = g d, sess_working = g d, sess_pending = [], sess_closed = False\<rparr>"
  by (simp add: db_commit_def db_execute_def session_local_def)

lemma db_commit_add:
  "db_commit (db_add r (session_local d)) =
     map_sum id (\<lambda>d'. \<lparr>sess_committed = d', sess_working = d', sess_pending = [], sess_closed = False\<rparr>)
       (flush_row r d)"
  by (simp add: db_commit_def db_add_def session_local_def split: sum.split)

lemma session_local_simps [simp]:
  "sess_working (session_local d) = d" "sess_committed (session_local d) = d"
  by (simp_all add: session_local_def)

lemma new_person_row_flush:
  "(new_person_row p now tag d)\<lparr>pid := sqlite_next_rowid (map pid (persons d))\<rparr> = new_person_row p now tag d"
  by (simp add: new_person_row_def)

lemma new_shift_row_flush:
  "(new_shift_row sh now d)\<lparr>sid := sqlite_next_rowid (map sid (shifts d))\<rparr> = new_shift_row sh now d"
  by (simp add: new_shift_row_def)

lemmas session_defs =
  committed_after_def get_db_def commit_then_def db_commit_def db_execute_def db_close_def
  session_local_def db_add_def

lemma create_person_session_refines:
  "committed_after (create_person_session p now rs) d = create_person p now rs d"
  by (cases "generate_display_tag p d rs")
     (auto simp: create_person_session_def create_person_def session_defs new_person_row_flush
           split: sum.split)

lemma update_person_session_refines:
  "committed_after (\<lambda>s. Some (update_person_session p i now s)) d = Some (update_person p i now d)"
  by (cases "find_person d i") (simp_all add: update_person_session_def update_person_def session_defs)

lemma delete_person_session_refines:
  "committed_after (\<lambda>s. Some (delete_person_session i s)) d = Some (delete_person i d)"
  by (cases "find_person d i") (simp_all add: delete_person_session_def delete_person_def session_defs)

lemma create_shift_session_refines:
  "committed_after (\<lambda>s. Some (create_shift_session sh now s)) d = Some (create_shift sh now d)"
  by (simp add: create_shift_session_def create_shift_def session_defs new_shift_row_flush Let_def)

lemma update_shift_session_refines:
  "committed_after (\<lambda>s. Some (update_shift_session sh i now s)) d = Some (update_shift sh i now d)"
  by (cases "find_shift d i") (simp_all add: update_shift_session_def update_shift_def session_defs Let_def)

lemma delete_shift_session_refines:
  "committed_after (\<lambda>s. Some (delete_shift_session i s)) d = Some (delete_shift i d)"
  by (cases "find_shift d i") (simp_all add: delete_shift_session_def delete_shift_def session_defs)

lemma create_overtime_session_refines:
  "committed_after (\<lambda>s. Some (create_overtime_session ot now s)) d = Some (create_overtime ot now d)"
  by (simp add: create_overtime_session_def create_overtime_def session_defs Let_def split: sum.split)


end
