(* ===== verification/Spec2Isabelle.thy ===== *)
theory Spec2Isabelle
  imports Populate Responses Database_Config Session
begin

text \<open>
  \<^bold>\<open>A verification development of the staff-scheduling backend.\<close>

  The program (\<open>src/\<close>) is a FastAPI service over a SQLite database with three
  tables: persons, the shifts they work, and overtime entries attached to a
  shift. Three routers (\<open>src/api/routers/person.py\<close>, \<open>shift.py\<close>,
  \<open>overtime.py\<close>) implement create/read/update/delete handlers; they share the
  query helpers of \<open>src/api/helpers.py\<close> and run behind the API-key dependency
  of \<open>src/dependencies.py\<close>. \<open>src/main.py\<close> wires the routers and a liveness
  route; \<open>src/clear_database.py\<close> empties the tables.

  \<^bold>\<open>How the theories correspond to the code.\<close>
  \<^item> \<open>Prelude\<close>: the model's types (\<open>ident\<close> for row ids, \<open>timestamp\<close> for
    \<open>datetime\<close> as an integer count of microseconds), the Python string
    built-ins the handlers use (\<open>str.lower\<close> on ASCII, \<open>str.split(" ")\<close>,
    \<open>str(int)\<close>, truthiness, f-string rendering of an optional value), Python
    values for the \<open>in\<close> operator (\<open>pyval\<close>), and the ordered-table predicate
    \<open>keys_ordered\<close>, with the shared list, option and sum lemmas.
  \<^item> \<open>Store\<close>: the ORM rows of \<open>src/api/models.py\<close> as records
    (\<open>person\<close>, \<open>shift\<close>, \<open>overtime\<close>), the request bodies of
    \<open>src/api/schemas.py\<close>, the error datatype (a raised \<open>HTTPException\<close>, an
    \<open>IntegrityError\<close> at commit, a \<open>ValueError\<close>), and the SQLite engine: a
    table is a list in primary-key order, a new key is one more than the
    largest (no \<open>AUTOINCREMENT\<close>, so keys are reused), the \<open>UNIQUE\<close> display tag
    and the overtime primary key are enforced at commit, foreign keys are not.
    The invariant \<open>wf_db\<close> is proved preserved by every store operation.
  \<^item> \<open>Query\<close>: \<open>person_search\<close>, \<open>sort_query_by\<close>, \<open>apply_date_filters\<close>,
    \<open>shift_join_with_shift_id\<close> and \<open>shift_join_with_person_id\<close> of
    \<open>helpers.py\<close>; SQL \<open>LIKE\<close> (\<open>sql_like\<close>); the \<open>fastapi_pagination\<close> page
    of \<open>fastapi_pagination.links\<close> with its items, total, page count
    (\<open>ceil_div\<close>) and links to the first, last, current, next and previous
    page (modelled from the library's documented behaviour, the library not
    being in \<open>src/\<close>). Lemmas: \<open>LIKE '%w%'\<close> is substring search when \<open>w\<close>
    has no wildcard, the name search is the spec's case-insensitive
    containment, ordering is a stable sort (reversed for \<open>desc\<close>) that
    commutes with filtering and with the date filter, pages partition the
    result, and a page has a \<open>next\<close> link exactly while rows remain.
  \<^item> \<open>Display_Tag\<close>: \<open>generate_display_tag\<close> as written, its loop a
    \<open>partial_function (option)\<close> over an explicit stream of random draws, and
    the loop it means (\<open>unique_tag_loop\<close>) as an abstract specification.
  \<^item> \<open>Person_Router\<close>, \<open>Shift_Router\<close>, \<open>Overtime_Router\<close>: one definition per
    handler, taking the store, the clock (\<open>now\<close> for \<open>datetime.now\<close>) and, for
    \<open>create_person\<close>, the random draws, and returning the result (an error or
    the response body) with the store after the commit. Each handler's
    branches, its effect on the tables and its preservation of \<open>wf_db\<close> are
    lemmas; \<open>get_all_shifts\<close> is proved to refine an abstract listing
    specification (\<open>shift_listing_spec\<close>).
  \<^item> \<open>Api\<close>: \<open>get_api_key\<close>, the dispatch of a request to its handler
    (\<open>route\<close>, \<open>handle\<close>), sequences of requests (\<open>run\<close>), the service as a
    step relation (\<open>api_step\<close>: a request or a run of \<open>delete_records\<close>) and its
    reachable stores, which all satisfy \<open>wf_db\<close>.
  \<^item> \<open>Responses\<close>: the response models of \<open>schemas.py\<close> (\<open>PersonOut\<close>,
    \<open>ShiftOut\<close>, \<open>OvertimeOut\<close>) and the conversion of every handler's
    return value through its return annotation (\<open>validate_response\<close>); the
    typing invariant \<open>overtimes_typed\<close> of reachable stores; a client that
    follows the \<open>next\<close> links of \<open>GET /overtime\<close>
    (\<open>follow_overtime_links\<close>, a \<open>partial_function (option)\<close>).
  \<^item> \<open>Session\<close>: the request's database session of \<open>get_db\<close>
    (\<open>src/dependencies.py\<close>): \<open>db.add\<close>, bulk \<open>update\<close>/\<open>delete\<close>,
    \<open>db.commit\<close> (flush with row-id assignment and constraint checks) and
    \<open>db.close\<close> (rollback of what was not committed); the mutating handlers
    written against it, each proved to refine its store-level handler, which
    justifies modelling every request as one atomic store update.
  \<^item> \<open>Populate\<close>: \<open>src/populate.py\<close> as the requests it sends through the
    service model: its name tables, its \<open>randint\<close> draws as explicit
    indices, the server's clock and draws as a schedule (\<open>timed\<close>).
  \<^item> \<open>Database_Config\<close>: the engine choice of \<open>src/api/database.py\<close> as a
    function of the environment (a finite map), with \<open>str.startswith\<close> and
    \<open>str.replace(old, new, 1)\<close> of the Prelude, and the start-up of
    \<open>main.py\<close> (\<open>create_all\<close> through that engine) as an error or an engine.
  \<^item> This theory: scenarios across components, each a sequence of requests
    from the empty store evaluated by the simplifier; the data they post
    are those of \<open>src/tests/test_main.py\<close>.

  \<^bold>\<open>What the lemmas show.\<close> Display tags are unique in every reachable store,
  and every stored shift ends no earlier than it starts. The generator's
  retry loop is dead code: it compares a string with one-column rows, so the
  first candidate is returned even when taken, and the insert then fails on
  the \<open>UNIQUE\<close> constraint (a server error, where the docstring promises a
  unique tag). Deleting a shift, or a person, leaves its overtimes behind, and
  a later shift that reuses the freed id inherits them. A shift may name an
  absent person; such a shift is then invisible to \<open>GET /shift/{id}\<close>. With
  \<open>API_KEY\<close> unset, a request without the header is admitted. \<open>start = end\<close> is
  accepted by the time checks. Every response of every route validates
  against its declared response model in every reachable store, although the
  overtime columns \<open>type\<close> and \<open>hours\<close> are nullable; a client following the
  \<open>next\<close> links from page 1 stops and reads every overtime once, in order. A
  created person or shift is read back by its \<open>GET\<close> route; with fewer than
  900 persons some draw gives a free tag. \<open>populate.py\<close> refuses one shift in
  three (its third shift ends before it starts), gives every shift the
  absent person 0, and never posts overtimes. On Heroku the application does
  not start when \<open>DATABASE_URL\<close> is already written \<open>postgresql://\<close>: the
  rewrite of \<open>database.py\<close> has no \<open>else\<close> and leaves no engine.

  \<^bold>\<open>Bounds and fuel.\<close> No fuel is used. The three loops are
  \<open>partial_function (option)\<close>: the generator's loop is proved to return at
  once on every store, the meant loop to return whenever some later draw gives
  a free tag, the link-following client to return on every reachable store
  and page size from 1 to 100 (the pages advance by \<open>size\<close> rows, at least
  one). Every handler is proved to return (\<open>handle_returns\<close>). The tag
  suffix range \<open>100..999\<close> bounds the persons a fresh tag can be found for at
  900 (pigeonhole over the injective \<open>str\<close> of the draw).

  \<^bold>\<open>Not modelled.\<close> HTTP parsing and request validation by pydantic (a body
  of the wrong type is rejected before the handler with a 422), the CORS
  middleware and \<open>add_pagination\<close> of \<open>main.py\<close> (framework configuration,
  no behaviour of the service's own), concurrent requests (the model runs
  requests one after another, each in its own session), the URL strings of the page links (a link is
  its page number), the column length limits (SQLite does not enforce them),
  Unicode case mapping beyond ASCII, and \<open>src/tests/test_main.py\<close>, whose
  scenarios are replayed as theorems here.
\<close>

section \<open>Scenario data (src/tests/test_main.py)\<close>

definition anders :: person_in where
  "anders = \<lparr>in_first_name = ''Anders'', in_last_name = ''Postman'', in_job_role = None,
              in_birthday = None\<rparr>"

definition work_shift :: shift_in where
  "work_shift = \<lparr>in_start_time = 1708195140000000, in_end_time = 1708202340000000,
                  in_person_id = 1, in_comment = Some ''work''\<rparr>"

definition fix_issues :: overtime_in where
  "fix_issues = \<lparr>in_type = ''Fix issues'', in_hours = 1, in_shift_id = 1\<rparr>"

definition bob :: person_in where
  "bob = \<lparr>in_first_name = ''Bob'', in_last_name = ''Postman'', in_job_role = None, in_birthday = None\<rparr>"

definition alice :: person_in where
  "alice = \<lparr>in_first_name = ''Alice'', in_last_name = ''Test'', in_job_role = None, in_birthday = None\<rparr>"

text \<open>The store after one \<open>POST /overtime\<close> on the empty store.\<close>

definition overtime_store :: db where
  "overtime_store =
     snd (the (run (Some ''k'') (Some ''k'') [(PostOvertime fix_issues, 0, sconst 512)] empty_db))"

lemmas scenario_simps =
  bob_def alice_def anders_def work_shift_def fix_issues_def handle_def needs_api_key_def get_api_key_def
  create_person_eq empty_db_def insert_person_def new_person_row_def tag_prefix_def
  ascii_lower_def py_str_nat.simps eval_simps create_shift_def new_shift_row_def
  insert_shift_def sqlite_next_rowid_def create_overtime_def insert_overtime_def
  new_overtime_row_def delete_shift_def delete_person_def get_overtime_by_shift_def
  find_shift_def find_person_def Let_def

section \<open>Scenarios\<close>


text \<open>
  C28: a shift that ends when it starts is stored. The handlers reject only
  a start strictly after the end, so a reachable store holds a shift with no
  time worked, where the spec rejects \<open>end_time \<le>
  start_time\<close>.
\<close>

theorem zero_length_shift_accepted:
  "\<exists>d. reachable (Some ''k'') d \<and> (\<exists>s \<in> set (shifts d). time_worked s = 0)"
proof -
  let ?z = "work_shift\<lparr>in_end_time := in_start_time work_shift\<rparr>"
  obtain outs d where r: "run (Some ''k'') (Some ''k'') [(PostShift ?z, 0, sconst 512)] empty_db =
                           Some (outs, d)" and s: "\<exists>s \<in> set (shifts d). time_worked s = 0"
    by (simp add: scenario_simps time_worked_def)
  have "reachable (Some ''k'') d"
    using reachable_run [OF r reachable.init] .
  with s show ?thesis by blast
qed

text \<open>
  C29: nothing checks the person a shift names: a reachable store holds a
  shift whose person does not exist.
\<close>

theorem dangling_shift_reachable:
  "\<exists>d. reachable (Some ''k'') d \<and> (\<exists>s \<in> set (shifts d). person_id s \<notin> pid ` set (persons d))"
proof -
  obtain outs d where r: "run (Some ''k'') (Some ''k'') [(PostShift work_shift, 0, sconst 512)] empty_db =
                           Some (outs, d)"
    and s: "\<exists>s \<in> set (shifts d). person_id s \<notin> pid ` set (persons d)"
    by (simp add: scenario_simps)
  have "reachable (Some ''k'') d"
    using reachable_run [OF r reachable.init] .
  with s show ?thesis by blast
qed



text \<open>
  The test \<open>test_post_shift_end_time_before_start_time\<close>: a
  shift from 2024-02-17 18:39 to 2024-01-17 20:39 is refused with status 400
  and the test's detail, and the store is unchanged.
\<close>

theorem post_shift_end_before_start_test:
  "\<exists>d. run (Some ''k'') (Some ''k'')
      [(PostPerson anders, 0, sconst 512),
       (PostShift (work_shift\<lparr>in_end_time := 1705523940000000\<rparr>), 1, sconst 512)] empty_db =
      Some ([Inr (RPerson anders),
             Inl (HTTPException 400 ''End time cannot be before start time'')], d) \<and>
      shifts d = []"
  by (simp add: scenario_simps end_before_start_def)


section \<open>Witnesses\<close>

lemma zero_length_shift_accepted_witness:
  "\<exists>d. reachable (Some ''k'') d \<and> (\<exists>s \<in> set (shifts d). end_time s - start_time s = 0)"
  using zero_length_shift_accepted by (simp add: time_worked_def)

lemma dangling_shift_reachable_witness:
  "\<exists>d s. reachable (Some ''k'') d \<and> s \<in> set (shifts d) \<and> person_id s \<notin> pid ` set (persons d)"
  using dangling_shift_reachable by blast


lemma overtime_store_reachable: "reachable (Some ''k'') overtime_store"
proof -
  have r: "run (Some ''k'') (Some ''k'') [(PostOvertime fix_issues, 0, sconst 512)] empty_db =
             Some (fst (the (run (Some ''k'') (Some ''k'')
                     [(PostOvertime fix_issues, 0, sconst 512)] empty_db)), overtime_store)"
    by (simp add: overtime_store_def scenario_simps)
  show ?thesis by (rule reachable_run [OF r reachable.init])
qed

lemma reachable_responses_validate_witness:
  "reachable (Some ''k'') overtime_store \<and>
   handle (Some ''k'') (Some ''k'') (GetOvertimes default_params) 0 (sconst 512) overtime_store =
     Some (Inr (ROvertimes (paginate default_params (overtimes overtime_store))), overtime_store) \<and>
   validate_response (ROvertimes (paginate default_params (overtimes overtime_store))) \<noteq> None"
proof -
  have g: "handle (Some ''k'') (Some ''k'') (GetOvertimes default_params) 0 (sconst 512) overtime_store =
     Some (Inr (ROvertimes (paginate default_params (overtimes overtime_store))), overtime_store)"
    by (simp add: handle_own_key get_all_overtimes_def)
  show ?thesis
    by (rule conjI [OF overtime_store_reachable
                     conjI [OF g reachable_responses_validate [OF overtime_store_reachable g]]])
qed


end
